theory Spec2Isabelle
  imports Main "HOL-Library.Char_ord" "HOL-Library.List_Lexorder" "HOL-Library.Multiset"
begin

section \<open>Text\<close>

text \<open>
  Python text is modelled by \<open>string\<close>. A \<open>char\<close> stands for one code point in the range
  U+0000..U+00FF; on that range the character classes, the case mapping and the ordering below
  are those of Python 3 (\<open>str.isspace\<close>, \<open>str.isalnum\<close>, \<open>str.lower\<close>, comparison by code
  point). Message literals of the scripts that contain characters beyond that range (CJK text,
  emoji) are constants of their own further down: each holds the bytes of the UTF-8 encoding of the
  literal, and the scripts only ever concatenate them into their output.
\<close>

definition newline :: char where
  "newline = CHR 0x0A"

definition code :: "char \<Rightarrow> nat" where
  "code c = of_char c"

definition is_space :: "char \<Rightarrow> bool" where
  \<comment> \<open>\<open>str.isspace\<close> and the regex class \<open>\s\<close>\<close>
  "is_space c = (let n = code c in
     (9 \<le> n \<and> n \<le> 13) \<or> (28 \<le> n \<and> n \<le> 32) \<or> n = 133 \<or> n = 160)"

definition is_alnum :: "char \<Rightarrow> bool" where
  \<comment> \<open>\<open>str.isalnum\<close>: letters, decimal digits, and the digit and numeric characters of Latin-1\<close>
  "is_alnum c = (let n = code c in
     (48 \<le> n \<and> n \<le> 57) \<or> (65 \<le> n \<and> n \<le> 90) \<or> (97 \<le> n \<and> n \<le> 122) \<or>
     n = 170 \<or> n = 178 \<or> n = 179 \<or> n = 181 \<or> n = 185 \<or> n = 186 \<or>
     (188 \<le> n \<and> n \<le> 190) \<or> (192 \<le> n \<and> n \<le> 214) \<or> (216 \<le> n \<and> n \<le> 246) \<or>
     (248 \<le> n \<and> n \<le> 255))"

definition is_word :: "char \<Rightarrow> bool" where
  \<comment> \<open>the regex class \<open>\w\<close>\<close>
  "is_word c = (is_alnum c \<or> c = CHR ''_'')"

definition lower_char :: "char \<Rightarrow> char" where
  "lower_char c = (let n = code c in
     if (65 \<le> n \<and> n \<le> 90) \<or> (192 \<le> n \<and> n \<le> 214) \<or> (216 \<le> n \<and> n \<le> 222)
     then char_of (n + 32) else c)"

definition lower :: "string \<Rightarrow> string" where
  \<comment> \<open>\<open>str.lower\<close>\<close>
  "lower s = map lower_char s"

definition strip :: "string \<Rightarrow> string" where
  \<comment> \<open>\<open>str.strip()\<close>: white space removed at both ends\<close>
  "strip s = rev (dropWhile is_space (rev (dropWhile is_space s)))"

fun starts_with :: "string \<Rightarrow> string \<Rightarrow> bool" where
  \<comment> \<open>\<open>s.startswith(p)\<close>, written \<open>starts_with p s\<close>\<close>
  "starts_with [] s = True"
| "starts_with (p # ps) [] = False"
| "starts_with (p # ps) (c # cs) = (p = c \<and> starts_with ps cs)"

fun contains :: "string \<Rightarrow> string \<Rightarrow> bool" where
  \<comment> \<open>\<open>p in s\<close>, written \<open>contains p s\<close>\<close>
  "contains p [] = (p = [])"
| "contains p (c # cs) = (starts_with p (c # cs) \<or> contains p cs)"

fun split_on :: "char \<Rightarrow> string \<Rightarrow> string list" where
  \<comment> \<open>\<open>s.split(sep)\<close> for a separator of one character: never the empty list\<close>
  "split_on sep [] = [[]]"
| "split_on sep (c # cs) =
     (if c = sep then [] # split_on sep cs
      else (case split_on sep cs of
              [] \<Rightarrow> [[c]]
            | w # ws \<Rightarrow> (c # w) # ws))"

fun join :: "string \<Rightarrow> string list \<Rightarrow> string" where
  \<comment> \<open>\<open>sep.join(xs)\<close>\<close>
  "join sep [] = []"
| "join sep [x] = x"
| "join sep (x # y # ys) = x @ sep @ join sep (y # ys)"

definition digit_char :: "nat \<Rightarrow> char" where
  "digit_char d = char_of (48 + d)"

fun show_nat :: "nat \<Rightarrow> string" where
  \<comment> \<open>the decimal text of a number, as an f-string renders it\<close>
  "show_nat n = (if n < 10 then [digit_char n] else show_nat (n div 10) @ [digit_char (n mod 10)])"

declare show_nat.simps [simp del]

definition show_int :: "int \<Rightarrow> string" where
  "show_int i = (if i < 0 then CHR ''-'' # show_nat (nat (- i)) else show_nat (nat i))"

section \<open>Regular expressions\<close>

text \<open>
  The fragment of Python's \<open>re\<close> syntax that the two scripts use, with the matching order of a
  backtracking engine: the left alternative first, a greedy repetition longest first, a lazy
  one shortest first. Every repetition in the scripts' patterns is over a single-character
  class, so \<open>Rep\<close> and \<open>RepLazy\<close> take an atom.
\<close>

datatype atom =
    Lit char                        \<comment> \<open>a literal character\<close>
  | Dot                             \<comment> \<open>\<open>.\<close>: any character but a newline\<close>
  | Space                           \<comment> \<open>\<open>\s\<close>\<close>
  | Word                            \<comment> \<open>\<open>\w\<close>\<close>
  | OneOf "(char \<times> char) list"     \<comment> \<open>\<open>[...]\<close>, a list of ranges\<close>
  | NoneOf "(char \<times> char) list"    \<comment> \<open>\<open>[^...]\<close>\<close>
  | Beyond int                      \<comment> \<open>a literal code point above U+00FF: no \<open>char\<close> is it\<close>

datatype regex =
    Atom atom
  | Str string                      \<comment> \<open>a sequence of literal characters\<close>
  | Seq regex regex
  | Alt regex regex                 \<comment> \<open>\<open>a|b\<close>\<close>
  | Rep atom nat "nat option"       \<comment> \<open>greedy \<open>a{lo,hi}\<close>; \<open>*\<close> is \<open>Rep a 0 None\<close>, \<open>+\<close> is \<open>Rep a 1 None\<close>\<close>
  | RepLazy atom nat "nat option"   \<comment> \<open>lazy \<open>a{lo,hi}?\<close>; \<open>+?\<close> is \<open>RepLazy a 1 None\<close>\<close>
  | Opt regex                       \<comment> \<open>greedy \<open>r?\<close>\<close>
  | Group nat regex                 \<comment> \<open>capturing group number n\<close>
  | NegLook regex                   \<comment> \<open>\<open>(?!r)\<close>\<close>
  | WordB                           \<comment> \<open>\<open>\b\<close>\<close>
  | Bol                             \<comment> \<open>\<open>^\<close>\<close>
  | Eol                             \<comment> \<open>\<open>$\<close>\<close>

fun seq :: "regex list \<Rightarrow> regex" where
  \<comment> \<open>a sequence of more than two parts\<close>
  "seq [] = Str []"
| "seq [r] = r"
| "seq (r # rs) = Seq r (seq rs)"

abbreviation star :: "atom \<Rightarrow> regex" where
  "star a \<equiv> Rep a 0 None"

abbreviation plus :: "atom \<Rightarrow> regex" where
  "plus a \<equiv> Rep a 1 None"

abbreviation lazy_plus :: "atom \<Rightarrow> regex" where
  "lazy_plus a \<equiv> RepLazy a 1 None"

fun in_ranges :: "(char \<times> char) list \<Rightarrow> char \<Rightarrow> bool" where
  "in_ranges [] c = False"
| "in_ranges ((lo, hi) # rs) c = ((code lo \<le> code c \<and> code c \<le> code hi) \<or> in_ranges rs c)"

fun atom_ok :: "atom \<Rightarrow> char \<Rightarrow> bool" where
  "atom_ok (Lit d) c = (c = d)"
| "atom_ok Dot c = (c \<noteq> newline)"
| "atom_ok Space c = is_space c"
| "atom_ok Word c = is_word c"
| "atom_ok (OneOf rs) c = in_ranges rs c"
| "atom_ok (NoneOf rs) c = (\<not> in_ranges rs c)"
| "atom_ok (Beyond n) c = False"

text \<open>
  A matcher state: the character before the current position (none at the start of the
  text), the text still to be read, and the groups captured so far.
\<close>

type_synonym mstate = "char option \<times> string \<times> (nat \<times> string) list"

fun advance :: "nat \<Rightarrow> mstate \<Rightarrow> mstate" where
  "advance 0 st = st"
| "advance (Suc k) (prev, [], caps) = (prev, [], caps)"
| "advance (Suc k) (prev, c # cs, caps) = advance k (Some c, cs, caps)"

definition counts :: "atom \<Rightarrow> nat \<Rightarrow> nat option \<Rightarrow> string \<Rightarrow> nat list" where
  \<comment> \<open>the numbers of characters a repetition may take, in increasing order\<close>
  "counts a lo hi s =
     (let run = length (takeWhile (atom_ok a) s);
          m = (case hi of None \<Rightarrow> run | Some h \<Rightarrow> min h run)
      in [lo..<Suc m])"

definition word_at :: "char option \<Rightarrow> bool" where
  "word_at x = (case x of None \<Rightarrow> False | Some c \<Rightarrow> is_word c)"

definition next_char :: "string \<Rightarrow> char option" where
  "next_char s = (case s of [] \<Rightarrow> None | c # cs \<Rightarrow> Some c)"

definition set_group :: "nat \<Rightarrow> string \<Rightarrow> mstate \<Rightarrow> mstate" where
  "set_group n start st =
     (case st of (prev, rest, caps) \<Rightarrow>
        (prev, rest, (n, take (length start - length rest) start) # caps))"

text \<open>
  \<open>ends r st\<close> lists the states in which a match of \<open>r\<close> begun in \<open>st\<close> can end, in the order
  in which a backtracking engine tries them.
\<close>

primrec ends :: "regex \<Rightarrow> mstate \<Rightarrow> mstate list" where
  "ends (Atom a) st =
     (case st of (prev, rest, caps) \<Rightarrow>
        (case rest of
           [] \<Rightarrow> []
         | c # cs \<Rightarrow> if atom_ok a c then [(Some c, cs, caps)] else []))"
| "ends (Str s) st =
     (if starts_with s (fst (snd st)) then [advance (length s) st] else [])"
| "ends (Seq r1 r2) st = concat (map (ends r2) (ends r1 st))"
| "ends (Alt r1 r2) st = ends r1 st @ ends r2 st"
| "ends (Rep a lo hi) st = map (\<lambda>k. advance k st) (rev (counts a lo hi (fst (snd st))))"
| "ends (RepLazy a lo hi) st = map (\<lambda>k. advance k st) (counts a lo hi (fst (snd st)))"
| "ends (Opt r) st = ends r st @ [st]"
| "ends (Group n r) st = map (set_group n (fst (snd st))) (ends r st)"
| "ends (NegLook r) st = (if ends r st = [] then [st] else [])"
| "ends WordB st =
     (if word_at (fst st) \<noteq> word_at (next_char (fst (snd st))) then [st] else [])"
| "ends Bol st = (if fst st = None then [st] else [])"
| "ends Eol st =
     (if fst (snd st) = [] \<or> fst (snd st) = [newline] then [st] else [])"

definition re_match :: "regex \<Rightarrow> string \<Rightarrow> (nat \<times> string) list option" where
  \<comment> \<open>\<open>pattern.match(s)\<close>: a match at the start of the text; the groups of the first one found\<close>
  "re_match r s =
     (case ends r (None, s, []) of
        [] \<Rightarrow> None
      | st # _ \<Rightarrow> Some (snd (snd st)))"

definition group :: "(nat \<times> string) list \<Rightarrow> nat \<Rightarrow> string option" where
  \<comment> \<open>\<open>match.group(n)\<close>, \<open>None\<close> for a group that took no part in the match\<close>
  "group caps n = map_of caps n"

fun search_from :: "regex \<Rightarrow> char option \<Rightarrow> string \<Rightarrow> bool" where
  "search_from r prev [] = (ends r (prev, [], []) \<noteq> [])"
| "search_from r prev (c # cs) =
     (ends r (prev, c # cs, []) \<noteq> [] \<or> search_from r (Some c) cs)"

definition re_search :: "regex \<Rightarrow> string \<Rightarrow> bool" where
  \<comment> \<open>\<open>re.search(pattern, s)\<close> as a truth value: a match at some position of the text\<close>
  "re_search r s = search_from r None s"

section \<open>run_rust_tests.py\<close>

subsection \<open>Message texts\<close>

definition value_PASSED :: string where
  \<comment> \<open>line 37: U+2705 " " U+901A U+8FC7 (passed)\<close>
  "value_PASSED =
     [CHR 0xE2, CHR 0x9C, CHR 0x85] @ '' '' @
     [CHR 0xE9, CHR 0x80, CHR 0x9A, CHR 0xE8, CHR 0xBF, CHR 0x87]"

definition value_FAILED :: string where
  \<comment> \<open>line 38: U+274C " " U+5931 U+8D25 (failed)\<close>
  "value_FAILED =
     [CHR 0xE2, CHR 0x9D, CHR 0x8C] @ '' '' @
     [CHR 0xE5, CHR 0xA4, CHR 0xB1, CHR 0xE8, CHR 0xB4, CHR 0xA5]"

definition value_IGNORED :: string where
  \<comment> \<open>line 39: U+26A0 U+FE0F "  " U+5FFD U+7565 (ignored)\<close>
  "value_IGNORED =
     [CHR 0xE2, CHR 0x9A, CHR 0xA0, CHR 0xEF, CHR 0xB8, CHR 0x8F] @ ''  '' @
     [CHR 0xE5, CHR 0xBF, CHR 0xBD, CHR 0xE7, CHR 0x95, CHR 0xA5]"

definition value_TIMEOUT :: string where
  \<comment> \<open>line 40: U+23F1 U+FE0F "  " U+8D85 U+65F6 (timed out)\<close>
  "value_TIMEOUT =
     [CHR 0xE2, CHR 0x8F, CHR 0xB1, CHR 0xEF, CHR 0xB8, CHR 0x8F] @ ''  '' @
     [CHR 0xE8, CHR 0xB6, CHR 0x85, CHR 0xE6, CHR 0x97, CHR 0xB6]"

definition msg_timed_out_after :: string where
  \<comment> \<open>line 76: "Command timed out after "\<close>
  "msg_timed_out_after =
     ''Command timed out after ''"

definition msg_seconds :: string where
  \<comment> \<open>line 76: " seconds"\<close>
  "msg_seconds =
     '' seconds''"

definition type_unknown :: string where
  \<comment> \<open>line 132: U+672A U+77E5 U+9519 U+8BEF (unknown error)\<close>
  "type_unknown =
     [CHR 0xE6, CHR 0x9C, CHR 0xAA, CHR 0xE7, CHR 0x9F, CHR 0xA5, CHR 0xE9, CHR 0x94, CHR 0x99] @
     [CHR 0xE8, CHR 0xAF, CHR 0xAF]"

definition suggest_unknown :: string where
  \<comment> \<open>line 133: U+8BF7 U+68C0 U+67E5 U+6D4B U+8BD5 U+4EE3 U+7801 U+548C U+5B9E U+73B0 U+4EE3 U+7801
     (please check the test code and the implementation)\<close>
  "suggest_unknown =
     [CHR 0xE8, CHR 0xAF, CHR 0xB7, CHR 0xE6, CHR 0xA3, CHR 0x80, CHR 0xE6, CHR 0x9F, CHR 0xA5] @
     [CHR 0xE6, CHR 0xB5, CHR 0x8B, CHR 0xE8, CHR 0xAF, CHR 0x95, CHR 0xE4, CHR 0xBB, CHR 0xA3] @
     [CHR 0xE7, CHR 0xA0, CHR 0x81, CHR 0xE5, CHR 0x92, CHR 0x8C, CHR 0xE5, CHR 0xAE, CHR 0x9E] @
     [CHR 0xE7, CHR 0x8E, CHR 0xB0, CHR 0xE4, CHR 0xBB, CHR 0xA3, CHR 0xE7, CHR 0xA0, CHR 0x81]"

definition type_assertion :: string where
  \<comment> \<open>line 139: U+65AD U+8A00 U+5931 U+8D25 (assertion failed)\<close>
  "type_assertion =
     [CHR 0xE6, CHR 0x96, CHR 0xAD, CHR 0xE8, CHR 0xA8, CHR 0x80, CHR 0xE5, CHR 0xA4, CHR 0xB1] @
     [CHR 0xE8, CHR 0xB4, CHR 0xA5]"

definition suggest_assertion :: string where
  \<comment> \<open>line 140: U+68C0 U+67E5 U+65AD U+8A00 U+6761 U+4EF6 U+FF0C U+786E U+4FDD U+6D4B U+8BD5 U+9884
     U+671F U+4E0E U+5B9E U+9645 U+884C U+4E3A U+4E00 U+81F4 (check the asserted condition)\<close>
  "suggest_assertion =
     [CHR 0xE6, CHR 0xA3, CHR 0x80, CHR 0xE6, CHR 0x9F, CHR 0xA5, CHR 0xE6, CHR 0x96, CHR 0xAD] @
     [CHR 0xE8, CHR 0xA8, CHR 0x80, CHR 0xE6, CHR 0x9D, CHR 0xA1, CHR 0xE4, CHR 0xBB, CHR 0xB6] @
     [CHR 0xEF, CHR 0xBC, CHR 0x8C, CHR 0xE7, CHR 0xA1, CHR 0xAE, CHR 0xE4, CHR 0xBF, CHR 0x9D] @
     [CHR 0xE6, CHR 0xB5, CHR 0x8B, CHR 0xE8, CHR 0xAF, CHR 0x95, CHR 0xE9, CHR 0xA2, CHR 0x84] @
     [CHR 0xE6, CHR 0x9C, CHR 0x9F, CHR 0xE4, CHR 0xB8, CHR 0x8E, CHR 0xE5, CHR 0xAE, CHR 0x9E] @
     [CHR 0xE9, CHR 0x99, CHR 0x85, CHR 0xE8, CHR 0xA1, CHR 0x8C, CHR 0xE4, CHR 0xB8, CHR 0xBA] @
     [CHR 0xE4, CHR 0xB8, CHR 0x80, CHR 0xE8, CHR 0x87, CHR 0xB4]"

definition type_panic :: string where
  \<comment> \<open>line 144: "Panic"\<close>
  "type_panic =
     ''Panic''"

definition suggest_panic :: string where
  \<comment> \<open>line 145: U+4EE3 U+7801 U+53D1 U+751F " panic" U+FF0C U+68C0 U+67E5 U+662F U+5426 U+8BBF
     U+95EE U+4E86 U+65E0 U+6548 U+6570 U+636E U+6216 U+89E6 U+53D1 U+4E86 " panic!" (the code
     panicked)\<close>
  "suggest_panic =
     [CHR 0xE4, CHR 0xBB, CHR 0xA3, CHR 0xE7, CHR 0xA0, CHR 0x81, CHR 0xE5, CHR 0x8F, CHR 0x91] @
     [CHR 0xE7, CHR 0x94, CHR 0x9F] @ '' panic'' @
     [CHR 0xEF, CHR 0xBC, CHR 0x8C, CHR 0xE6, CHR 0xA3, CHR 0x80, CHR 0xE6, CHR 0x9F, CHR 0xA5] @
     [CHR 0xE6, CHR 0x98, CHR 0xAF, CHR 0xE5, CHR 0x90, CHR 0xA6, CHR 0xE8, CHR 0xAE, CHR 0xBF] @
     [CHR 0xE9, CHR 0x97, CHR 0xAE, CHR 0xE4, CHR 0xBA, CHR 0x86, CHR 0xE6, CHR 0x97, CHR 0xA0] @
     [CHR 0xE6, CHR 0x95, CHR 0x88, CHR 0xE6, CHR 0x95, CHR 0xB0, CHR 0xE6, CHR 0x8D, CHR 0xAE] @
     [CHR 0xE6, CHR 0x88, CHR 0x96, CHR 0xE8, CHR 0xA7, CHR 0xA6, CHR 0xE5, CHR 0x8F, CHR 0x91] @
     [CHR 0xE4, CHR 0xBA, CHR 0x86] @ '' panic!''"

definition type_overflow :: string where
  \<comment> \<open>line 149: U+7B97 U+672F U+6EA2 U+51FA (arithmetic overflow)\<close>
  "type_overflow =
     [CHR 0xE7, CHR 0xAE, CHR 0x97, CHR 0xE6, CHR 0x9C, CHR 0xAF, CHR 0xE6, CHR 0xBA, CHR 0xA2] @
     [CHR 0xE5, CHR 0x87, CHR 0xBA]"

definition suggest_overflow :: string where
  \<comment> \<open>line 150: U+4F7F U+7528 " checked_add" U+3001 "wrapping_add " U+6216 " saturating_add" (use
     checked_add, wrapping_add or saturating_add)\<close>
  "suggest_overflow =
     [CHR 0xE4, CHR 0xBD, CHR 0xBF, CHR 0xE7, CHR 0x94, CHR 0xA8] @ '' checked_add'' @
     [CHR 0xE3, CHR 0x80, CHR 0x81] @ ''wrapping_add '' @ [CHR 0xE6, CHR 0x88, CHR 0x96] @
     '' saturating_add''"

definition type_borrow :: string where
  \<comment> \<open>line 154: U+501F U+7528 U+68C0 U+67E5 U+9519 U+8BEF (borrow check error)\<close>
  "type_borrow =
     [CHR 0xE5, CHR 0x80, CHR 0x9F, CHR 0xE7, CHR 0x94, CHR 0xA8, CHR 0xE6, CHR 0xA3, CHR 0x80] @
     [CHR 0xE6, CHR 0x9F, CHR 0xA5, CHR 0xE9, CHR 0x94, CHR 0x99, CHR 0xE8, CHR 0xAF, CHR 0xAF]"

definition suggest_borrow :: string where
  \<comment> \<open>line 155: U+68C0 U+67E5 U+6240 U+6709 U+6743 U+548C U+751F U+547D U+5468 U+671F U+FF0C U+53EF
     U+80FD U+9700 U+8981 U+514B U+9686 U+6216 U+8C03 U+6574 U+5F15 U+7528 (check ownership and
     lifetimes)\<close>
  "suggest_borrow =
     [CHR 0xE6, CHR 0xA3, CHR 0x80, CHR 0xE6, CHR 0x9F, CHR 0xA5, CHR 0xE6, CHR 0x89, CHR 0x80] @
     [CHR 0xE6, CHR 0x9C, CHR 0x89, CHR 0xE6, CHR 0x9D, CHR 0x83, CHR 0xE5, CHR 0x92, CHR 0x8C] @
     [CHR 0xE7, CHR 0x94, CHR 0x9F, CHR 0xE5, CHR 0x91, CHR 0xBD, CHR 0xE5, CHR 0x91, CHR 0xA8] @
     [CHR 0xE6, CHR 0x9C, CHR 0x9F, CHR 0xEF, CHR 0xBC, CHR 0x8C, CHR 0xE5, CHR 0x8F, CHR 0xAF] @
     [CHR 0xE8, CHR 0x83, CHR 0xBD, CHR 0xE9, CHR 0x9C, CHR 0x80, CHR 0xE8, CHR 0xA6, CHR 0x81] @
     [CHR 0xE5, CHR 0x85, CHR 0x8B, CHR 0xE9, CHR 0x9A, CHR 0x86, CHR 0xE6, CHR 0x88, CHR 0x96] @
     [CHR 0xE8, CHR 0xB0, CHR 0x83, CHR 0xE6, CHR 0x95, CHR 0xB4, CHR 0xE5, CHR 0xBC, CHR 0x95] @
     [CHR 0xE7, CHR 0x94, CHR 0xA8]"

definition type_mismatch :: string where
  \<comment> \<open>line 159: U+7C7B U+578B U+4E0D U+5339 U+914D (type mismatch)\<close>
  "type_mismatch =
     [CHR 0xE7, CHR 0xB1, CHR 0xBB, CHR 0xE5, CHR 0x9E, CHR 0x8B, CHR 0xE4, CHR 0xB8, CHR 0x8D] @
     [CHR 0xE5, CHR 0x8C, CHR 0xB9, CHR 0xE9, CHR 0x85, CHR 0x8D]"

definition suggest_mismatch :: string where
  \<comment> \<open>line 160: U+68C0 U+67E5 U+7C7B U+578B U+6CE8 U+89E3 U+FF0C U+53EF U+80FD U+9700 U+8981 U+8FDB
     U+884C U+7C7B U+578B U+8F6C U+6362 (check the type annotations)\<close>
  "suggest_mismatch =
     [CHR 0xE6, CHR 0xA3, CHR 0x80, CHR 0xE6, CHR 0x9F, CHR 0xA5, CHR 0xE7, CHR 0xB1, CHR 0xBB] @
     [CHR 0xE5, CHR 0x9E, CHR 0x8B, CHR 0xE6, CHR 0xB3, CHR 0xA8, CHR 0xE8, CHR 0xA7, CHR 0xA3] @
     [CHR 0xEF, CHR 0xBC, CHR 0x8C, CHR 0xE5, CHR 0x8F, CHR 0xAF, CHR 0xE8, CHR 0x83, CHR 0xBD] @
     [CHR 0xE9, CHR 0x9C, CHR 0x80, CHR 0xE8, CHR 0xA6, CHR 0x81, CHR 0xE8, CHR 0xBF, CHR 0x9B] @
     [CHR 0xE8, CHR 0xA1, CHR 0x8C, CHR 0xE7, CHR 0xB1, CHR 0xBB, CHR 0xE5, CHR 0x9E, CHR 0x8B] @
     [CHR 0xE8, CHR 0xBD, CHR 0xAC, CHR 0xE6, CHR 0x8D, CHR 0xA2]"

definition type_no_file :: string where
  \<comment> \<open>line 164: U+6587 U+4EF6 U+4E0D U+5B58 U+5728 (file does not exist)\<close>
  "type_no_file =
     [CHR 0xE6, CHR 0x96, CHR 0x87, CHR 0xE4, CHR 0xBB, CHR 0xB6, CHR 0xE4, CHR 0xB8, CHR 0x8D] @
     [CHR 0xE5, CHR 0xAD, CHR 0x98, CHR 0xE5, CHR 0x9C, CHR 0xA8]"

definition suggest_no_file :: string where
  \<comment> \<open>line 165: U+786E U+4FDD U+6D4B U+8BD5 U+6240 U+9700 U+7684 U+6587 U+4EF6 U+5B58 U+5728 U+FF0C
     U+6216 U+4F7F U+7528 U+4E34 U+65F6 U+76EE U+5F55 (make sure the files the test needs exist)\<close>
  "suggest_no_file =
     [CHR 0xE7, CHR 0xA1, CHR 0xAE, CHR 0xE4, CHR 0xBF, CHR 0x9D, CHR 0xE6, CHR 0xB5, CHR 0x8B] @
     [CHR 0xE8, CHR 0xAF, CHR 0x95, CHR 0xE6, CHR 0x89, CHR 0x80, CHR 0xE9, CHR 0x9C, CHR 0x80] @
     [CHR 0xE7, CHR 0x9A, CHR 0x84, CHR 0xE6, CHR 0x96, CHR 0x87, CHR 0xE4, CHR 0xBB, CHR 0xB6] @
     [CHR 0xE5, CHR 0xAD, CHR 0x98, CHR 0xE5, CHR 0x9C, CHR 0xA8, CHR 0xEF, CHR 0xBC, CHR 0x8C] @
     [CHR 0xE6, CHR 0x88, CHR 0x96, CHR 0xE4, CHR 0xBD, CHR 0xBF, CHR 0xE7, CHR 0x94, CHR 0xA8] @
     [CHR 0xE4, CHR 0xB8, CHR 0xB4, CHR 0xE6, CHR 0x97, CHR 0xB6, CHR 0xE7, CHR 0x9B, CHR 0xAE] @
     [CHR 0xE5, CHR 0xBD, CHR 0x95]"

definition type_connection :: string where
  \<comment> \<open>line 169: U+8FDE U+63A5 U+5931 U+8D25 (connection failed)\<close>
  "type_connection =
     [CHR 0xE8, CHR 0xBF, CHR 0x9E, CHR 0xE6, CHR 0x8E, CHR 0xA5, CHR 0xE5, CHR 0xA4, CHR 0xB1] @
     [CHR 0xE8, CHR 0xB4, CHR 0xA5]"

definition suggest_connection :: string where
  \<comment> \<open>line 170: U+786E U+4FDD U+6D4B U+8BD5 U+4F9D U+8D56 U+7684 U+670D U+52A1 U+5DF2 U+542F U+52A8
     U+FF0C U+6216 U+4F7F U+7528 " mock" (make sure the services the test needs are up)\<close>
  "suggest_connection =
     [CHR 0xE7, CHR 0xA1, CHR 0xAE, CHR 0xE4, CHR 0xBF, CHR 0x9D, CHR 0xE6, CHR 0xB5, CHR 0x8B] @
     [CHR 0xE8, CHR 0xAF, CHR 0x95, CHR 0xE4, CHR 0xBE, CHR 0x9D, CHR 0xE8, CHR 0xB5, CHR 0x96] @
     [CHR 0xE7, CHR 0x9A, CHR 0x84, CHR 0xE6, CHR 0x9C, CHR 0x8D, CHR 0xE5, CHR 0x8A, CHR 0xA1] @
     [CHR 0xE5, CHR 0xB7, CHR 0xB2, CHR 0xE5, CHR 0x90, CHR 0xAF, CHR 0xE5, CHR 0x8A, CHR 0xA8] @
     [CHR 0xEF, CHR 0xBC, CHR 0x8C, CHR 0xE6, CHR 0x88, CHR 0x96, CHR 0xE4, CHR 0xBD, CHR 0xBF] @
     [CHR 0xE7, CHR 0x94, CHR 0xA8] @ '' mock''"

definition type_timeout :: string where
  \<comment> \<open>line 174: U+6D4B U+8BD5 U+8D85 U+65F6 (test timed out)\<close>
  "type_timeout =
     [CHR 0xE6, CHR 0xB5, CHR 0x8B, CHR 0xE8, CHR 0xAF, CHR 0x95, CHR 0xE8, CHR 0xB6, CHR 0x85] @
     [CHR 0xE6, CHR 0x97, CHR 0xB6]"

definition suggest_timeout :: string where
  \<comment> \<open>line 175: U+4F18 U+5316 U+6D4B U+8BD5 U+6027 U+80FD U+6216 U+589E U+52A0 U+8D85 U+65F6 U+65F6
     U+95F4 (make the test faster or raise the timeout)\<close>
  "suggest_timeout =
     [CHR 0xE4, CHR 0xBC, CHR 0x98, CHR 0xE5, CHR 0x8C, CHR 0x96, CHR 0xE6, CHR 0xB5, CHR 0x8B] @
     [CHR 0xE8, CHR 0xAF, CHR 0x95, CHR 0xE6, CHR 0x80, CHR 0xA7, CHR 0xE8, CHR 0x83, CHR 0xBD] @
     [CHR 0xE6, CHR 0x88, CHR 0x96, CHR 0xE5, CHR 0xA2, CHR 0x9E, CHR 0xE5, CHR 0x8A, CHR 0xA0] @
     [CHR 0xE8, CHR 0xB6, CHR 0x85, CHR 0xE6, CHR 0x97, CHR 0xB6, CHR 0xE6, CHR 0x97, CHR 0xB6] @
     [CHR 0xE9, CHR 0x97, CHR 0xB4]"

definition msg_running_test :: string where
  \<comment> \<open>line 217: U+1F50D " " U+8FD0 U+884C U+6D4B U+8BD5 ": " (running test)\<close>
  "msg_running_test =
     [CHR 0xF0, CHR 0x9F, CHR 0x94, CHR 0x8D] @ '' '' @
     [CHR 0xE8, CHR 0xBF, CHR 0x90, CHR 0xE8, CHR 0xA1, CHR 0x8C, CHR 0xE6, CHR 0xB5, CHR 0x8B] @
     [CHR 0xE8, CHR 0xAF, CHR 0x95] @ '': ''"

definition msg_command :: string where
  \<comment> \<open>line 218: U+1F4DD " " U+547D U+4EE4 ": " (command)\<close>
  "msg_command =
     [CHR 0xF0, CHR 0x9F, CHR 0x93, CHR 0x9D] @ '' '' @
     [CHR 0xE5, CHR 0x91, CHR 0xBD, CHR 0xE4, CHR 0xBB, CHR 0xA4] @ '': ''"

definition msg_test_report_title :: string where
  \<comment> \<open>line 246: "# Rust " U+6D4B U+8BD5 U+62A5 U+544A LF (Rust test report)\<close>
  "msg_test_report_title =
     ''# Rust '' @
     [CHR 0xE6, CHR 0xB5, CHR 0x8B, CHR 0xE8, CHR 0xAF, CHR 0x95, CHR 0xE6, CHR 0x8A, CHR 0xA5] @
     [CHR 0xE5, CHR 0x91, CHR 0x8A, newline]"

definition msg_statistics :: string where
  \<comment> \<open>line 252: "## " U+1F4CA " " U+7EDF U+8BA1 LF (statistics)\<close>
  "msg_statistics =
     ''## '' @ [CHR 0xF0, CHR 0x9F, CHR 0x93, CHR 0x8A] @ '' '' @
     [CHR 0xE7, CHR 0xBB, CHR 0x9F, CHR 0xE8, CHR 0xAE, CHR 0xA1, newline]"

definition msg_total :: string where
  \<comment> \<open>line 253: "- " U+603B U+6D4B U+8BD5 U+6570 ": " (number of tests)\<close>
  "msg_total =
     ''- '' @
     [CHR 0xE6, CHR 0x80, CHR 0xBB, CHR 0xE6, CHR 0xB5, CHR 0x8B, CHR 0xE8, CHR 0xAF, CHR 0x95] @
     [CHR 0xE6, CHR 0x95, CHR 0xB0] @ '': ''"

definition msg_count_passed :: string where
  \<comment> \<open>line 254: "- " U+2705 " " U+901A U+8FC7 ": " (passed)\<close>
  "msg_count_passed =
     ''- '' @ [CHR 0xE2, CHR 0x9C, CHR 0x85] @ '' '' @
     [CHR 0xE9, CHR 0x80, CHR 0x9A, CHR 0xE8, CHR 0xBF, CHR 0x87] @ '': ''"

definition msg_count_failed :: string where
  \<comment> \<open>line 255: "- " U+274C " " U+5931 U+8D25 ": " (failed)\<close>
  "msg_count_failed =
     ''- '' @ [CHR 0xE2, CHR 0x9D, CHR 0x8C] @ '' '' @
     [CHR 0xE5, CHR 0xA4, CHR 0xB1, CHR 0xE8, CHR 0xB4, CHR 0xA5] @ '': ''"

definition msg_count_ignored :: string where
  \<comment> \<open>line 256: "- " U+26A0 U+FE0F "  " U+5FFD U+7565 ": " (ignored)\<close>
  "msg_count_ignored =
     ''- '' @ [CHR 0xE2, CHR 0x9A, CHR 0xA0, CHR 0xEF, CHR 0xB8, CHR 0x8F] @ ''  '' @
     [CHR 0xE5, CHR 0xBF, CHR 0xBD, CHR 0xE7, CHR 0x95, CHR 0xA5] @ '': ''"

definition msg_failed_tests :: string where
  \<comment> \<open>line 259: "## " U+274C " " U+5931 U+8D25 U+7684 U+6D4B U+8BD5 LF (failed tests)\<close>
  "msg_failed_tests =
     ''## '' @ [CHR 0xE2, CHR 0x9D, CHR 0x8C] @ '' '' @
     [CHR 0xE5, CHR 0xA4, CHR 0xB1, CHR 0xE8, CHR 0xB4, CHR 0xA5, CHR 0xE7, CHR 0x9A, CHR 0x84] @
     [CHR 0xE6, CHR 0xB5, CHR 0x8B, CHR 0xE8, CHR 0xAF, CHR 0x95, newline]"

definition msg_heading3 :: string where
  \<comment> \<open>line 262: LF "### "\<close>
  "msg_heading3 =
     [newline] @ ''### ''"

definition msg_field_status :: string where
  \<comment> \<open>line 263: "- **" U+72B6 U+6001 "**: " (status)\<close>
  "msg_field_status =
     ''- **'' @ [CHR 0xE7, CHR 0x8A, CHR 0xB6, CHR 0xE6, CHR 0x80, CHR 0x81] @ ''**: ''"

definition msg_field_error_type :: string where
  \<comment> \<open>line 264: "- **" U+9519 U+8BEF U+7C7B U+578B "**: " (error type)\<close>
  "msg_field_error_type =
     ''- **'' @
     [CHR 0xE9, CHR 0x94, CHR 0x99, CHR 0xE8, CHR 0xAF, CHR 0xAF, CHR 0xE7, CHR 0xB1, CHR 0xBB] @
     [CHR 0xE5, CHR 0x9E, CHR 0x8B] @ ''**: ''"

definition msg_field_suggestion :: string where
  \<comment> \<open>line 265: "- **" U+5EFA U+8BAE "**: " (suggestion)\<close>
  "msg_field_suggestion =
     ''- **'' @ [CHR 0xE5, CHR 0xBB, CHR 0xBA, CHR 0xE8, CHR 0xAE, CHR 0xAE] @ ''**: ''"

definition msg_auto_fixable :: string where
  \<comment> \<open>line 268: "- **" U+53EF U+81EA U+52A8 U+4FEE U+590D "**: " U+2705 " " U+662F (can be fixed
     automatically: yes)\<close>
  "msg_auto_fixable =
     ''- **'' @
     [CHR 0xE5, CHR 0x8F, CHR 0xAF, CHR 0xE8, CHR 0x87, CHR 0xAA, CHR 0xE5, CHR 0x8A, CHR 0xA8] @
     [CHR 0xE4, CHR 0xBF, CHR 0xAE, CHR 0xE5, CHR 0xA4, CHR 0x8D] @ ''**: '' @
     [CHR 0xE2, CHR 0x9C, CHR 0x85] @ '' '' @ [CHR 0xE6, CHR 0x98, CHR 0xAF]"

definition msg_error_text :: string where
  \<comment> \<open>line 271: LF "**" U+9519 U+8BEF U+4FE1 U+606F "**:" (error text)\<close>
  "msg_error_text =
     [newline] @ ''**'' @
     [CHR 0xE9, CHR 0x94, CHR 0x99, CHR 0xE8, CHR 0xAF, CHR 0xAF, CHR 0xE4, CHR 0xBF, CHR 0xA1] @
     [CHR 0xE6, CHR 0x81, CHR 0xAF] @ ''**:''"

definition msg_fence :: string where
  \<comment> \<open>line 272: U+0060 U+0060 U+0060\<close>
  "msg_fence =
     [CHR 0x60, CHR 0x60, CHR 0x60]"

definition msg_passed_tests :: string where
  \<comment> \<open>line 279: LF "## " U+2705 " " U+901A U+8FC7 U+7684 U+6D4B U+8BD5 LF (passed tests)\<close>
  "msg_passed_tests =
     [newline] @ ''## '' @ [CHR 0xE2, CHR 0x9C, CHR 0x85] @ '' '' @
     [CHR 0xE9, CHR 0x80, CHR 0x9A, CHR 0xE8, CHR 0xBF, CHR 0x87, CHR 0xE7, CHR 0x9A, CHR 0x84] @
     [CHR 0xE6, CHR 0xB5, CHR 0x8B, CHR 0xE8, CHR 0xAF, CHR 0x95, newline]"

definition msg_more_tests_1 :: string where
  \<comment> \<open>line 284: "- ... " U+8FD8 U+6709 " " (and another)\<close>
  "msg_more_tests_1 =
     ''- ... '' @ [CHR 0xE8, CHR 0xBF, CHR 0x98, CHR 0xE6, CHR 0x9C, CHR 0x89] @ '' ''"

definition msg_more_tests_2 :: string where
  \<comment> \<open>line 284: " " U+4E2A U+6D4B U+8BD5 (tests)\<close>
  "msg_more_tests_2 =
     '' '' @
     [CHR 0xE4, CHR 0xB8, CHR 0xAA, CHR 0xE6, CHR 0xB5, CHR 0x8B, CHR 0xE8, CHR 0xAF, CHR 0x95]"

definition msg_no_cargo_toml :: string where
  \<comment> \<open>line 320: U+274C " " U+9519 U+8BEF ": " U+672A U+627E U+5230 " Cargo.toml" (error: Cargo.toml
     not found)\<close>
  "msg_no_cargo_toml =
     [CHR 0xE2, CHR 0x9D, CHR 0x8C] @ '' '' @
     [CHR 0xE9, CHR 0x94, CHR 0x99, CHR 0xE8, CHR 0xAF, CHR 0xAF] @ '': '' @
     [CHR 0xE6, CHR 0x9C, CHR 0xAA, CHR 0xE6, CHR 0x89, CHR 0xBE, CHR 0xE5, CHR 0x88, CHR 0xB0] @
     '' Cargo.toml''"

definition msg_workspace :: string where
  \<comment> \<open>line 324: U+1F4C2 " " U+5DE5 U+4F5C U+7A7A U+95F4 ": " (workspace)\<close>
  "msg_workspace =
     [CHR 0xF0, CHR 0x9F, CHR 0x93, CHR 0x82] @ '' '' @
     [CHR 0xE5, CHR 0xB7, CHR 0xA5, CHR 0xE4, CHR 0xBD, CHR 0x9C, CHR 0xE7, CHR 0xA9, CHR 0xBA] @
     [CHR 0xE9, CHR 0x97, CHR 0xB4] @ '': ''"

definition msg_running_all :: string where
  \<comment> \<open>line 342: U+1F680 " " U+8FD0 U+884C U+6240 U+6709 U+6D4B U+8BD5 "..." LF (running all tests)\<close>
  "msg_running_all =
     [CHR 0xF0, CHR 0x9F, CHR 0x9A, CHR 0x80] @ '' '' @
     [CHR 0xE8, CHR 0xBF, CHR 0x90, CHR 0xE8, CHR 0xA1, CHR 0x8C, CHR 0xE6, CHR 0x89, CHR 0x80] @
     [CHR 0xE6, CHR 0x9C, CHR 0x89, CHR 0xE6, CHR 0xB5, CHR 0x8B, CHR 0xE8, CHR 0xAF, CHR 0x95] @
     ''...'' @ [newline]"


subsection \<open>Results\<close>

datatype TestStatus = PASSED | FAILED | IGNORED | TIMEOUT

record TestResult =
  test_name :: string
  status :: TestStatus
  error_message :: string
  error_type :: string
  suggestion :: string
  fixable :: bool

text \<open>
  The field \<open>duration\<close> of the dataclass is the constant \<open>0.0\<close> wherever a \<open>TestResult\<close> is
  built and is read nowhere; the record leaves it out.
\<close>

definition test_pattern :: regex where
  \<comment> \<open>\<open>^test\s+(.+?)\s+\.\.\.(\w+)(?:\s+(.+))?$\<close>\<close>
  "test_pattern =
     seq [Bol, Str ''test'', plus Space, Group 1 (lazy_plus Dot), plus Space, Str ''...'',
          Group 2 (plus Word), Opt (seq [plus Space, Group 3 (plus Dot)]), Eol]"

definition status_of :: "string \<Rightarrow> TestStatus" where
  "status_of status_str =
     (if status_str = ''ok'' then PASSED
      else if status_str = ''FAILED'' then FAILED
      else if status_str \<in> set [''ignored'', ''should panic''] then IGNORED
      else FAILED)"

definition parse_line :: "string \<Rightarrow> TestResult list" where
  \<comment> \<open>the body of the loop of \<open>parse_test_output\<close>: what one line of output appends\<close>
  "parse_line line =
     (case re_match test_pattern (strip line) of
        None \<Rightarrow> []
      | Some m \<Rightarrow>
          (case (group m 1, group m 2) of
             (Some name, Some status_str) \<Rightarrow>
               (let rest = (case group m 3 of None \<Rightarrow> [] | Some r \<Rightarrow> r);
                    st = status_of status_str
                in [\<lparr> test_name = name, status = st,
                      error_message = (if st = FAILED then rest else []),
                      error_type = [], suggestion = [], fixable = False \<rparr>])
           | _ \<Rightarrow> []))"

definition parse_test_output :: "string \<Rightarrow> TestResult list" where
  "parse_test_output output = concat (map parse_line (split_on newline output))"

subsection \<open>Running the test harness\<close>

text \<open>
  What \<open>subprocess.run\<close> does with a command is the environment's: the process completes
  with an exit code and its two captured outputs, or \<open>subprocess.TimeoutExpired\<close> is raised,
  or another \<open>Exception\<close> is raised, whose text \<open>str(e)\<close> the constructor carries.
  An interrupt from outside the program (\<open>KeyboardInterrupt\<close>, which is not an
  \<open>Exception\<close>) is not an outcome of the process and is not modelled.
\<close>

datatype proc_result = Completed int string string | TimeoutExpired | Raised string

type_synonym path = "string list"

text \<open>
  A path is the list of its components below its anchor; the anchor itself is \<open>[]\<close> and is
  its own parent, as \<open>Path.parent\<close> has it.
\<close>

definition parent :: "path \<Rightarrow> path" where
  "parent p = butlast p"

definition path_text :: "path \<Rightarrow> string" where
  "path_text p = CHR ''/'' # join ''/'' p"

type_synonym system = "string list \<Rightarrow> path \<Rightarrow> int \<Rightarrow> proc_result"

definition run_command :: "system \<Rightarrow> string list \<Rightarrow> path \<Rightarrow> int \<Rightarrow> int \<times> string \<times> string" where
  "run_command sys command cwd timeout =
     (case sys command cwd timeout of
        Completed returncode out err \<Rightarrow> (returncode, out, err)
      | TimeoutExpired \<Rightarrow> (- 1, [], msg_timed_out_after @ show_int timeout @ msg_seconds)
      | Raised e \<Rightarrow> (- 1, [], e))"

definition default_timeout :: int where
  "default_timeout = 300"

subsection \<open>Classifying a failure\<close>

record signature_info =
  info_type :: string
  info_suggestion :: string
  info_fixable :: bool

record analysis =
  an_error_type :: string
  an_suggestion :: string
  an_fixable :: bool

definition patterns :: "(string \<times> signature_info) list" where
  \<comment> \<open>the dictionary \<open>patterns\<close>, in the order of its declaration, which is the order in
     which \<open>patterns.items()\<close> yields it\<close>
  "patterns =
     [(''assertion failed'',
        \<lparr> info_type = type_assertion, info_suggestion = suggest_assertion, info_fixable = False \<rparr>),
      (''panicked at'',
        \<lparr> info_type = type_panic, info_suggestion = suggest_panic, info_fixable = False \<rparr>),
      (''attempt to add with overflow'',
        \<lparr> info_type = type_overflow, info_suggestion = suggest_overflow, info_fixable = True \<rparr>),
      (''borrow checker'',
        \<lparr> info_type = type_borrow, info_suggestion = suggest_borrow, info_fixable = False \<rparr>),
      (''type mismatch'',
        \<lparr> info_type = type_mismatch, info_suggestion = suggest_mismatch, info_fixable = True \<rparr>),
      (''no such file or directory'',
        \<lparr> info_type = type_no_file, info_suggestion = suggest_no_file, info_fixable = True \<rparr>),
      (''connection refused'',
        \<lparr> info_type = type_connection, info_suggestion = suggest_connection, info_fixable = False \<rparr>),
      (''timeout'',
        \<lparr> info_type = type_timeout, info_suggestion = suggest_timeout, info_fixable = False \<rparr>)]"

definition occurs_in :: "string \<Rightarrow> string \<Rightarrow> bool" where
  \<comment> \<open>\<open>pattern.lower() in stderr.lower()\<close>\<close>
  "occurs_in pattern stderr = contains (lower pattern) (lower stderr)"

fun first_match :: "(string \<times> signature_info) list \<Rightarrow> string \<Rightarrow> signature_info option" where
  \<comment> \<open>the loop over the signatures, left at the first one that occurs\<close>
  "first_match [] stderr = None"
| "first_match ((pattern, info) # rest) stderr =
     (if occurs_in pattern stderr then Some info else first_match rest stderr)"

definition analyze_failure :: "string \<Rightarrow> string \<Rightarrow> analysis" where
  "analyze_failure stderr name =
     (case first_match patterns stderr of
        None \<Rightarrow>
          \<lparr> an_error_type = type_unknown, an_suggestion = suggest_unknown, an_fixable = False \<rparr>
      | Some info \<Rightarrow>
          \<lparr> an_error_type = info_type info, an_suggestion = info_suggestion info,
            an_fixable = info_fixable info \<rparr>)"

subsection \<open>One test\<close>

definition flag_args :: "string \<Rightarrow> string option \<Rightarrow> string list" where
  \<comment> \<open>\<open>if x: command.extend([flag, x])\<close>: nothing for \<open>None\<close> and for the empty text\<close>
  "flag_args flag x = (case x of None \<Rightarrow> [] | Some v \<Rightarrow> if v = [] then [] else [flag, v])"

definition single_test_command :: "string \<Rightarrow> string option \<Rightarrow> string option \<Rightarrow> string list" where
  "single_test_command name package features =
     [''cargo'', ''test'', ''--no-fail-fast'']
     @ flag_args ''--package'' package
     @ flag_args ''--features'' features
     @ [name]"

text \<open>
  \<open>main\<close> is the only caller of \<open>run_single_test\<close> and always passes the workspace root, so
  the default of that parameter (the current directory) is left out.
\<close>

definition run_single_test ::
  "system \<Rightarrow> string \<Rightarrow> string option \<Rightarrow> string option \<Rightarrow> path \<Rightarrow> string list \<times> TestResult" where
  \<comment> \<open>the texts printed, and the result returned\<close>
  "run_single_test sys name package features workspace_root =
     (let command = single_test_command name package features;
          printed = [msg_running_test @ name, msg_command @ join '' '' command @ [newline]]
      in case run_command sys command workspace_root default_timeout of
           (exit_code, out, err) \<Rightarrow>
             if exit_code = 0 then
               (printed,
                \<lparr> test_name = name, status = PASSED, error_message = [],
                  error_type = [], suggestion = [], fixable = False \<rparr>)
             else
               (let a = analyze_failure err name
                in (printed,
                    \<lparr> test_name = name, status = FAILED, error_message = take 500 err,
                      error_type = an_error_type a, suggestion = an_suggestion a,
                      fixable = an_fixable a \<rparr>)))"

subsection \<open>The report\<close>

fun status_value :: "TestStatus \<Rightarrow> string" where
  "status_value PASSED = value_PASSED"
| "status_value FAILED = value_FAILED"
| "status_value IGNORED = value_IGNORED"
| "status_value TIMEOUT = value_TIMEOUT"

definition failed_entry :: "TestResult \<Rightarrow> string list" where
  \<comment> \<open>the lines of the report for one failed test\<close>
  "failed_entry r =
     [msg_heading3 @ test_name r,
      msg_field_status @ status_value (status r),
      msg_field_error_type @ error_type r,
      msg_field_suggestion @ suggestion r]
     @ (if fixable r then [msg_auto_fixable] else [])
     @ (if error_message r \<noteq> [] then
          [msg_error_text, msg_fence, take 300 (error_message r)]
          @ (if length (error_message r) > 300 then [''...''] else [])
          @ [msg_fence]
        else [])"

definition format_test_report :: "TestResult list \<Rightarrow> string" where
  "format_test_report results =
     (let passed = filter (\<lambda>r. status r = PASSED) results;
          failed = filter (\<lambda>r. status r = FAILED) results;
          ignored = filter (\<lambda>r. status r = IGNORED) results
      in join [newline]
           ([msg_test_report_title,
             msg_statistics,
             msg_total @ show_nat (length results),
             msg_count_passed @ show_nat (length passed),
             msg_count_failed @ show_nat (length failed),
             msg_count_ignored @ show_nat (length ignored) @ [newline]]
            @ (if failed \<noteq> [] then msg_failed_tests # concat (map failed_entry failed) else [])
            @ (if passed \<noteq> [] then
                 msg_passed_tests # map (\<lambda>r. ''- '' @ test_name r) (take 10 passed)
                 @ (if length passed > 10
                    then [msg_more_tests_1 @ show_nat (length passed - 10) @ msg_more_tests_2]
                    else [])
               else [])))"

subsection \<open>The command line\<close>

record arguments =
  arg_test_name :: "string option"
  arg_package :: "string option"
  arg_features :: "string option"
  arg_workspace :: path

fun find_workspace_up :: "(path \<Rightarrow> bool) \<Rightarrow> string list \<Rightarrow> path option" where
  \<comment> \<open>the loop that walks up from the workspace argument until a directory holds
     \<open>Cargo.toml\<close>; the path is passed last component first\<close>
  "find_workspace_up has_cargo [] = (if has_cargo [] then Some [] else None)"
| "find_workspace_up has_cargo (c # up) =
     (if has_cargo (rev (c # up)) then Some (rev (c # up)) else find_workspace_up has_cargo up)"

definition find_workspace :: "(path \<Rightarrow> bool) \<Rightarrow> path \<Rightarrow> path option" where
  "find_workspace has_cargo p = find_workspace_up has_cargo (rev p)"

definition all_tests_command :: "string option \<Rightarrow> string option \<Rightarrow> string list" where
  "all_tests_command package features =
     [''cargo'', ''test'', ''--no-fail-fast'', ''--'', ''--format-terse'']
     @ flag_args ''--package'' package
     @ flag_args ''--features'' features"

definition given :: "string option \<Rightarrow> string option" where
  \<comment> \<open>an optional argument that counts as true: neither \<open>None\<close> nor the empty text\<close>
  "given x = (case x of None \<Rightarrow> None | Some s \<Rightarrow> if s = [] then None else Some s)"

definition main :: "(path \<Rightarrow> bool) \<Rightarrow> system \<Rightarrow> arguments \<Rightarrow> string list \<times> int" where
  \<comment> \<open>the texts printed and the exit status of the process; \<open>has_cargo p\<close> says whether the
     directory \<open>p\<close> holds a file \<open>Cargo.toml\<close>\<close>
  "main has_cargo sys args =
     (case find_workspace has_cargo (arg_workspace args) of
        None \<Rightarrow> ([msg_no_cargo_toml], 1)
      | Some workspace_root \<Rightarrow>
          (let head = [msg_workspace @ path_text workspace_root @ [newline]]
           in case given (arg_test_name args) of
                Some name \<Rightarrow>
                  (case run_single_test sys name (arg_package args) (arg_features args)
                          workspace_root of
                     (printed, result) \<Rightarrow>
                       (head @ printed @ [format_test_report [result]],
                        if status result = FAILED then 1 else 0))
              | None \<Rightarrow>
                  (case run_command sys (all_tests_command (arg_package args) (arg_features args))
                          workspace_root default_timeout of
                     (exit_code, out, err) \<Rightarrow>
                       (let results = parse_test_output out
                        in (head @ [msg_running_all, format_test_report results],
                            if exit_code \<noteq> 0 then 1 else 0)))))"

section \<open>check_error_tolerance.py\<close>

datatype Severity = HIGH | MEDIUM | LOW

record Issue =
  file_path :: string
  line_number :: nat
  line_content :: string
  severity :: Severity
  category :: string
  risk :: string
  suggestion :: string
  example :: string

subsection \<open>Message texts and the texts of the rules\<close>

definition value_HIGH :: string where
  \<comment> \<open>line 36: U+1F534 " " U+9AD8 U+4E25 U+91CD U+5EA6 (high severity)\<close>
  "value_HIGH =
     [CHR 0xF0, CHR 0x9F, CHR 0x94, CHR 0xB4] @ '' '' @
     [CHR 0xE9, CHR 0xAB, CHR 0x98, CHR 0xE4, CHR 0xB8, CHR 0xA5, CHR 0xE9, CHR 0x87, CHR 0x8D] @
     [CHR 0xE5, CHR 0xBA, CHR 0xA6]"

definition value_MEDIUM :: string where
  \<comment> \<open>line 37: U+1F7E1 " " U+4E2D U+4E25 U+91CD U+5EA6 (medium severity)\<close>
  "value_MEDIUM =
     [CHR 0xF0, CHR 0x9F, CHR 0x9F, CHR 0xA1] @ '' '' @
     [CHR 0xE4, CHR 0xB8, CHR 0xAD, CHR 0xE4, CHR 0xB8, CHR 0xA5, CHR 0xE9, CHR 0x87, CHR 0x8D] @
     [CHR 0xE5, CHR 0xBA, CHR 0xA6]"

definition value_LOW :: string where
  \<comment> \<open>line 38: U+1F7E2 " " U+4F4E U+4E25 U+91CD U+5EA6 (low severity)\<close>
  "value_LOW =
     [CHR 0xF0, CHR 0x9F, CHR 0x9F, CHR 0xA2] @ '' '' @
     [CHR 0xE4, CHR 0xBD, CHR 0x8E, CHR 0xE4, CHR 0xB8, CHR 0xA5, CHR 0xE9, CHR 0x87, CHR 0x8D] @
     [CHR 0xE5, CHR 0xBA, CHR 0xA6]"

definition category_unwrap :: string where
  \<comment> \<open>line 60: "unwrap() " U+7684 U+8FC7 U+5EA6 U+4F7F U+7528 (overuse of unwrap())\<close>
  "category_unwrap =
     ''unwrap() '' @
     [CHR 0xE7, CHR 0x9A, CHR 0x84, CHR 0xE8, CHR 0xBF, CHR 0x87, CHR 0xE5, CHR 0xBA, CHR 0xA6] @
     [CHR 0xE4, CHR 0xBD, CHR 0xBF, CHR 0xE7, CHR 0x94, CHR 0xA8]"

definition risk_unwrap :: string where
  \<comment> \<open>line 61: U+751F U+4EA7 U+73AF U+5883 U+4E2D U+76F4 U+63A5 " panic" U+FF0C U+65E0 U+6CD5 U+4F18
     U+96C5 U+964D U+7EA7 (a panic in production)\<close>
  "risk_unwrap =
     [CHR 0xE7, CHR 0x94, CHR 0x9F, CHR 0xE4, CHR 0xBA, CHR 0xA7, CHR 0xE7, CHR 0x8E, CHR 0xAF] @
     [CHR 0xE5, CHR 0xA2, CHR 0x83, CHR 0xE4, CHR 0xB8, CHR 0xAD, CHR 0xE7, CHR 0x9B, CHR 0xB4] @
     [CHR 0xE6, CHR 0x8E, CHR 0xA5] @ '' panic'' @
     [CHR 0xEF, CHR 0xBC, CHR 0x8C, CHR 0xE6, CHR 0x97, CHR 0xA0, CHR 0xE6, CHR 0xB3, CHR 0x95] @
     [CHR 0xE4, CHR 0xBC, CHR 0x98, CHR 0xE9, CHR 0x9B, CHR 0x85, CHR 0xE9, CHR 0x99, CHR 0x8D] @
     [CHR 0xE7, CHR 0xBA, CHR 0xA7]"

definition suggestion_unwrap :: string where
  \<comment> \<open>line 62: U+4F7F U+7528 " ? " U+64CD U+4F5C U+7B26 U+4F20 U+64AD U+9519 U+8BEF U+FF0C U+6216
     U+4F7F U+7528 " map_err " U+6DFB U+52A0 U+9519 U+8BEF U+4E0A U+4E0B U+6587 (propagate the
     error with ? or map_err)\<close>
  "suggestion_unwrap =
     [CHR 0xE4, CHR 0xBD, CHR 0xBF, CHR 0xE7, CHR 0x94, CHR 0xA8] @ '' ? '' @
     [CHR 0xE6, CHR 0x93, CHR 0x8D, CHR 0xE4, CHR 0xBD, CHR 0x9C, CHR 0xE7, CHR 0xAC, CHR 0xA6] @
     [CHR 0xE4, CHR 0xBC, CHR 0xA0, CHR 0xE6, CHR 0x92, CHR 0xAD, CHR 0xE9, CHR 0x94, CHR 0x99] @
     [CHR 0xE8, CHR 0xAF, CHR 0xAF, CHR 0xEF, CHR 0xBC, CHR 0x8C, CHR 0xE6, CHR 0x88, CHR 0x96] @
     [CHR 0xE4, CHR 0xBD, CHR 0xBF, CHR 0xE7, CHR 0x94, CHR 0xA8] @ '' map_err '' @
     [CHR 0xE6, CHR 0xB7, CHR 0xBB, CHR 0xE5, CHR 0x8A, CHR 0xA0, CHR 0xE9, CHR 0x94, CHR 0x99] @
     [CHR 0xE8, CHR 0xAF, CHR 0xAF, CHR 0xE4, CHR 0xB8, CHR 0x8A, CHR 0xE4, CHR 0xB8, CHR 0x8B] @
     [CHR 0xE6, CHR 0x96, CHR 0x87]"

definition example_unwrap :: string where
  \<comment> \<open>lines 63 to 68: the example of the rule, 6 lines of text\<close>
  "example_unwrap =
     ''// '' @ [CHR 0xE2, CHR 0x9D, CHR 0x8C] @ '' '' @
     [CHR 0xE5, CHR 0x8D, CHR 0xB1, CHR 0xE9, CHR 0x99, CHR 0xA9, newline] @
     ''let user_id = get_user_id().unwrap();'' @ [newline, newline] @ ''// '' @
     [CHR 0xE2, CHR 0x9C, CHR 0x85] @ '' '' @
     [CHR 0xE6, CHR 0x9B, CHR 0xB4, CHR 0xE5, CHR 0xA5, CHR 0xBD, newline] @
     ''let user_id = get_user_id()'' @ [newline] @
     ''    .map_err(|e| Error::UserIdNotFound(e))?;''"

definition category_unwrap_or_default :: string where
  \<comment> \<open>line 74: U+4E0D U+5F53 U+7684 " unwrap_or_default()" (improper unwrap_or_default())\<close>
  "category_unwrap_or_default =
     [CHR 0xE4, CHR 0xB8, CHR 0x8D, CHR 0xE5, CHR 0xBD, CHR 0x93, CHR 0xE7, CHR 0x9A, CHR 0x84] @
     '' unwrap_or_default()''"

definition risk_unwrap_or_default :: string where
  \<comment> \<open>line 75: U+53EF U+80FD U+63A9 U+76D6 U+771F U+5B9E U+9519 U+8BEF U+FF0C U+5BFC U+81F4 U+4E1A
     U+52A1 U+903B U+8F91 U+9519 U+8BEF (may hide a real error)\<close>
  "risk_unwrap_or_default =
     [CHR 0xE5, CHR 0x8F, CHR 0xAF, CHR 0xE8, CHR 0x83, CHR 0xBD, CHR 0xE6, CHR 0x8E, CHR 0xA9] @
     [CHR 0xE7, CHR 0x9B, CHR 0x96, CHR 0xE7, CHR 0x9C, CHR 0x9F, CHR 0xE5, CHR 0xAE, CHR 0x9E] @
     [CHR 0xE9, CHR 0x94, CHR 0x99, CHR 0xE8, CHR 0xAF, CHR 0xAF, CHR 0xEF, CHR 0xBC, CHR 0x8C] @
     [CHR 0xE5, CHR 0xAF, CHR 0xBC, CHR 0xE8, CHR 0x87, CHR 0xB4, CHR 0xE4, CHR 0xB8, CHR 0x9A] @
     [CHR 0xE5, CHR 0x8A, CHR 0xA1, CHR 0xE9, CHR 0x80, CHR 0xBB, CHR 0xE8, CHR 0xBE, CHR 0x91] @
     [CHR 0xE9, CHR 0x94, CHR 0x99, CHR 0xE8, CHR 0xAF, CHR 0xAF]"

definition suggestion_unwrap_or_default :: string where
  \<comment> \<open>line 76: U+91D1 U+989D U+3001 U+4F59 U+989D U+3001 U+72B6 U+6001 U+7B49 U+5B57 U+6BB5 U+5FC5
     U+987B U+663E U+5F0F U+5904 U+7406 U+9519 U+8BEF (handle the error explicitly)\<close>
  "suggestion_unwrap_or_default =
     [CHR 0xE9, CHR 0x87, CHR 0x91, CHR 0xE9, CHR 0xA2, CHR 0x9D, CHR 0xE3, CHR 0x80, CHR 0x81] @
     [CHR 0xE4, CHR 0xBD, CHR 0x99, CHR 0xE9, CHR 0xA2, CHR 0x9D, CHR 0xE3, CHR 0x80, CHR 0x81] @
     [CHR 0xE7, CHR 0x8A, CHR 0xB6, CHR 0xE6, CHR 0x80, CHR 0x81, CHR 0xE7, CHR 0xAD, CHR 0x89] @
     [CHR 0xE5, CHR 0xAD, CHR 0x97, CHR 0xE6, CHR 0xAE, CHR 0xB5, CHR 0xE5, CHR 0xBF, CHR 0x85] @
     [CHR 0xE9, CHR 0xA1, CHR 0xBB, CHR 0xE6, CHR 0x98, CHR 0xBE, CHR 0xE5, CHR 0xBC, CHR 0x8F] @
     [CHR 0xE5, CHR 0xA4, CHR 0x84, CHR 0xE7, CHR 0x90, CHR 0x86, CHR 0xE9, CHR 0x94, CHR 0x99] @
     [CHR 0xE8, CHR 0xAF, CHR 0xAF]"

definition example_unwrap_or_default :: string where
  \<comment> \<open>lines 77 to 85: the example of the rule, 9 lines of text\<close>
  "example_unwrap_or_default =
     ''// '' @ [CHR 0xE2, CHR 0x9D, CHR 0x8C] @ '' '' @
     [CHR 0xE4, CHR 0xBD, CHR 0x99, CHR 0xE9, CHR 0xA2, CHR 0x9D, CHR 0xE6, CHR 0x9F, CHR 0xA5] @
     [CHR 0xE8, CHR 0xAF, CHR 0xA2, CHR 0xE5, CHR 0xA4, CHR 0xB1, CHR 0xE8, CHR 0xB4, CHR 0xA5] @
     [CHR 0xE8, CHR 0xBF, CHR 0x94, CHR 0xE5, CHR 0x9B, CHR 0x9E] @ '' 0'' @ [newline] @
     ''let balance = query_balance(user_id).unwrap_or_default();'' @ [newline, newline] @
     ''// '' @ [CHR 0xE2, CHR 0x9C, CHR 0x85] @ '' '' @
     [CHR 0xE6, CHR 0x98, CHR 0x8E, CHR 0xE7, CHR 0xA1, CHR 0xAE, CHR 0xE5, CHR 0xA4, CHR 0x84] @
     [CHR 0xE7, CHR 0x90, CHR 0x86, CHR 0xE9, CHR 0x94, CHR 0x99, CHR 0xE8, CHR 0xAF, CHR 0xAF] @
     [newline] @ ''let balance = query_balance(user_id)'' @ [newline] @
     ''    .map_err(|e| {'' @ [newline] @ ''        log::error!('' @ [CHR 0x22] @
     ''Failed to query balance for {:?}: {:?}'' @ [CHR 0x22] @ '', user_id, e);'' @
     [newline] @ ''        Error::BalanceQueryFailed'' @ [newline] @ ''    })?;''"

definition category_unwrap_or :: string where
  \<comment> \<open>line 91: U+4E0D U+5F53 U+7684 " unwrap_or()" (improper unwrap_or())\<close>
  "category_unwrap_or =
     [CHR 0xE4, CHR 0xB8, CHR 0x8D, CHR 0xE5, CHR 0xBD, CHR 0x93, CHR 0xE7, CHR 0x9A, CHR 0x84] @
     '' unwrap_or()''"

definition risk_unwrap_or :: string where
  \<comment> \<open>line 92: U+7F51 U+7EDC U+9519 U+8BEF U+3001 U+914D U+7F6E U+9519 U+8BEF U+88AB U+63A9 U+76D6
     U+4E3A U+9ED8 U+8BA4 U+503C (errors hidden behind a default)\<close>
  "risk_unwrap_or =
     [CHR 0xE7, CHR 0xBD, CHR 0x91, CHR 0xE7, CHR 0xBB, CHR 0x9C, CHR 0xE9, CHR 0x94, CHR 0x99] @
     [CHR 0xE8, CHR 0xAF, CHR 0xAF, CHR 0xE3, CHR 0x80, CHR 0x81, CHR 0xE9, CHR 0x85, CHR 0x8D] @
     [CHR 0xE7, CHR 0xBD, CHR 0xAE, CHR 0xE9, CHR 0x94, CHR 0x99, CHR 0xE8, CHR 0xAF, CHR 0xAF] @
     [CHR 0xE8, CHR 0xA2, CHR 0xAB, CHR 0xE6, CHR 0x8E, CHR 0xA9, CHR 0xE7, CHR 0x9B, CHR 0x96] @
     [CHR 0xE4, CHR 0xB8, CHR 0xBA, CHR 0xE9, CHR 0xBB, CHR 0x98, CHR 0xE8, CHR 0xAE, CHR 0xA4] @
     [CHR 0xE5, CHR 0x80, CHR 0xBC]"

definition suggestion_unwrap_or :: string where
  \<comment> \<open>line 93: U+4F7F U+7528 " Result " U+4F20 U+64AD U+9519 U+8BEF U+FF0C U+6216 U+5728 U+542F
     U+52A8 U+65F6 U+660E U+786E U+5931 U+8D25 (propagate the error as a Result)\<close>
  "suggestion_unwrap_or =
     [CHR 0xE4, CHR 0xBD, CHR 0xBF, CHR 0xE7, CHR 0x94, CHR 0xA8] @ '' Result '' @
     [CHR 0xE4, CHR 0xBC, CHR 0xA0, CHR 0xE6, CHR 0x92, CHR 0xAD, CHR 0xE9, CHR 0x94, CHR 0x99] @
     [CHR 0xE8, CHR 0xAF, CHR 0xAF, CHR 0xEF, CHR 0xBC, CHR 0x8C, CHR 0xE6, CHR 0x88, CHR 0x96] @
     [CHR 0xE5, CHR 0x9C, CHR 0xA8, CHR 0xE5, CHR 0x90, CHR 0xAF, CHR 0xE5, CHR 0x8A, CHR 0xA8] @
     [CHR 0xE6, CHR 0x97, CHR 0xB6, CHR 0xE6, CHR 0x98, CHR 0x8E, CHR 0xE7, CHR 0xA1, CHR 0xAE] @
     [CHR 0xE5, CHR 0xA4, CHR 0xB1, CHR 0xE8, CHR 0xB4, CHR 0xA5]"

definition example_unwrap_or :: string where
  \<comment> \<open>lines 94 to 99: the example of the rule, 6 lines of text\<close>
  "example_unwrap_or =
     ''// '' @ [CHR 0xE2, CHR 0x9D, CHR 0x8C] @ '' '' @
     [CHR 0xE7, CHR 0xBD, CHR 0x91, CHR 0xE7, CHR 0xBB, CHR 0x9C, CHR 0xE9, CHR 0x94, CHR 0x99] @
     [CHR 0xE8, CHR 0xAF, CHR 0xAF, CHR 0xE8, CHR 0xA2, CHR 0xAB, CHR 0xE6, CHR 0x8E, CHR 0xA9] @
     [CHR 0xE7, CHR 0x9B, CHR 0x96, newline] @
     ''let price = fetch_price().unwrap_or(old_price);'' @ [newline, newline] @ ''// '' @
     [CHR 0xE2, CHR 0x9C, CHR 0x85] @ '' '' @
     [CHR 0xE5, CHR 0x90, CHR 0xAF, CHR 0xE5, CHR 0x8A, CHR 0xA8, CHR 0xE6, CHR 0x97, CHR 0xB6] @
     [CHR 0xE6, CHR 0x98, CHR 0x8E, CHR 0xE7, CHR 0xA1, CHR 0xAE, CHR 0xE5, CHR 0xA4, CHR 0xB1] @
     [CHR 0xE8, CHR 0xB4, CHR 0xA5, newline] @ ''let price = fetch_price().await'' @
     [newline] @ ''    .map_err(|e| Error::PriceFetchFailed { context: e })?;''"

definition category_let_underscore :: string where
  \<comment> \<open>line 105: "let _ = " U+5FFD U+7565 " must_use " U+503C (let _ = ignores a must_use value)\<close>
  "category_let_underscore =
     ''let _ = '' @ [CHR 0xE5, CHR 0xBF, CHR 0xBD, CHR 0xE7, CHR 0x95, CHR 0xA5] @
     '' must_use '' @ [CHR 0xE5, CHR 0x80, CHR 0xBC]"

definition risk_let_underscore :: string where
  \<comment> \<open>line 106: U+5FFD U+7565 U+91CD U+8981 U+8FD4 U+56DE U+503C U+FF0C U+5BFC U+81F4 U+8D44 U+6E90
     U+6CC4 U+6F0F U+6216 U+903B U+8F91 U+9519 U+8BEF (an important return value is ignored)\<close>
  "risk_let_underscore =
     [CHR 0xE5, CHR 0xBF, CHR 0xBD, CHR 0xE7, CHR 0x95, CHR 0xA5, CHR 0xE9, CHR 0x87, CHR 0x8D] @
     [CHR 0xE8, CHR 0xA6, CHR 0x81, CHR 0xE8, CHR 0xBF, CHR 0x94, CHR 0xE5, CHR 0x9B, CHR 0x9E] @
     [CHR 0xE5, CHR 0x80, CHR 0xBC, CHR 0xEF, CHR 0xBC, CHR 0x8C, CHR 0xE5, CHR 0xAF, CHR 0xBC] @
     [CHR 0xE8, CHR 0x87, CHR 0xB4, CHR 0xE8, CHR 0xB5, CHR 0x84, CHR 0xE6, CHR 0xBA, CHR 0x90] @
     [CHR 0xE6, CHR 0xB3, CHR 0x84, CHR 0xE6, CHR 0xBC, CHR 0x8F, CHR 0xE6, CHR 0x88, CHR 0x96] @
     [CHR 0xE9, CHR 0x80, CHR 0xBB, CHR 0xE8, CHR 0xBE, CHR 0x91, CHR 0xE9, CHR 0x94, CHR 0x99] @
     [CHR 0xE8, CHR 0xAF, CHR 0xAF]"

definition suggestion_let_underscore :: string where
  \<comment> \<open>line 107: U+663E U+5F0F U+5904 U+7406 U+8FD4 U+56DE U+503C U+FF0C U+6216 U+4F7F U+7528 "
     semicolon " U+8868 U+793A U+6709 U+610F U+8BC6 U+4E22 U+5F03 (handle the return value
     explicitly)\<close>
  "suggestion_let_underscore =
     [CHR 0xE6, CHR 0x98, CHR 0xBE, CHR 0xE5, CHR 0xBC, CHR 0x8F, CHR 0xE5, CHR 0xA4, CHR 0x84] @
     [CHR 0xE7, CHR 0x90, CHR 0x86, CHR 0xE8, CHR 0xBF, CHR 0x94, CHR 0xE5, CHR 0x9B, CHR 0x9E] @
     [CHR 0xE5, CHR 0x80, CHR 0xBC, CHR 0xEF, CHR 0xBC, CHR 0x8C, CHR 0xE6, CHR 0x88, CHR 0x96] @
     [CHR 0xE4, CHR 0xBD, CHR 0xBF, CHR 0xE7, CHR 0x94, CHR 0xA8] @ '' semicolon '' @
     [CHR 0xE8, CHR 0xA1, CHR 0xA8, CHR 0xE7, CHR 0xA4, CHR 0xBA, CHR 0xE6, CHR 0x9C, CHR 0x89] @
     [CHR 0xE6, CHR 0x84, CHR 0x8F, CHR 0xE8, CHR 0xAF, CHR 0x86, CHR 0xE4, CHR 0xB8, CHR 0xA2] @
     [CHR 0xE5, CHR 0xBC, CHR 0x83]"

definition example_let_underscore :: string where
  \<comment> \<open>lines 108 to 112: the example of the rule, 5 lines of text\<close>
  "example_let_underscore =
     ''// '' @ [CHR 0xE2, CHR 0x9D, CHR 0x8C] @ '' '' @
     [CHR 0xE5, CHR 0xBF, CHR 0xBD, CHR 0xE7, CHR 0x95, CHR 0xA5, CHR 0xE4, CHR 0xBA, CHR 0x8B] @
     [CHR 0xE5, CHR 0x8A, CHR 0xA1, CHR 0xE6, CHR 0x8F, CHR 0x90, CHR 0xE4, CHR 0xBA, CHR 0xA4] @
     [CHR 0xE7, CHR 0xBB, CHR 0x93, CHR 0xE6, CHR 0x9E, CHR 0x9C, newline] @
     ''let _ = tx.commit();'' @ [newline, newline] @ ''// '' @
     [CHR 0xE2, CHR 0x9C, CHR 0x85] @ '' '' @
     [CHR 0xE6, CHR 0x98, CHR 0xBE, CHR 0xE5, CHR 0xBC, CHR 0x8F, CHR 0xE5, CHR 0xA4, CHR 0x84] @
     [CHR 0xE7, CHR 0x90, CHR 0x86, newline] @ ''tx.commit()?;''"

definition category_assert :: string where
  \<comment> \<open>line 118: "assert! " U+5728 U+751F U+4EA7 U+4EE3 U+7801 U+4E2D (assert! in production code)\<close>
  "category_assert =
     ''assert! '' @
     [CHR 0xE5, CHR 0x9C, CHR 0xA8, CHR 0xE7, CHR 0x94, CHR 0x9F, CHR 0xE4, CHR 0xBA, CHR 0xA7] @
     [CHR 0xE4, CHR 0xBB, CHR 0xA3, CHR 0xE7, CHR 0xA0, CHR 0x81, CHR 0xE4, CHR 0xB8, CHR 0xAD]"

definition risk_assert :: string where
  \<comment> \<open>line 119: "release " U+6A21 U+5F0F U+4E0B U+88AB U+4F18 U+5316 U+6389 U+FF0C "debug " U+6A21
     U+5F0F U+624D " panic"\<close>
  "risk_assert =
     ''release '' @
     [CHR 0xE6, CHR 0xA8, CHR 0xA1, CHR 0xE5, CHR 0xBC, CHR 0x8F, CHR 0xE4, CHR 0xB8, CHR 0x8B] @
     [CHR 0xE8, CHR 0xA2, CHR 0xAB, CHR 0xE4, CHR 0xBC, CHR 0x98, CHR 0xE5, CHR 0x8C, CHR 0x96] @
     [CHR 0xE6, CHR 0x8E, CHR 0x89, CHR 0xEF, CHR 0xBC, CHR 0x8C] @ ''debug '' @
     [CHR 0xE6, CHR 0xA8, CHR 0xA1, CHR 0xE5, CHR 0xBC, CHR 0x8F, CHR 0xE6, CHR 0x89, CHR 0x8D] @
     '' panic''"

definition suggestion_assert :: string where
  \<comment> \<open>line 120: U+4F7F U+7528 " if " U+8BED U+53E5 U+68C0 U+67E5 U+5E76 U+8FD4 U+56DE U+9519 U+8BEF
     U+FF0C U+6216 U+4F7F U+7528 " debug_assert!" (check with an if and return an error)\<close>
  "suggestion_assert =
     [CHR 0xE4, CHR 0xBD, CHR 0xBF, CHR 0xE7, CHR 0x94, CHR 0xA8] @ '' if '' @
     [CHR 0xE8, CHR 0xAF, CHR 0xAD, CHR 0xE5, CHR 0x8F, CHR 0xA5, CHR 0xE6, CHR 0xA3, CHR 0x80] @
     [CHR 0xE6, CHR 0x9F, CHR 0xA5, CHR 0xE5, CHR 0xB9, CHR 0xB6, CHR 0xE8, CHR 0xBF, CHR 0x94] @
     [CHR 0xE5, CHR 0x9B, CHR 0x9E, CHR 0xE9, CHR 0x94, CHR 0x99, CHR 0xE8, CHR 0xAF, CHR 0xAF] @
     [CHR 0xEF, CHR 0xBC, CHR 0x8C, CHR 0xE6, CHR 0x88, CHR 0x96, CHR 0xE4, CHR 0xBD, CHR 0xBF] @
     [CHR 0xE7, CHR 0x94, CHR 0xA8] @ '' debug_assert!''"

definition example_assert :: string where
  \<comment> \<open>lines 121 to 127: the example of the rule, 7 lines of text\<close>
  "example_assert =
     ''// '' @ [CHR 0xE2, CHR 0x9D, CHR 0x8C] @ '' release '' @
     [CHR 0xE6, CHR 0xA8, CHR 0xA1, CHR 0xE5, CHR 0xBC, CHR 0x8F, CHR 0xE4, CHR 0xB8, CHR 0x8B] @
     [CHR 0xE4, CHR 0xB8, CHR 0x8D, CHR 0xE6, CHR 0xA3, CHR 0x80, CHR 0xE6, CHR 0x9F, CHR 0xA5] @
     [newline] @ ''assert!(amount > 0, '' @ [CHR 0x22] @ ''Amount must be positive'' @
     [CHR 0x22] @ '');'' @ [newline, newline] @ ''// '' @ [CHR 0xE2, CHR 0x9C, CHR 0x85] @
     '' '' @
     [CHR 0xE8, CHR 0xBF, CHR 0x90, CHR 0xE8, CHR 0xA1, CHR 0x8C, CHR 0xE6, CHR 0x97, CHR 0xB6] @
     [CHR 0xE5, CHR 0xA7, CHR 0x8B, CHR 0xE7, CHR 0xBB, CHR 0x88, CHR 0xE6, CHR 0xA3, CHR 0x80] @
     [CHR 0xE6, CHR 0x9F, CHR 0xA5, newline] @ ''if amount <= 0 {'' @ [newline] @
     ''    return Err(Error::InvalidAmount { amount });'' @ [newline] @ ''}''"

definition category_expect_short :: string where
  \<comment> \<open>line 134: "expect() " U+7F3A U+5C11 U+6709 U+7528 U+7684 U+9519 U+8BEF U+4FE1 U+606F (expect()
     without a useful message)\<close>
  "category_expect_short =
     ''expect() '' @
     [CHR 0xE7, CHR 0xBC, CHR 0xBA, CHR 0xE5, CHR 0xB0, CHR 0x91, CHR 0xE6, CHR 0x9C, CHR 0x89] @
     [CHR 0xE7, CHR 0x94, CHR 0xA8, CHR 0xE7, CHR 0x9A, CHR 0x84, CHR 0xE9, CHR 0x94, CHR 0x99] @
     [CHR 0xE8, CHR 0xAF, CHR 0xAF, CHR 0xE4, CHR 0xBF, CHR 0xA1, CHR 0xE6, CHR 0x81, CHR 0xAF]"

definition risk_expect_short :: string where
  \<comment> \<open>line 135: "panic " U+65F6 U+7F3A U+5C11 U+8C03 U+8BD5 U+4E0A U+4E0B U+6587 U+FF0C U+96BE
     U+4EE5 U+5B9A U+4F4D U+95EE U+9898 (no context at the panic)\<close>
  "risk_expect_short =
     ''panic '' @
     [CHR 0xE6, CHR 0x97, CHR 0xB6, CHR 0xE7, CHR 0xBC, CHR 0xBA, CHR 0xE5, CHR 0xB0, CHR 0x91] @
     [CHR 0xE8, CHR 0xB0, CHR 0x83, CHR 0xE8, CHR 0xAF, CHR 0x95, CHR 0xE4, CHR 0xB8, CHR 0x8A] @
     [CHR 0xE4, CHR 0xB8, CHR 0x8B, CHR 0xE6, CHR 0x96, CHR 0x87, CHR 0xEF, CHR 0xBC, CHR 0x8C] @
     [CHR 0xE9, CHR 0x9A, CHR 0xBE, CHR 0xE4, CHR 0xBB, CHR 0xA5, CHR 0xE5, CHR 0xAE, CHR 0x9A] @
     [CHR 0xE4, CHR 0xBD, CHR 0x8D, CHR 0xE9, CHR 0x97, CHR 0xAE, CHR 0xE9, CHR 0xA2, CHR 0x98]"

definition suggestion_expect_short :: string where
  \<comment> \<open>line 136: U+5305 U+542B U+8DB3 U+591F U+7684 U+4E0A U+4E0B U+6587 U+FF08 U+5730 U+5740 U+3001
     "ID" U+3001 U+53C2 U+6570 U+7B49 U+FF09 (include enough context)\<close>
  "suggestion_expect_short =
     [CHR 0xE5, CHR 0x8C, CHR 0x85, CHR 0xE5, CHR 0x90, CHR 0xAB, CHR 0xE8, CHR 0xB6, CHR 0xB3] @
     [CHR 0xE5, CHR 0xA4, CHR 0x9F, CHR 0xE7, CHR 0x9A, CHR 0x84, CHR 0xE4, CHR 0xB8, CHR 0x8A] @
     [CHR 0xE4, CHR 0xB8, CHR 0x8B, CHR 0xE6, CHR 0x96, CHR 0x87, CHR 0xEF, CHR 0xBC, CHR 0x88] @
     [CHR 0xE5, CHR 0x9C, CHR 0xB0, CHR 0xE5, CHR 0x9D, CHR 0x80, CHR 0xE3, CHR 0x80, CHR 0x81] @
     ''ID'' @
     [CHR 0xE3, CHR 0x80, CHR 0x81, CHR 0xE5, CHR 0x8F, CHR 0x82, CHR 0xE6, CHR 0x95, CHR 0xB0] @
     [CHR 0xE7, CHR 0xAD, CHR 0x89, CHR 0xEF, CHR 0xBC, CHR 0x89]"

definition example_expect_short :: string where
  \<comment> \<open>lines 137 to 143: the example of the rule, 7 lines of text\<close>
  "example_expect_short =
     ''// '' @ [CHR 0xE2, CHR 0x9D, CHR 0x8C] @ '' '' @
     [CHR 0xE4, CHR 0xBF, CHR 0xA1, CHR 0xE6, CHR 0x81, CHR 0xAF, CHR 0xE4, CHR 0xB8, CHR 0x8D] @
     [CHR 0xE8, CHR 0xB6, CHR 0xB3, newline] @ ''let config = load_config().expect('' @
     [CHR 0x22] @ ''failed'' @ [CHR 0x22] @ '');'' @ [newline, newline] @ ''// '' @
     [CHR 0xE2, CHR 0x9C, CHR 0x85] @ '' '' @
     [CHR 0xE5, CHR 0x8C, CHR 0x85, CHR 0xE5, CHR 0x90, CHR 0xAB, CHR 0xE4, CHR 0xB8, CHR 0x8A] @
     [CHR 0xE4, CHR 0xB8, CHR 0x8B, CHR 0xE6, CHR 0x96, CHR 0x87, newline] @
     ''let config = load_config().expect('' @ [newline] @ ''    '' @ [CHR 0x22] @
     ''Failed to load config from CONFIG_PATH env var'' @ [CHR 0x22, newline] @ '');''"

definition category_panic_short :: string where
  \<comment> \<open>line 149: "panic! " U+4F7F U+7528 U+4E0D U+5F53 (improper use of panic!)\<close>
  "category_panic_short =
     ''panic! '' @
     [CHR 0xE4, CHR 0xBD, CHR 0xBF, CHR 0xE7, CHR 0x94, CHR 0xA8, CHR 0xE4, CHR 0xB8, CHR 0x8D] @
     [CHR 0xE5, CHR 0xBD, CHR 0x93]"

definition risk_panic_short :: string where
  \<comment> \<open>line 150: "panic " U+4FE1 U+606F U+4E0D U+5B8C U+6574 U+FF0C U+8C03 U+8BD5 U+56F0 U+96BE
     (incomplete panic message)\<close>
  "risk_panic_short =
     ''panic '' @
     [CHR 0xE4, CHR 0xBF, CHR 0xA1, CHR 0xE6, CHR 0x81, CHR 0xAF, CHR 0xE4, CHR 0xB8, CHR 0x8D] @
     [CHR 0xE5, CHR 0xAE, CHR 0x8C, CHR 0xE6, CHR 0x95, CHR 0xB4, CHR 0xEF, CHR 0xBC, CHR 0x8C] @
     [CHR 0xE8, CHR 0xB0, CHR 0x83, CHR 0xE8, CHR 0xAF, CHR 0x95, CHR 0xE5, CHR 0x9B, CHR 0xB0] @
     [CHR 0xE9, CHR 0x9A, CHR 0xBE]"

definition suggestion_panic_short :: string where
  \<comment> \<open>line 151: U+5305 U+542B U+8BF7 U+6C42 U+53C2 U+6570 U+3001 U+65F6 U+95F4 U+6233 U+3001 U+5730
     U+5740 U+7B49 U+8C03 U+8BD5 U+4FE1 U+606F (include debugging information)\<close>
  "suggestion_panic_short =
     [CHR 0xE5, CHR 0x8C, CHR 0x85, CHR 0xE5, CHR 0x90, CHR 0xAB, CHR 0xE8, CHR 0xAF, CHR 0xB7] @
     [CHR 0xE6, CHR 0xB1, CHR 0x82, CHR 0xE5, CHR 0x8F, CHR 0x82, CHR 0xE6, CHR 0x95, CHR 0xB0] @
     [CHR 0xE3, CHR 0x80, CHR 0x81, CHR 0xE6, CHR 0x97, CHR 0xB6, CHR 0xE9, CHR 0x97, CHR 0xB4] @
     [CHR 0xE6, CHR 0x88, CHR 0xB3, CHR 0xE3, CHR 0x80, CHR 0x81, CHR 0xE5, CHR 0x9C, CHR 0xB0] @
     [CHR 0xE5, CHR 0x9D, CHR 0x80, CHR 0xE7, CHR 0xAD, CHR 0x89, CHR 0xE8, CHR 0xB0, CHR 0x83] @
     [CHR 0xE8, CHR 0xAF, CHR 0x95, CHR 0xE4, CHR 0xBF, CHR 0xA1, CHR 0xE6, CHR 0x81, CHR 0xAF]"

definition example_panic_short :: string where
  \<comment> \<open>lines 152 to 159: the example of the rule, 8 lines of text\<close>
  "example_panic_short =
     ''// '' @ [CHR 0xE2, CHR 0x9D, CHR 0x8C] @ '' '' @
     [CHR 0xE7, CHR 0xBC, CHR 0xBA, CHR 0xE5, CHR 0xB0, CHR 0x91, CHR 0xE4, CHR 0xB8, CHR 0x8A] @
     [CHR 0xE4, CHR 0xB8, CHR 0x8B, CHR 0xE6, CHR 0x96, CHR 0x87, newline] @ ''panic!('' @
     [CHR 0x22] @ ''Invalid state'' @ [CHR 0x22] @ '');'' @ [newline, newline] @ ''// '' @
     [CHR 0xE2, CHR 0x9C, CHR 0x85] @ '' '' @
     [CHR 0xE5, CHR 0x8C, CHR 0x85, CHR 0xE5, CHR 0x90, CHR 0xAB, CHR 0xE8, CHR 0xB0, CHR 0x83] @
     [CHR 0xE8, CHR 0xAF, CHR 0x95, CHR 0xE4, CHR 0xBF, CHR 0xA1, CHR 0xE6, CHR 0x81, CHR 0xAF] @
     [newline] @ ''panic!('' @ [newline] @ ''    '' @ [CHR 0x22] @
     ''Invalid state: expected Active, got {:?} for order {}'' @ [CHR 0x22] @ '','' @
     [newline] @ ''    state, order_id'' @ [newline] @ '');''"

definition category_ok :: string where
  \<comment> \<open>line 165: "ok() " U+9759 U+9ED8 U+5FFD U+7565 U+9519 U+8BEF (ok() silently ignores the error)\<close>
  "category_ok =
     ''ok() '' @
     [CHR 0xE9, CHR 0x9D, CHR 0x99, CHR 0xE9, CHR 0xBB, CHR 0x98, CHR 0xE5, CHR 0xBF, CHR 0xBD] @
     [CHR 0xE7, CHR 0x95, CHR 0xA5, CHR 0xE9, CHR 0x94, CHR 0x99, CHR 0xE8, CHR 0xAF, CHR 0xAF]"

definition risk_ok :: string where
  \<comment> \<open>line 166: U+9519 U+8BEF U+88AB U+6084 U+65E0 U+58F0 U+606F U+5730 U+5FFD U+7565 U+FF0C U+53EF
     U+80FD U+5BFC U+81F4 U+540E U+7EED U+95EE U+9898 (the error is silently dropped)\<close>
  "risk_ok =
     [CHR 0xE9, CHR 0x94, CHR 0x99, CHR 0xE8, CHR 0xAF, CHR 0xAF, CHR 0xE8, CHR 0xA2, CHR 0xAB] @
     [CHR 0xE6, CHR 0x82, CHR 0x84, CHR 0xE6, CHR 0x97, CHR 0xA0, CHR 0xE5, CHR 0xA3, CHR 0xB0] @
     [CHR 0xE6, CHR 0x81, CHR 0xAF, CHR 0xE5, CHR 0x9C, CHR 0xB0, CHR 0xE5, CHR 0xBF, CHR 0xBD] @
     [CHR 0xE7, CHR 0x95, CHR 0xA5, CHR 0xEF, CHR 0xBC, CHR 0x8C, CHR 0xE5, CHR 0x8F, CHR 0xAF] @
     [CHR 0xE8, CHR 0x83, CHR 0xBD, CHR 0xE5, CHR 0xAF, CHR 0xBC, CHR 0xE8, CHR 0x87, CHR 0xB4] @
     [CHR 0xE5, CHR 0x90, CHR 0x8E, CHR 0xE7, CHR 0xBB, CHR 0xAD, CHR 0xE9, CHR 0x97, CHR 0xAE] @
     [CHR 0xE9, CHR 0xA2, CHR 0x98]"

definition suggestion_ok :: string where
  \<comment> \<open>line 167: U+81F3 U+5C11 U+8BB0 U+5F55 U+65E5 U+5FD7 U+FF0C U+6216 U+4F7F U+7528 " inspect_err"
     (log it at least)\<close>
  "suggestion_ok =
     [CHR 0xE8, CHR 0x87, CHR 0xB3, CHR 0xE5, CHR 0xB0, CHR 0x91, CHR 0xE8, CHR 0xAE, CHR 0xB0] @
     [CHR 0xE5, CHR 0xBD, CHR 0x95, CHR 0xE6, CHR 0x97, CHR 0xA5, CHR 0xE5, CHR 0xBF, CHR 0x97] @
     [CHR 0xEF, CHR 0xBC, CHR 0x8C, CHR 0xE6, CHR 0x88, CHR 0x96, CHR 0xE4, CHR 0xBD, CHR 0xBF] @
     [CHR 0xE7, CHR 0x94, CHR 0xA8] @ '' inspect_err''"

definition example_ok :: string where
  \<comment> \<open>lines 168 to 174: the example of the rule, 7 lines of text\<close>
  "example_ok =
     ''// '' @ [CHR 0xE2, CHR 0x9D, CHR 0x8C] @ '' '' @
     [CHR 0xE9, CHR 0x94, CHR 0x99, CHR 0xE8, CHR 0xAF, CHR 0xAF, CHR 0xE8, CHR 0xA2, CHR 0xAB] @
     [CHR 0xE5, CHR 0x90, CHR 0x9E, CHR 0xE6, CHR 0x8E, CHR 0x89, newline] @
     ''let result = some_operation().ok();'' @ [newline, newline] @ ''// '' @
     [CHR 0xE2, CHR 0x9C, CHR 0x85] @ '' '' @
     [CHR 0xE8, CHR 0x87, CHR 0xB3, CHR 0xE5, CHR 0xB0, CHR 0x91, CHR 0xE8, CHR 0xAE, CHR 0xB0] @
     [CHR 0xE5, CHR 0xBD, CHR 0x95, CHR 0xE6, CHR 0x97, CHR 0xA5, CHR 0xE5, CHR 0xBF, CHR 0x97] @
     [newline] @ ''if let Err(e) = some_operation() {'' @ [newline] @ ''    log::warn!('' @
     [CHR 0x22] @ ''Operation failed: {:?}'' @ [CHR 0x22] @ '', e);'' @ [newline] @ ''}''"

definition category_parse_unwrap :: string where
  \<comment> \<open>line 180: "parse().unwrap() " U+6A21 U+5F0F (the parse().unwrap() pattern)\<close>
  "category_parse_unwrap =
     ''parse().unwrap() '' @ [CHR 0xE6, CHR 0xA8, CHR 0xA1, CHR 0xE5, CHR 0xBC, CHR 0x8F]"

definition risk_parse_unwrap :: string where
  \<comment> \<open>line 181: U+5B57 U+7B26 U+4E32 U+89E3 U+6790 U+5931 U+8D25 U+5BFC U+81F4 " panic" (a failed
     parse panics)\<close>
  "risk_parse_unwrap =
     [CHR 0xE5, CHR 0xAD, CHR 0x97, CHR 0xE7, CHR 0xAC, CHR 0xA6, CHR 0xE4, CHR 0xB8, CHR 0xB2] @
     [CHR 0xE8, CHR 0xA7, CHR 0xA3, CHR 0xE6, CHR 0x9E, CHR 0x90, CHR 0xE5, CHR 0xA4, CHR 0xB1] @
     [CHR 0xE8, CHR 0xB4, CHR 0xA5, CHR 0xE5, CHR 0xAF, CHR 0xBC, CHR 0xE8, CHR 0x87, CHR 0xB4] @
     '' panic''"

definition suggestion_parse_unwrap :: string where
  \<comment> \<open>line 182: U+4F18 U+96C5 U+5904 U+7406 U+89E3 U+6790 U+9519 U+8BEF U+FF0C U+63D0 U+4F9B U+6E05
     U+6670 U+7684 U+9519 U+8BEF U+6D88 U+606F (handle the parse error)\<close>
  "suggestion_parse_unwrap =
     [CHR 0xE4, CHR 0xBC, CHR 0x98, CHR 0xE9, CHR 0x9B, CHR 0x85, CHR 0xE5, CHR 0xA4, CHR 0x84] @
     [CHR 0xE7, CHR 0x90, CHR 0x86, CHR 0xE8, CHR 0xA7, CHR 0xA3, CHR 0xE6, CHR 0x9E, CHR 0x90] @
     [CHR 0xE9, CHR 0x94, CHR 0x99, CHR 0xE8, CHR 0xAF, CHR 0xAF, CHR 0xEF, CHR 0xBC, CHR 0x8C] @
     [CHR 0xE6, CHR 0x8F, CHR 0x90, CHR 0xE4, CHR 0xBE, CHR 0x9B, CHR 0xE6, CHR 0xB8, CHR 0x85] @
     [CHR 0xE6, CHR 0x99, CHR 0xB0, CHR 0xE7, CHR 0x9A, CHR 0x84, CHR 0xE9, CHR 0x94, CHR 0x99] @
     [CHR 0xE8, CHR 0xAF, CHR 0xAF, CHR 0xE6, CHR 0xB6, CHR 0x88, CHR 0xE6, CHR 0x81, CHR 0xAF]"

definition example_parse_unwrap :: string where
  \<comment> \<open>lines 183 to 194: the example of the rule, 12 lines of text\<close>
  "example_parse_unwrap =
     ''// '' @ [CHR 0xE2, CHR 0x9D, CHR 0x8C] @ '' '' @
     [CHR 0xE8, CHR 0xA7, CHR 0xA3, CHR 0xE6, CHR 0x9E, CHR 0x90, CHR 0xE5, CHR 0xA4, CHR 0xB1] @
     [CHR 0xE8, CHR 0xB4, CHR 0xA5] @ '' panic'' @ [newline] @
     ''let port: u16 = env::var('' @ [CHR 0x22] @ ''PORT'' @ [CHR 0x22] @
     '').unwrap().parse().unwrap();'' @ [newline, newline] @ ''// '' @
     [CHR 0xE2, CHR 0x9C, CHR 0x85] @ '' '' @
     [CHR 0xE4, CHR 0xBC, CHR 0x98, CHR 0xE9, CHR 0x9B, CHR 0x85, CHR 0xE5, CHR 0xA4, CHR 0x84] @
     [CHR 0xE7, CHR 0x90, CHR 0x86, CHR 0xE9, CHR 0x94, CHR 0x99, CHR 0xE8, CHR 0xAF, CHR 0xAF] @
     [newline] @ ''let port: u16 = env::var('' @ [CHR 0x22] @ ''PORT'' @ [CHR 0x22] @
     '')'' @ [newline] @ ''    .map_err(|e| Error::ConfigMissing('' @ [CHR 0x22] @
     ''PORT'' @ [CHR 0x22] @ ''.into()))?'' @ [newline] @ ''    .parse()'' @ [newline] @
     ''    .map_err(|e| Error::ConfigInvalid {'' @ [newline] @ ''        key: '' @
     [CHR 0x22] @ ''PORT'' @ [CHR 0x22] @ '','' @ [newline] @ ''        value: env::var('' @
     [CHR 0x22] @ ''PORT'' @ [CHR 0x22] @ '').unwrap_or_default(),'' @ [newline] @
     ''        source: e,'' @ [newline] @ ''    })?;''"

definition category_direct_index :: string where
  \<comment> \<open>line 200: U+672A U+7ECF U+68C0 U+67E5 U+7684 U+6570 U+7EC4 "/Vec " U+8BBF U+95EE (unchecked
     array or Vec access)\<close>
  "category_direct_index =
     [CHR 0xE6, CHR 0x9C, CHR 0xAA, CHR 0xE7, CHR 0xBB, CHR 0x8F, CHR 0xE6, CHR 0xA3, CHR 0x80] @
     [CHR 0xE6, CHR 0x9F, CHR 0xA5, CHR 0xE7, CHR 0x9A, CHR 0x84, CHR 0xE6, CHR 0x95, CHR 0xB0] @
     [CHR 0xE7, CHR 0xBB, CHR 0x84] @ ''/Vec '' @
     [CHR 0xE8, CHR 0xAE, CHR 0xBF, CHR 0xE9, CHR 0x97, CHR 0xAE]"

definition risk_direct_index :: string where
  \<comment> \<open>line 201: U+8D8A U+754C U+8BBF U+95EE U+5BFC U+81F4 " panic" (an out-of-range access panics)\<close>
  "risk_direct_index =
     [CHR 0xE8, CHR 0xB6, CHR 0x8A, CHR 0xE7, CHR 0x95, CHR 0x8C, CHR 0xE8, CHR 0xAE, CHR 0xBF] @
     [CHR 0xE9, CHR 0x97, CHR 0xAE, CHR 0xE5, CHR 0xAF, CHR 0xBC, CHR 0xE8, CHR 0x87, CHR 0xB4] @
     '' panic''"

definition suggestion_direct_index :: string where
  \<comment> \<open>line 202: U+4F7F U+7528 " .get()" U+3001 ".first()" U+3001 ".last() " U+7B49 U+5B89 U+5168
     U+65B9 U+6CD5 (use .get(), .first(), .last())\<close>
  "suggestion_direct_index =
     [CHR 0xE4, CHR 0xBD, CHR 0xBF, CHR 0xE7, CHR 0x94, CHR 0xA8] @ '' .get()'' @
     [CHR 0xE3, CHR 0x80, CHR 0x81] @ ''.first()'' @ [CHR 0xE3, CHR 0x80, CHR 0x81] @
     ''.last() '' @
     [CHR 0xE7, CHR 0xAD, CHR 0x89, CHR 0xE5, CHR 0xAE, CHR 0x89, CHR 0xE5, CHR 0x85, CHR 0xA8] @
     [CHR 0xE6, CHR 0x96, CHR 0xB9, CHR 0xE6, CHR 0xB3, CHR 0x95]"

definition example_direct_index :: string where
  \<comment> \<open>lines 203 to 210: the example of the rule, 8 lines of text\<close>
  "example_direct_index =
     ''// '' @ [CHR 0xE2, CHR 0x9D, CHR 0x8C] @ '' '' @
     [CHR 0xE5, CHR 0x8F, CHR 0xAF, CHR 0xE8, CHR 0x83, CHR 0xBD] @ '' panic'' @ [newline] @
     ''let item = items[0];'' @ [newline, newline] @ ''// '' @
     [CHR 0xE2, CHR 0x9C, CHR 0x85] @ '' '' @
     [CHR 0xE5, CHR 0xAE, CHR 0x89, CHR 0xE5, CHR 0x85, CHR 0xA8, CHR 0xE8, CHR 0xAE, CHR 0xBF] @
     [CHR 0xE9, CHR 0x97, CHR 0xAE, newline] @
     ''let item = items.get(0).ok_or(Error::EmptyList)?;'' @ [newline, newline] @ ''// '' @
     [CHR 0xE2, CHR 0x9C, CHR 0x85] @ '' '' @
     [CHR 0xE6, CHR 0x88, CHR 0x96, CHR 0xE4, CHR 0xBD, CHR 0xBF, CHR 0xE7, CHR 0x94, CHR 0xA8] @
     [CHR 0xE8, CHR 0xBF, CHR 0xAD, CHR 0xE4, CHR 0xBB, CHR 0xA3, CHR 0xE5, CHR 0x99, CHR 0xA8] @
     [newline] @ ''let item = items.first().ok_or(Error::EmptyList)?;''"

definition category_todo :: string where
  \<comment> \<open>line 217: "todo!() " U+548C " unimplemented!() " U+5728 U+751F U+4EA7 U+4EE3 U+7801 (todo!()
     and unimplemented!() in production code)\<close>
  "category_todo =
     ''todo!() '' @ [CHR 0xE5, CHR 0x92, CHR 0x8C] @ '' unimplemented!() '' @
     [CHR 0xE5, CHR 0x9C, CHR 0xA8, CHR 0xE7, CHR 0x94, CHR 0x9F, CHR 0xE4, CHR 0xBA, CHR 0xA7] @
     [CHR 0xE4, CHR 0xBB, CHR 0xA3, CHR 0xE7, CHR 0xA0, CHR 0x81]"

definition risk_todo :: string where
  \<comment> \<open>line 218: U+529F U+80FD U+672A U+5B8C U+6210 U+FF0C U+6267 U+884C U+5230 U+65F6 U+4F1A "
     panic" (panics when reached)\<close>
  "risk_todo =
     [CHR 0xE5, CHR 0x8A, CHR 0x9F, CHR 0xE8, CHR 0x83, CHR 0xBD, CHR 0xE6, CHR 0x9C, CHR 0xAA] @
     [CHR 0xE5, CHR 0xAE, CHR 0x8C, CHR 0xE6, CHR 0x88, CHR 0x90, CHR 0xEF, CHR 0xBC, CHR 0x8C] @
     [CHR 0xE6, CHR 0x89, CHR 0xA7, CHR 0xE8, CHR 0xA1, CHR 0x8C, CHR 0xE5, CHR 0x88, CHR 0xB0] @
     [CHR 0xE6, CHR 0x97, CHR 0xB6, CHR 0xE4, CHR 0xBC, CHR 0x9A] @ '' panic''"

definition suggestion_todo :: string where
  \<comment> \<open>line 219: U+8FD4 U+56DE U+660E U+786E U+7684 U+9519 U+8BEF U+FF0C U+6216 U+6DFB U+52A0 "
     #[cfg(test)] " U+6761 U+4EF6 (return an explicit error)\<close>
  "suggestion_todo =
     [CHR 0xE8, CHR 0xBF, CHR 0x94, CHR 0xE5, CHR 0x9B, CHR 0x9E, CHR 0xE6, CHR 0x98, CHR 0x8E] @
     [CHR 0xE7, CHR 0xA1, CHR 0xAE, CHR 0xE7, CHR 0x9A, CHR 0x84, CHR 0xE9, CHR 0x94, CHR 0x99] @
     [CHR 0xE8, CHR 0xAF, CHR 0xAF, CHR 0xEF, CHR 0xBC, CHR 0x8C, CHR 0xE6, CHR 0x88, CHR 0x96] @
     [CHR 0xE6, CHR 0xB7, CHR 0xBB, CHR 0xE5, CHR 0x8A, CHR 0xA0] @ '' #[cfg(test)] '' @
     [CHR 0xE6, CHR 0x9D, CHR 0xA1, CHR 0xE4, CHR 0xBB, CHR 0xB6]"

definition example_todo :: string where
  \<comment> \<open>lines 220 to 230: the example of the rule, 11 lines of text\<close>
  "example_todo =
     ''// '' @ [CHR 0xE2, CHR 0x9D, CHR 0x8C] @ '' '' @
     [CHR 0xE7, CHR 0x94, CHR 0x9F, CHR 0xE4, CHR 0xBA, CHR 0xA7, CHR 0xE4, CHR 0xBB, CHR 0xA3] @
     [CHR 0xE7, CHR 0xA0, CHR 0x81, CHR 0xE4, CHR 0xB8, CHR 0xAD, CHR 0xE6, CHR 0x9C, CHR 0xAA] @
     [CHR 0xE5, CHR 0xAE, CHR 0x8C, CHR 0xE6, CHR 0x88, CHR 0x90, newline] @
     ''fn complex_feature(input: Input) -> Output {'' @ [newline] @ ''    todo!()'' @
     [newline] @ ''}'' @ [newline, newline] @ ''// '' @ [CHR 0xE2, CHR 0x9C, CHR 0x85] @
     '' '' @
     [CHR 0xE8, CHR 0xBF, CHR 0x94, CHR 0xE5, CHR 0x9B, CHR 0x9E, CHR 0xE6, CHR 0x98, CHR 0x8E] @
     [CHR 0xE7, CHR 0xA1, CHR 0xAE, CHR 0xE7, CHR 0x9A, CHR 0x84, CHR 0xE9, CHR 0x94, CHR 0x99] @
     [CHR 0xE8, CHR 0xAF, CHR 0xAF, newline] @
     ''fn complex_feature(input: Input) -> Result<Output, Error> {'' @ [newline] @
     ''    Err(Error::NotImplemented {'' @ [newline] @ ''        feature: '' @ [CHR 0x22] @
     ''complex_feature'' @ [CHR 0x22] @ ''.into()'' @ [newline] @ ''    })'' @ [newline] @
     ''}''"

definition msg_cannot_read :: string where
  \<comment> \<open>line 256: U+26A0 U+FE0F "  " U+65E0 U+6CD5 U+8BFB U+53D6 U+6587 U+4EF6 " " (cannot read file)\<close>
  "msg_cannot_read =
     [CHR 0xE2, CHR 0x9A, CHR 0xA0, CHR 0xEF, CHR 0xB8, CHR 0x8F] @ ''  '' @
     [CHR 0xE6, CHR 0x97, CHR 0xA0, CHR 0xE6, CHR 0xB3, CHR 0x95, CHR 0xE8, CHR 0xAF, CHR 0xBB] @
     [CHR 0xE5, CHR 0x8F, CHR 0x96, CHR 0xE6, CHR 0x96, CHR 0x87, CHR 0xE4, CHR 0xBB, CHR 0xB6] @
     '' ''"

definition msg_no_issues :: string where
  \<comment> \<open>line 303: U+2705 " " U+672A U+53D1 U+73B0 U+9519 U+8BEF U+5BB9 U+5FCD U+95EE U+9898 U+FF01 (no
     error tolerance problem found)\<close>
  "msg_no_issues =
     [CHR 0xE2, CHR 0x9C, CHR 0x85] @ '' '' @
     [CHR 0xE6, CHR 0x9C, CHR 0xAA, CHR 0xE5, CHR 0x8F, CHR 0x91, CHR 0xE7, CHR 0x8E, CHR 0xB0] @
     [CHR 0xE9, CHR 0x94, CHR 0x99, CHR 0xE8, CHR 0xAF, CHR 0xAF, CHR 0xE5, CHR 0xAE, CHR 0xB9] @
     [CHR 0xE5, CHR 0xBF, CHR 0x8D, CHR 0xE9, CHR 0x97, CHR 0xAE, CHR 0xE9, CHR 0xA2, CHR 0x98] @
     [CHR 0xEF, CHR 0xBC, CHR 0x81]"

definition msg_report_title :: string where
  \<comment> \<open>line 316: "# Rust " U+9519 U+8BEF U+5BB9 U+5FCD U+68C0 U+67E5 U+62A5 U+544A LF (Rust error
     tolerance report)\<close>
  "msg_report_title =
     ''# Rust '' @
     [CHR 0xE9, CHR 0x94, CHR 0x99, CHR 0xE8, CHR 0xAF, CHR 0xAF, CHR 0xE5, CHR 0xAE, CHR 0xB9] @
     [CHR 0xE5, CHR 0xBF, CHR 0x8D, CHR 0xE6, CHR 0xA3, CHR 0x80, CHR 0xE6, CHR 0x9F, CHR 0xA5] @
     [CHR 0xE6, CHR 0x8A, CHR 0xA5, CHR 0xE5, CHR 0x91, CHR 0x8A, newline]"

definition msg_found_1 :: string where
  \<comment> \<open>line 317: U+5171 U+53D1 U+73B0 " " (found)\<close>
  "msg_found_1 =
     [CHR 0xE5, CHR 0x85, CHR 0xB1, CHR 0xE5, CHR 0x8F, CHR 0x91, CHR 0xE7, CHR 0x8E, CHR 0xB0] @
     '' ''"

definition msg_found_2 :: string where
  \<comment> \<open>line 317: " " U+4E2A U+95EE U+9898 LF (problems)\<close>
  "msg_found_2 =
     '' '' @
     [CHR 0xE4, CHR 0xB8, CHR 0xAA, CHR 0xE9, CHR 0x97, CHR 0xAE, CHR 0xE9, CHR 0xA2, CHR 0x98] @
     [newline]"

definition msg_heading2 :: string where
  \<comment> \<open>line 325: LF "## "\<close>
  "msg_heading2 =
     [newline] @ ''## ''"

definition msg_file_1 :: string where
  \<comment> \<open>line 336: LF "### " U+6587 U+4EF6 ": " U+0060 (file)\<close>
  "msg_file_1 =
     [newline] @ ''### '' @ [CHR 0xE6, CHR 0x96, CHR 0x87, CHR 0xE4, CHR 0xBB, CHR 0xB6] @
     '': '' @ [CHR 0x60]"

definition msg_file_2 :: string where
  \<comment> \<open>line 336: U+0060 LF\<close>
  "msg_file_2 =
     [CHR 0x60, newline]"

definition msg_line_1 :: string where
  \<comment> \<open>line 339: "- **" U+884C " " (line)\<close>
  "msg_line_1 =
     ''- **'' @ [CHR 0xE8, CHR 0xA1, CHR 0x8C] @ '' ''"

definition msg_line_2 :: string where
  \<comment> \<open>line 339: "**: " U+0060\<close>
  "msg_line_2 =
     ''**: '' @ [CHR 0x60]"

definition msg_line_3 :: string where
  \<comment> \<open>line 339: U+0060\<close>
  "msg_line_3 =
     [CHR 0x60]"

definition msg_field_category :: string where
  \<comment> \<open>line 340: "  - **" U+7C7B U+522B "**: " (category)\<close>
  "msg_field_category =
     ''  - **'' @ [CHR 0xE7, CHR 0xB1, CHR 0xBB, CHR 0xE5, CHR 0x88, CHR 0xAB] @ ''**: ''"

definition msg_field_risk :: string where
  \<comment> \<open>line 341: "  - **" U+98CE U+9669 "**: " (risk)\<close>
  "msg_field_risk =
     ''  - **'' @ [CHR 0xE9, CHR 0xA3, CHR 0x8E, CHR 0xE9, CHR 0x99, CHR 0xA9] @ ''**: ''"

definition msg_field_advice :: string where
  \<comment> \<open>line 342: "  - **" U+5EFA U+8BAE "**: " (suggestion)\<close>
  "msg_field_advice =
     ''  - **'' @ [CHR 0xE5, CHR 0xBB, CHR 0xBA, CHR 0xE8, CHR 0xAE, CHR 0xAE] @ ''**: ''"

definition msg_field_example :: string where
  \<comment> \<open>line 345: "  - **" U+793A U+4F8B "**:" (example)\<close>
  "msg_field_example =
     ''  - **'' @ [CHR 0xE7, CHR 0xA4, CHR 0xBA, CHR 0xE4, CHR 0xBE, CHR 0x8B] @ ''**:''"

definition msg_fence_rust :: string where
  \<comment> \<open>line 346: "    " U+0060 U+0060 U+0060 "rust"\<close>
  "msg_fence_rust =
     ''    '' @ [CHR 0x60, CHR 0x60, CHR 0x60] @ ''rust''"

definition msg_indent :: string where
  \<comment> \<open>line 348: "    "\<close>
  "msg_indent =
     ''    ''"

definition msg_fence_end :: string where
  \<comment> \<open>line 349: "    " U+0060 U+0060 U+0060\<close>
  "msg_fence_end =
     ''    '' @ [CHR 0x60, CHR 0x60, CHR 0x60]"

definition msg_rule :: string where
  \<comment> \<open>line 354: LF "---" LF\<close>
  "msg_rule =
     [newline] @ ''---'' @ [newline]"

definition msg_summary :: string where
  \<comment> \<open>line 355: "## " U+1F4CA " " U+6C47 U+603B U+7EDF U+8BA1 LF LF (summary)\<close>
  "msg_summary =
     ''## '' @ [CHR 0xF0, CHR 0x9F, CHR 0x93, CHR 0x8A] @ '' '' @
     [CHR 0xE6, CHR 0xB1, CHR 0x87, CHR 0xE6, CHR 0x80, CHR 0xBB, CHR 0xE7, CHR 0xBB, CHR 0x9F] @
     [CHR 0xE8, CHR 0xAE, CHR 0xA1, newline, newline]"

definition msg_table_head :: string where
  \<comment> \<open>line 356: "| " U+4E25 U+91CD U+5EA6 " | " U+95EE U+9898 U+6570 U+91CF " | " U+4F18 U+5148
     U+7EA7 " |" (severity, number of problems, priority)\<close>
  "msg_table_head =
     ''| '' @
     [CHR 0xE4, CHR 0xB8, CHR 0xA5, CHR 0xE9, CHR 0x87, CHR 0x8D, CHR 0xE5, CHR 0xBA, CHR 0xA6] @
     '' | '' @
     [CHR 0xE9, CHR 0x97, CHR 0xAE, CHR 0xE9, CHR 0xA2, CHR 0x98, CHR 0xE6, CHR 0x95, CHR 0xB0] @
     [CHR 0xE9, CHR 0x87, CHR 0x8F] @ '' | '' @
     [CHR 0xE4, CHR 0xBC, CHR 0x98, CHR 0xE5, CHR 0x85, CHR 0x88, CHR 0xE7, CHR 0xBA, CHR 0xA7] @
     '' |''"

definition msg_table_rule :: string where
  \<comment> \<open>line 357: "|--------|----------|--------|"\<close>
  "msg_table_rule =
     ''|--------|----------|--------|''"

definition msg_high_1 :: string where
  \<comment> \<open>line 363: "| " U+1F534 " " U+9AD8 " | " (high)\<close>
  "msg_high_1 =
     ''| '' @ [CHR 0xF0, CHR 0x9F, CHR 0x94, CHR 0xB4] @ '' '' @
     [CHR 0xE9, CHR 0xAB, CHR 0x98] @ '' | ''"

definition msg_high_2 :: string where
  \<comment> \<open>line 363: " | P0 - " U+7ACB U+5373 U+4FEE U+590D " |" (fix at once)\<close>
  "msg_high_2 =
     '' | P0 - '' @
     [CHR 0xE7, CHR 0xAB, CHR 0x8B, CHR 0xE5, CHR 0x8D, CHR 0xB3, CHR 0xE4, CHR 0xBF, CHR 0xAE] @
     [CHR 0xE5, CHR 0xA4, CHR 0x8D] @ '' |''"

definition msg_medium_1 :: string where
  \<comment> \<open>line 364: "| " U+1F7E1 " " U+4E2D " | " (medium)\<close>
  "msg_medium_1 =
     ''| '' @ [CHR 0xF0, CHR 0x9F, CHR 0x9F, CHR 0xA1] @ '' '' @
     [CHR 0xE4, CHR 0xB8, CHR 0xAD] @ '' | ''"

definition msg_medium_2 :: string where
  \<comment> \<open>line 364: " | P1 - " U+5C3D U+5FEB U+4FEE U+590D " |" (fix soon)\<close>
  "msg_medium_2 =
     '' | P1 - '' @
     [CHR 0xE5, CHR 0xB0, CHR 0xBD, CHR 0xE5, CHR 0xBF, CHR 0xAB, CHR 0xE4, CHR 0xBF, CHR 0xAE] @
     [CHR 0xE5, CHR 0xA4, CHR 0x8D] @ '' |''"

definition msg_low_1 :: string where
  \<comment> \<open>line 365: "| " U+1F7E2 " " U+4F4E " | " (low)\<close>
  "msg_low_1 =
     ''| '' @ [CHR 0xF0, CHR 0x9F, CHR 0x9F, CHR 0xA2] @ '' '' @
     [CHR 0xE4, CHR 0xBD, CHR 0x8E] @ '' | ''"

definition msg_low_2 :: string where
  \<comment> \<open>line 365: " | P2 - " U+6539 U+8FDB U+4EE3 U+7801 U+8D28 U+91CF " |" (improves code quality)\<close>
  "msg_low_2 =
     '' | P2 - '' @
     [CHR 0xE6, CHR 0x94, CHR 0xB9, CHR 0xE8, CHR 0xBF, CHR 0x9B, CHR 0xE4, CHR 0xBB, CHR 0xA3] @
     [CHR 0xE7, CHR 0xA0, CHR 0x81, CHR 0xE8, CHR 0xB4, CHR 0xA8, CHR 0xE9, CHR 0x87, CHR 0x8F] @
     '' |''"

definition msg_no_path :: string where
  \<comment> \<open>line 378: U+274C " " U+9519 U+8BEF ": " U+8DEF U+5F84 U+4E0D U+5B58 U+5728 ": " (error: the
     path does not exist)\<close>
  "msg_no_path =
     [CHR 0xE2, CHR 0x9D, CHR 0x8C] @ '' '' @
     [CHR 0xE9, CHR 0x94, CHR 0x99, CHR 0xE8, CHR 0xAF, CHR 0xAF] @ '': '' @
     [CHR 0xE8, CHR 0xB7, CHR 0xAF, CHR 0xE5, CHR 0xBE, CHR 0x84, CHR 0xE4, CHR 0xB8, CHR 0x8D] @
     [CHR 0xE5, CHR 0xAD, CHR 0x98, CHR 0xE5, CHR 0x9C, CHR 0xA8] @ '': ''"

definition msg_checking :: string where
  \<comment> \<open>line 381: U+1F50D " " U+68C0 U+67E5 U+8DEF U+5F84 ": " (checking path)\<close>
  "msg_checking =
     [CHR 0xF0, CHR 0x9F, CHR 0x94, CHR 0x8D] @ '' '' @
     [CHR 0xE6, CHR 0xA3, CHR 0x80, CHR 0xE6, CHR 0x9F, CHR 0xA5, CHR 0xE8, CHR 0xB7, CHR 0xAF] @
     [CHR 0xE5, CHR 0xBE, CHR 0x84] @ '': ''"

definition msg_searching :: string where
  \<comment> \<open>line 382: U+1F4C1 " " U+6B63 U+5728 U+67E5 U+627E " Rust " U+6587 U+4EF6 "..." LF (looking for
     Rust files)\<close>
  "msg_searching =
     [CHR 0xF0, CHR 0x9F, CHR 0x93, CHR 0x81] @ '' '' @
     [CHR 0xE6, CHR 0xAD, CHR 0xA3, CHR 0xE5, CHR 0x9C, CHR 0xA8, CHR 0xE6, CHR 0x9F, CHR 0xA5] @
     [CHR 0xE6, CHR 0x89, CHR 0xBE] @ '' Rust '' @
     [CHR 0xE6, CHR 0x96, CHR 0x87, CHR 0xE4, CHR 0xBB, CHR 0xB6] @ ''...'' @ [newline]"

definition msg_no_files :: string where
  \<comment> \<open>line 387: U+26A0 U+FE0F "  " U+672A U+627E U+5230 U+4EFB U+4F55 " .rs " U+6587 U+4EF6 U+5728
     ": " (no .rs file found in)\<close>
  "msg_no_files =
     [CHR 0xE2, CHR 0x9A, CHR 0xA0, CHR 0xEF, CHR 0xB8, CHR 0x8F] @ ''  '' @
     [CHR 0xE6, CHR 0x9C, CHR 0xAA, CHR 0xE6, CHR 0x89, CHR 0xBE, CHR 0xE5, CHR 0x88, CHR 0xB0] @
     [CHR 0xE4, CHR 0xBB, CHR 0xBB, CHR 0xE4, CHR 0xBD, CHR 0x95] @ '' .rs '' @
     [CHR 0xE6, CHR 0x96, CHR 0x87, CHR 0xE4, CHR 0xBB, CHR 0xB6, CHR 0xE5, CHR 0x9C, CHR 0xA8] @
     '': ''"

definition msg_files_1 :: string where
  \<comment> \<open>line 390: U+2705 " " U+627E U+5230 " " (found)\<close>
  "msg_files_1 =
     [CHR 0xE2, CHR 0x9C, CHR 0x85] @ '' '' @
     [CHR 0xE6, CHR 0x89, CHR 0xBE, CHR 0xE5, CHR 0x88, CHR 0xB0] @ '' ''"

definition msg_files_2 :: string where
  \<comment> \<open>line 390: " " U+4E2A " Rust " U+6587 U+4EF6 LF (Rust files)\<close>
  "msg_files_2 =
     '' '' @ [CHR 0xE4, CHR 0xB8, CHR 0xAA] @ '' Rust '' @
     [CHR 0xE6, CHR 0x96, CHR 0x87, CHR 0xE4, CHR 0xBB, CHR 0xB6, newline]"

definition msg_analysing :: string where
  \<comment> \<open>line 391: U+1F52C " " U+6B63 U+5728 U+5206 U+6790 U+4EE3 U+7801 "..." LF (analysing the code)\<close>
  "msg_analysing =
     [CHR 0xF0, CHR 0x9F, CHR 0x94, CHR 0xAC] @ '' '' @
     [CHR 0xE6, CHR 0xAD, CHR 0xA3, CHR 0xE5, CHR 0x9C, CHR 0xA8, CHR 0xE5, CHR 0x88, CHR 0x86] @
     [CHR 0xE6, CHR 0x9E, CHR 0x90, CHR 0xE4, CHR 0xBB, CHR 0xA3, CHR 0xE7, CHR 0xA0, CHR 0x81] @
     ''...'' @ [newline]"

definition msg_high_found_1 :: string where
  \<comment> \<open>line 405: LF U+274C " " U+53D1 U+73B0 " " (found)\<close>
  "msg_high_found_1 =
     [newline, CHR 0xE2, CHR 0x9D, CHR 0x8C] @ '' '' @
     [CHR 0xE5, CHR 0x8F, CHR 0x91, CHR 0xE7, CHR 0x8E, CHR 0xB0] @ '' ''"

definition msg_high_found_2 :: string where
  \<comment> \<open>line 405: " " U+4E2A U+9AD8 U+4E25 U+91CD U+5EA6 U+95EE U+9898 U+FF0C U+8BF7 U+7ACB U+5373
     U+4FEE U+590D U+FF01 (problems of high severity, fix them at once)\<close>
  "msg_high_found_2 =
     '' '' @
     [CHR 0xE4, CHR 0xB8, CHR 0xAA, CHR 0xE9, CHR 0xAB, CHR 0x98, CHR 0xE4, CHR 0xB8, CHR 0xA5] @
     [CHR 0xE9, CHR 0x87, CHR 0x8D, CHR 0xE5, CHR 0xBA, CHR 0xA6, CHR 0xE9, CHR 0x97, CHR 0xAE] @
     [CHR 0xE9, CHR 0xA2, CHR 0x98, CHR 0xEF, CHR 0xBC, CHR 0x8C, CHR 0xE8, CHR 0xAF, CHR 0xB7] @
     [CHR 0xE7, CHR 0xAB, CHR 0x8B, CHR 0xE5, CHR 0x8D, CHR 0xB3, CHR 0xE4, CHR 0xBF, CHR 0xAE] @
     [CHR 0xE5, CHR 0xA4, CHR 0x8D, CHR 0xEF, CHR 0xBC, CHR 0x81]"

definition msg_some_found_1 :: string where
  \<comment> \<open>line 408: LF U+26A0 U+FE0F "  " U+53D1 U+73B0 " " (found)\<close>
  "msg_some_found_1 =
     [newline, CHR 0xE2, CHR 0x9A, CHR 0xA0, CHR 0xEF, CHR 0xB8, CHR 0x8F] @ ''  '' @
     [CHR 0xE5, CHR 0x8F, CHR 0x91, CHR 0xE7, CHR 0x8E, CHR 0xB0] @ '' ''"

definition msg_some_found_2 :: string where
  \<comment> \<open>line 408: " " U+4E2A U+95EE U+9898 U+FF0C U+5EFA U+8BAE U+5C3D U+5FEB U+4FEE U+590D U+3002
     (problems, fix them soon)\<close>
  "msg_some_found_2 =
     '' '' @
     [CHR 0xE4, CHR 0xB8, CHR 0xAA, CHR 0xE9, CHR 0x97, CHR 0xAE, CHR 0xE9, CHR 0xA2, CHR 0x98] @
     [CHR 0xEF, CHR 0xBC, CHR 0x8C, CHR 0xE5, CHR 0xBB, CHR 0xBA, CHR 0xE8, CHR 0xAE, CHR 0xAE] @
     [CHR 0xE5, CHR 0xB0, CHR 0xBD, CHR 0xE5, CHR 0xBF, CHR 0xAB, CHR 0xE4, CHR 0xBF, CHR 0xAE] @
     [CHR 0xE5, CHR 0xA4, CHR 0x8D, CHR 0xE3, CHR 0x80, CHR 0x82]"

definition msg_all_good :: string where
  \<comment> \<open>line 411: LF U+2705 " " U+4EE3 U+7801 U+8D28 U+91CF U+68C0 U+67E5 U+901A U+8FC7 U+FF01 (the
     code passed the check)\<close>
  "msg_all_good =
     [newline, CHR 0xE2, CHR 0x9C, CHR 0x85] @ '' '' @
     [CHR 0xE4, CHR 0xBB, CHR 0xA3, CHR 0xE7, CHR 0xA0, CHR 0x81, CHR 0xE8, CHR 0xB4, CHR 0xA8] @
     [CHR 0xE9, CHR 0x87, CHR 0x8F, CHR 0xE6, CHR 0xA3, CHR 0x80, CHR 0xE6, CHR 0x9F, CHR 0xA5] @
     [CHR 0xE9, CHR 0x80, CHR 0x9A, CHR 0xE8, CHR 0xBF, CHR 0x87, CHR 0xEF, CHR 0xBC, CHR 0x81]"


fun severity_value :: "Severity \<Rightarrow> string" where
  "severity_value HIGH = value_HIGH"
| "severity_value MEDIUM = value_MEDIUM"
| "severity_value LOW = value_LOW"

subsection \<open>The rule catalogue\<close>

definition pattern_unwrap :: regex where
  \<comment> \<open>\<open>\bunwrap\(\)(?!\s*//.*XY|test)\<close>, where X and Y are the code points U+6D4B and U+8BD5\<close>
  "pattern_unwrap =
     seq [WordB, Str ''unwrap()'',
          NegLook (Alt (seq [star Space, Str ''//'', star Dot,
                             Atom (Beyond 0x6D4B), Atom (Beyond 0x8BD5)])
                       (Str ''test''))]"

definition pattern_unwrap_or_default :: regex where
  \<comment> \<open>\<open>\.unwrap_or_default\(\)\<close>\<close>
  "pattern_unwrap_or_default = Str ''.unwrap_or_default()''"

definition pattern_unwrap_or :: regex where
  \<comment> \<open>\<open>\.unwrap_or\([^)]+\)\<close>\<close>
  "pattern_unwrap_or =
     seq [Str ''.unwrap_or('', plus (NoneOf [(CHR '')'', CHR '')'')]), Str '')'']"

definition pattern_let_underscore :: regex where
  \<comment> \<open>\<open>let\s+_\s*=\s*[a-z_]+\(.*\)[;$]\<close>\<close>
  "pattern_let_underscore =
     seq [Str ''let'', plus Space, Str ''_'', star Space, Str ''='', star Space,
          plus (OneOf [(CHR ''a'', CHR ''z''), (CHR ''_'', CHR ''_'')]),
          Str ''('', star Dot, Str '')'',
          Atom (OneOf [(CHR '';'', CHR '';''), (CHR ''$'', CHR ''$'')])]"

definition pattern_assert :: regex where
  \<comment> \<open>\<open>assert!\([^,)]+(,[^)]+)?\)\<close>\<close>
  "pattern_assert =
     seq [Str ''assert!('',
          plus (NoneOf [(CHR '','', CHR '',''), (CHR '')'', CHR '')'')]),
          Opt (Group 1 (seq [Str '','', plus (NoneOf [(CHR '')'', CHR '')'')])])),
          Str '')'']"

definition pattern_expect_short :: regex where
  \<comment> \<open>\<open>\.expect\("[^"]{0,20}"\)\<close>\<close>
  "pattern_expect_short =
     seq [Str (''.expect('' @ [CHR 0x22]),
          Rep (NoneOf [(CHR 0x22, CHR 0x22)]) 0 (Some 20),
          Str [CHR 0x22, CHR '')'']]"

definition pattern_panic_short :: regex where
  \<comment> \<open>\<open>panic!\("[^"]{0,30}"\)\<close>\<close>
  "pattern_panic_short =
     seq [Str (''panic!('' @ [CHR 0x22]),
          Rep (NoneOf [(CHR 0x22, CHR 0x22)]) 0 (Some 30),
          Str [CHR 0x22, CHR '')'']]"

definition pattern_ok :: regex where
  \<comment> \<open>\<open>\.ok\(\)\s*;\<close>\<close>
  "pattern_ok = seq [Str ''.ok()'', star Space, Str '';'']"

definition pattern_parse_unwrap :: regex where
  \<comment> \<open>\<open>\.parse\(\)\.unwrap\(\)\<close>\<close>
  "pattern_parse_unwrap = Str ''.parse().unwrap()''"

definition pattern_direct_index :: regex where
  \<comment> \<open>\<open>[a-z_]+\[[0-9]+\](?!\s*=)\<close>\<close>
  "pattern_direct_index =
     seq [plus (OneOf [(CHR ''a'', CHR ''z''), (CHR ''_'', CHR ''_'')]),
          Str ''['', plus (OneOf [(CHR ''0'', CHR ''9'')]), Str '']'',
          NegLook (seq [star Space, Str ''=''])]"

definition pattern_todo :: regex where
  \<comment> \<open>\<open>(todo|unimplemented)!\(\<close>\<close>
  "pattern_todo = seq [Group 1 (Alt (Str ''todo'') (Str ''unimplemented'')), Str ''!('']"

record rule =
  rule_name :: string
  cfg_pattern :: regex
  cfg_severity :: Severity
  cfg_category :: string
  cfg_risk :: string
  cfg_suggestion :: string
  cfg_example :: string

definition CHECK_PATTERNS :: "rule list" where
  \<comment> \<open>the dictionary \<open>CHECK_PATTERNS\<close>, in the order of its declaration, which is the order
     in which \<open>CHECK_PATTERNS.items()\<close> yields it\<close>
  "CHECK_PATTERNS =
     [\<lparr> rule_name = ''unwrap()'', cfg_pattern = pattern_unwrap, cfg_severity = HIGH,
        cfg_category = category_unwrap, cfg_risk = risk_unwrap,
        cfg_suggestion = suggestion_unwrap, cfg_example = example_unwrap \<rparr>,
      \<lparr> rule_name = ''unwrap_or_default'', cfg_pattern = pattern_unwrap_or_default, cfg_severity = HIGH,
        cfg_category = category_unwrap_or_default, cfg_risk = risk_unwrap_or_default,
        cfg_suggestion = suggestion_unwrap_or_default, cfg_example = example_unwrap_or_default \<rparr>,
      \<lparr> rule_name = ''unwrap_or'', cfg_pattern = pattern_unwrap_or, cfg_severity = HIGH,
        cfg_category = category_unwrap_or, cfg_risk = risk_unwrap_or,
        cfg_suggestion = suggestion_unwrap_or, cfg_example = example_unwrap_or \<rparr>,
      \<lparr> rule_name = ''let _ ='', cfg_pattern = pattern_let_underscore, cfg_severity = HIGH,
        cfg_category = category_let_underscore, cfg_risk = risk_let_underscore,
        cfg_suggestion = suggestion_let_underscore, cfg_example = example_let_underscore \<rparr>,
      \<lparr> rule_name = ''assert!'', cfg_pattern = pattern_assert, cfg_severity = HIGH,
        cfg_category = category_assert, cfg_risk = risk_assert,
        cfg_suggestion = suggestion_assert, cfg_example = example_assert \<rparr>,
      \<lparr> rule_name = ''expect_short'', cfg_pattern = pattern_expect_short, cfg_severity = MEDIUM,
        cfg_category = category_expect_short, cfg_risk = risk_expect_short,
        cfg_suggestion = suggestion_expect_short, cfg_example = example_expect_short \<rparr>,
      \<lparr> rule_name = ''panic_short'', cfg_pattern = pattern_panic_short, cfg_severity = MEDIUM,
        cfg_category = category_panic_short, cfg_risk = risk_panic_short,
        cfg_suggestion = suggestion_panic_short, cfg_example = example_panic_short \<rparr>,
      \<lparr> rule_name = ''ok()'', cfg_pattern = pattern_ok, cfg_severity = MEDIUM,
        cfg_category = category_ok, cfg_risk = risk_ok,
        cfg_suggestion = suggestion_ok, cfg_example = example_ok \<rparr>,
      \<lparr> rule_name = ''parse().unwrap'', cfg_pattern = pattern_parse_unwrap, cfg_severity = MEDIUM,
        cfg_category = category_parse_unwrap, cfg_risk = risk_parse_unwrap,
        cfg_suggestion = suggestion_parse_unwrap, cfg_example = example_parse_unwrap \<rparr>,
      \<lparr> rule_name = ''direct_index'', cfg_pattern = pattern_direct_index, cfg_severity = MEDIUM,
        cfg_category = category_direct_index, cfg_risk = risk_direct_index,
        cfg_suggestion = suggestion_direct_index, cfg_example = example_direct_index \<rparr>,
      \<lparr> rule_name = ''todo!'', cfg_pattern = pattern_todo, cfg_severity = LOW,
        cfg_category = category_todo, cfg_risk = risk_todo,
        cfg_suggestion = suggestion_todo, cfg_example = example_todo \<rparr>]"

subsection \<open>Scanning a file\<close>

text \<open>
  A file that \<open>rglob\<close> found: the components of its path, the text \<open>str(file_path)\<close>, and
  what reading it gives, either the text of an exception or the text of the file (decoded,
  its line ends translated to newlines, as a file opened in text mode is read).
\<close>

record rust_file =
  file_parts :: "string list"
  file_text :: string
  file_read :: "string + string"

definition should_skip_file :: "rust_file \<Rightarrow> bool" where
  "should_skip_file f = (''target'' \<in> set (file_parts f))"

fun readlines :: "string \<Rightarrow> string list" where
  \<comment> \<open>\<open>f.readlines()\<close>: every line keeps its newline\<close>
  "readlines [] = []"
| "readlines (c # cs) =
     (if c = newline then [newline] # readlines cs
      else (case readlines cs of
              [] \<Rightarrow> [[c]]
            | l # ls \<Rightarrow> (c # l) # ls))"

definition make_issue :: "string \<Rightarrow> nat \<Rightarrow> string \<Rightarrow> rule \<Rightarrow> Issue" where
  "make_issue path line_num line_stripped config =
     \<lparr> file_path = path, line_number = line_num, line_content = line_stripped,
       severity = cfg_severity config, category = cfg_category config,
       risk = cfg_risk config, suggestion = cfg_suggestion config,
       example = cfg_example config \<rparr>"

definition scan_line :: "rule list \<Rightarrow> string \<Rightarrow> nat \<Rightarrow> string \<Rightarrow> Issue list" where
  \<comment> \<open>the body of the loop over the lines of a file: what one line appends\<close>
  "scan_line catalog path line_num line =
     (let line_stripped = strip line
      in if starts_with ''//'' line_stripped then []
         else if contains ''#[test]'' line \<or> contains ''#test'' line then []
         else concat (map (\<lambda>config.
                if re_search (cfg_pattern config) line
                then [make_issue path line_num line_stripped config]
                else []) catalog))"

definition scan_lines :: "string \<Rightarrow> string list \<Rightarrow> Issue list" where
  \<comment> \<open>the loop over \<open>enumerate(lines, 1)\<close>\<close>
  "scan_lines path lines =
     concat (map (\<lambda>(line_num, line). scan_line CHECK_PATTERNS path line_num line)
                 (List.enumerate 1 lines))"

definition check_rust_file :: "rust_file \<Rightarrow> Issue list \<times> string list" where
  \<comment> \<open>the issues returned, and the warnings written to the standard error stream\<close>
  "check_rust_file f =
     (case file_read f of
        Inl e \<Rightarrow> ([], [msg_cannot_read @ file_text f @ '': '' @ e])
      | Inr content \<Rightarrow> (scan_lines (file_text f) (readlines content), []))"

definition find_rust_files :: "rust_file list \<Rightarrow> rust_file list" where
  \<comment> \<open>the argument is what \<open>root_path.rglob("*.rs")\<close> yields\<close>
  "find_rust_files found = filter (\<lambda>f. \<not> should_skip_file f) found"

definition scanned_issues :: "rust_file list \<Rightarrow> Issue list" where
  \<comment> \<open>the list \<open>all_issues\<close> that \<open>main\<close> collects from the files it scans\<close>
  "scanned_issues found = concat (map (\<lambda>f. fst (check_rust_file f)) (find_rust_files found))"

subsection \<open>The report\<close>

definition issue_lines :: "Issue \<Rightarrow> string list" where
  "issue_lines issue =
     [msg_line_1 @ show_nat (line_number issue) @ msg_line_2 @ line_content issue @ msg_line_3,
      msg_field_category @ category issue,
      msg_field_risk @ risk issue,
      msg_field_advice @ suggestion issue]
     @ (if example issue \<noteq> [] then
          [msg_field_example, msg_fence_rust]
          @ map (\<lambda>example_line. msg_indent @ example_line) (split_on newline (example issue))
          @ [msg_fence_end]
        else [])
     @ [[]]"

fun add_to_file :: "Issue \<Rightarrow> (string \<times> Issue list) list \<Rightarrow> (string \<times> Issue list) list" where
  \<comment> \<open>\<open>issues_by_file[file_path].append(issue)\<close>, a new key going to the end of the dictionary\<close>
  "add_to_file issue [] = [(file_path issue, [issue])]"
| "add_to_file issue ((k, v) # d) =
     (if k = file_path issue then (k, v @ [issue]) # d else (k, v) # add_to_file issue d)"

definition group_by_file :: "Issue list \<Rightarrow> (string \<times> Issue list) list" where
  "group_by_file issues = foldl (\<lambda>d issue. add_to_file issue d) [] issues"

definition file_section :: "string \<times> Issue list \<Rightarrow> string list" where
  "file_section entry =
     (msg_file_1 @ fst entry @ msg_file_2) # concat (map issue_lines (snd entry))"

definition severity_section :: "Issue list \<Rightarrow> Severity \<Rightarrow> string list" where
  \<comment> \<open>the keys of the dictionary are distinct, so \<open>sorted\<close> orders its items by the key\<close>
  "severity_section issues sev =
     (let severity_issues = filter (\<lambda>issue. severity issue = sev) issues
      in if severity_issues = [] then []
         else (msg_heading2 @ severity_value sev @ [newline])
              # concat (map file_section (sort_key fst (group_by_file severity_issues))))"

definition format_report :: "Issue list \<Rightarrow> string" where
  "format_report issues =
     (if issues = [] then msg_no_issues
      else
        (let high_count = length (filter (\<lambda>issue. severity issue = HIGH) issues);
             medium_count = length (filter (\<lambda>issue. severity issue = MEDIUM) issues);
             low_count = length (filter (\<lambda>issue. severity issue = LOW) issues)
         in join [newline]
              ([msg_report_title, msg_found_1 @ show_nat (length issues) @ msg_found_2]
               @ concat (map (severity_section issues) [HIGH, MEDIUM, LOW])
               @ [msg_rule, msg_summary, msg_table_head, msg_table_rule,
                  msg_high_1 @ show_nat high_count @ msg_high_2,
                  msg_medium_1 @ show_nat medium_count @ msg_medium_2,
                  msg_low_1 @ show_nat low_count @ msg_low_2])))"

subsection \<open>The command line\<close>

record audit_run =
  printed :: "string list"
  warned :: "string list"
  exit_status :: int

definition audit_main :: "string \<Rightarrow> bool \<Rightarrow> rust_file list \<Rightarrow> audit_run" where
  \<comment> \<open>\<open>main\<close> of the auditor: \<open>check_path\<close> is the text of the path to check,
     \<open>path_exists\<close> says whether it exists, \<open>found\<close> is what \<open>rglob\<close> yields below it\<close>
  "audit_main check_path path_exists found =
     (if \<not> path_exists then
        \<lparr> printed = [], warned = [msg_no_path @ check_path], exit_status = 1 \<rparr>
      else
        (let head = [msg_checking @ check_path, msg_searching];
             rust_files = find_rust_files found
         in if rust_files = [] then
              \<lparr> printed = head @ [msg_no_files @ check_path], warned = [], exit_status = 0 \<rparr>
            else
              (let scans = map check_rust_file rust_files;
                   all_issues = concat (map fst scans);
                   report = format_report all_issues;
                   high_issues = filter (\<lambda>i. severity i = HIGH) all_issues;
                   body = head @ [msg_files_1 @ show_nat (length rust_files) @ msg_files_2,
                                  msg_analysing, report]
               in if high_issues \<noteq> [] then
                    \<lparr> printed = body @ [msg_high_found_1 @ show_nat (length high_issues)
                                          @ msg_high_found_2],
                      warned = concat (map snd scans), exit_status = 1 \<rparr>
                  else if all_issues \<noteq> [] then
                    \<lparr> printed = body @ [msg_some_found_1 @ show_nat (length all_issues)
                                          @ msg_some_found_2],
                      warned = concat (map snd scans), exit_status = 0 \<rparr>
                  else
                    \<lparr> printed = body @ [msg_all_good],
                      warned = concat (map snd scans), exit_status = 0 \<rparr>)))"

section \<open>Two notions of the specification\<close>

subsection \<open>Texts that are equal but for the case of their letters\<close>

text \<open>
  The specification calls the search of the failure classifier case-insensitive. Written
  from those words, without the lower-casing that the code uses: two characters are the same
  but for case when they are equal or one is a capital letter and the other its small form,
  which in the range of \<open>char\<close> lies 32 code points above the capital.
\<close>

definition is_capital :: "char \<Rightarrow> bool" where
  "is_capital c = (let n = code c in
     (65 \<le> n \<and> n \<le> 90) \<or> (192 \<le> n \<and> n \<le> 214) \<or> (216 \<le> n \<and> n \<le> 222))"

definition same_but_for_case :: "char \<Rightarrow> char \<Rightarrow> bool" where
  "same_but_for_case c d =
     (c = d \<or> (is_capital c \<and> code d = code c + 32) \<or> (is_capital d \<and> code c = code d + 32))"

subsection \<open>Runs of the report builder\<close>

text \<open>
  In \<open>format_report\<close> one container is iterated in an order that the program does not
  write down itself: the dictionary \<open>issues_by_file\<close>, whose items are sorted before they
  are used. \<open>format_report_by items_of\<close> is \<open>format_report\<close> in a run in which the items of
  a dictionary \<open>d\<close> come out as \<open>items_of d\<close>; the order of insertion, which Python keeps,
  is the run \<open>format_report\<close> itself. An order of iteration yields every item of the
  dictionary once.
\<close>

definition iteration_order ::
  "((string \<times> Issue list) list \<Rightarrow> (string \<times> Issue list) list) \<Rightarrow> bool" where
  "iteration_order items_of = (\<forall>d. mset (items_of d) = mset d)"

definition severity_section_by ::
  "((string \<times> Issue list) list \<Rightarrow> (string \<times> Issue list) list)
     \<Rightarrow> Issue list \<Rightarrow> Severity \<Rightarrow> string list" where
  "severity_section_by items_of issues sev =
     (let severity_issues = filter (\<lambda>issue. severity issue = sev) issues
      in if severity_issues = [] then []
         else (msg_heading2 @ severity_value sev @ [newline])
              # concat (map file_section
                          (sort_key fst (items_of (group_by_file severity_issues)))))"

definition format_report_by ::
  "((string \<times> Issue list) list \<Rightarrow> (string \<times> Issue list) list) \<Rightarrow> Issue list \<Rightarrow> string" where
  "format_report_by items_of issues =
     (if issues = [] then msg_no_issues
      else
        (let high_count = length (filter (\<lambda>issue. severity issue = HIGH) issues);
             medium_count = length (filter (\<lambda>issue. severity issue = MEDIUM) issues);
             low_count = length (filter (\<lambda>issue. severity issue = LOW) issues)
         in join [newline]
              ([msg_report_title, msg_found_1 @ show_nat (length issues) @ msg_found_2]
               @ concat (map (severity_section_by items_of issues) [HIGH, MEDIUM, LOW])
               @ [msg_rule, msg_summary, msg_table_head, msg_table_rule,
                  msg_high_1 @ show_nat high_count @ msg_high_2,
                  msg_medium_1 @ show_nat medium_count @ msg_medium_2,
                  msg_low_1 @ show_nat low_count @ msg_low_2])))"

section \<open>Sample inputs\<close>

definition always_timeout :: system where
  \<comment> \<open>a harness that never finishes in time\<close>
  "always_timeout command cwd timeout = TimeoutExpired"

definition cargo_here :: "path \<Rightarrow> bool" where
  \<comment> \<open>every directory holds a \<open>Cargo.toml\<close>\<close>
  "cargo_here p = True"

definition quiet_failure :: system where
  \<comment> \<open>a harness that exits with code 0 and prints one result line\<close>
  "quiet_failure command cwd timeout = Completed 0 ''test a ...FAILED'' []"

definition no_arguments :: arguments where
  "no_arguments =
     \<lparr> arg_test_name = None, arg_package = None, arg_features = None, arg_workspace = [] \<rparr>"

definition one_test :: arguments where
  "one_test =
     \<lparr> arg_test_name = Some ''t'', arg_package = None, arg_features = None, arg_workspace = [] \<rparr>"

definition never_starts :: system where
  \<comment> \<open>a harness that cannot be started\<close>
  "never_starts command cwd timeout = Raised ''[Errno 2] No such file or directory''"

definition two_signatures :: string where
  \<comment> \<open>the text of a Rust overflow panic, which holds two signatures\<close>
  "two_signatures = ''thread main panicked at src/lib.rs:3:5: attempt to add with overflow''"

definition parse_line_sample :: string where
  \<comment> \<open>a source line that two rules match\<close>
  "parse_line_sample = ''let port = text.parse().unwrap();'' @ [newline]"

definition comment_sample :: string where
  "comment_sample = ''    // let user_id = get_user_id().unwrap();'' @ [newline]"

definition index_sample :: string where
  \<comment> \<open>a source line that one rule of medium severity matches\<close>
  "index_sample = ''let item = items[0];'' @ [newline]"

definition sample_file :: rust_file where
  "sample_file =
     \<lparr> file_parts = [''src'', ''a.rs''], file_text = ''src/a.rs'',
       file_read = Inr (comment_sample @ parse_line_sample) \<rparr>"

definition medium_file :: rust_file where
  "medium_file =
     \<lparr> file_parts = [''src'', ''b.rs''], file_text = ''src/b.rs'',
       file_read = Inr index_sample \<rparr>"

definition built_file :: rust_file where
  \<comment> \<open>a file below the directory \<open>target\<close>, which is skipped\<close>
  "built_file =
     \<lparr> file_parts = [''target'', ''debug'', ''a.rs''], file_text = ''target/debug/a.rs'',
       file_read = Inr parse_line_sample \<rparr>"

definition shouted_panic :: string where
  \<comment> \<open>a panic message in capital letters\<close>
  "shouted_panic = ''Thread MAIN Panicked AT src/lib.rs:3:5''"

definition ignored_a :: "TestResult list" where
  "ignored_a =
     [\<lparr> test_name = ''a'', status = IGNORED, error_message = [], error_type = [],
         suggestion = [], fixable = False \<rparr>]"

definition ignored_b :: "TestResult list" where
  "ignored_b =
     [\<lparr> test_name = ''b'', status = IGNORED, error_message = [], error_type = [],
         suggestion = [], fixable = False \<rparr>]"

section \<open>Facts about texts\<close>

lemma starts_with_iff: "starts_with p s \<longleftrightarrow> (\<exists>v. s = p @ v)"
  by (induction p s rule: starts_with.induct) auto

lemma contains_iff: "contains p s \<longleftrightarrow> (\<exists>u v. s = u @ p @ v)"
proof (induction s)
  case Nil
  then show ?case by auto
next
  case (Cons c cs)
  show ?case
  proof
    assume "contains p (c # cs)"
    then consider "starts_with p (c # cs)" | "contains p cs" by auto
    then show "\<exists>u v. c # cs = u @ p @ v"
    proof cases
      case 1
      then obtain v where "c # cs = p @ v" by (auto simp: starts_with_iff)
      then have "c # cs = [] @ p @ v" by simp
      then show ?thesis by blast
    next
      case 2
      then obtain u v where "cs = u @ p @ v" using Cons.IH by blast
      then have "c # cs = (c # u) @ p @ v" by simp
      then show ?thesis by blast
    qed
  next
    assume "\<exists>u v. c # cs = u @ p @ v"
    then obtain u v where uv: "c # cs = u @ p @ v" by blast
    show "contains p (c # cs)"
    proof (cases u)
      case Nil
      with uv have "starts_with p (c # cs)" by (auto simp: starts_with_iff)
      then show ?thesis by simp
    next
      case (Cons d u')
      with uv have "cs = u' @ p @ v" by simp
      then have "contains p cs" using Cons.IH by blast
      then show ?thesis by simp
    qed
  qed
qed

lemma contains_lower: "contains p s \<Longrightarrow> contains (lower p) (lower s)"
proof -
  assume "contains p s"
  then obtain u v where "s = u @ p @ v" by (auto simp: contains_iff)
  then have "lower s = lower u @ lower p @ lower v" by (simp add: lower_def)
  then show ?thesis unfolding contains_iff by blast
qed

section \<open>The test wrapper\<close>

subsection \<open>What \<open>main\<close> does in each mode\<close>

lemma status_run_single_test:
  "status (snd (run_single_test sys name package features ws)) =
     (if fst (run_command sys (single_test_command name package features) ws default_timeout) = 0
      then PASSED else FAILED)"
  by (simp add: run_single_test_def Let_def split: prod.splits)

lemma main_single:
  assumes "find_workspace has_cargo (arg_workspace args) = Some ws"
      and "given (arg_test_name args) = Some name"
  shows "main has_cargo sys args =
     ([msg_workspace @ path_text ws @ [newline]]
      @ fst (run_single_test sys name (arg_package args) (arg_features args) ws)
      @ [format_test_report [snd (run_single_test sys name (arg_package args) (arg_features args) ws)]],
      if status (snd (run_single_test sys name (arg_package args) (arg_features args) ws)) = FAILED
      then 1 else 0)"
  using assms by (simp add: main_def Let_def split: prod.splits)

lemma main_all:
  assumes "find_workspace has_cargo (arg_workspace args) = Some ws"
      and "given (arg_test_name args) = None"
  shows "main has_cargo sys args =
     ([msg_workspace @ path_text ws @ [newline], msg_running_all,
       format_test_report (parse_test_output (fst (snd
          (run_command sys (all_tests_command (arg_package args) (arg_features args)) ws
             default_timeout))))],
      if fst (run_command sys (all_tests_command (arg_package args) (arg_features args)) ws
             default_timeout) \<noteq> 0
      then 1 else 0)"
  using assms by (simp add: main_def Let_def split: prod.splits)

lemma find_workspace_here: "find_workspace cargo_here [] = Some []"
  by (simp add: find_workspace_def cargo_here_def)

subsection \<open>Result lines\<close>

text \<open>
  C1 says that a line \<open>test <name> ... <status>\<close> of the harness gives one result, and that
  \<open>test suite::case1 ... ok\<close> gives the result named \<open>suite::case1\<close> with status passed. The
  docstring of \<open>parse_test_output\<close> shows the same format. The pattern of the code wants the
  status word directly after the three dots, so the line of the claim, with its space before
  \<open>ok\<close>, matches nothing and gives no result.
\<close>

theorem parse_test_output_documented_line:
  "parse_test_output ''test suite::case1 ... ok'' = []"
  by code_simp

text \<open>Without that space the same line is read as the claim says.\<close>

lemma parse_test_output_without_space:
  "map (\<lambda>r. (test_name r, status r)) (parse_test_output ''test suite::case1 ...ok'')
     = [(''suite::case1'', PASSED)]"
  by code_simp

text \<open>
  The status word is a run of word characters, so it never is \<open>should panic\<close>, which has a
  space in it: the third branch of the status mapping is reached by \<open>ignored\<close> alone.
\<close>

lemma parse_empty_output: "parse_test_output [] = []"
  by (simp add: parse_test_output_def parse_line_def strip_def re_match_def test_pattern_def)

subsection \<open>A harness that runs out of time\<close>

text \<open>
  C2 as stated says that a harness invocation that exceeds the timeout gives a result whose
  status is \<open>TIMEOUT\<close>. On the code the status of that result is \<open>FAILED\<close>: no path of the
  script builds a result with the status \<open>TIMEOUT\<close>.
\<close>

theorem timeout_status_is_failed:
  "status (snd (run_single_test always_timeout ''t'' None None [])) = FAILED"
  by (simp add: status_run_single_test run_command_def always_timeout_def)

text \<open>
  C2, amended: when the harness exceeds the timeout, no exception leaves the wrapper, the
  run goes on to the report, which is the last text printed, and the exit status is 1. With
  a test name the report is about the one result, whose status is \<open>FAILED\<close>; without a test
  name the report is about no result at all.
\<close>

theorem timeout_reported_as_failed:
  assumes ws: "find_workspace has_cargo (arg_workspace args) = Some ws"
      and timeout: "\<forall>command. sys command ws default_timeout = TimeoutExpired"
  shows "snd (main has_cargo sys args) = 1
     \<and> (case given (arg_test_name args) of
          Some name \<Rightarrow>
            status (snd (run_single_test sys name (arg_package args) (arg_features args) ws))
              = FAILED
            \<and> last (fst (main has_cargo sys args)) =
                format_test_report
                  [snd (run_single_test sys name (arg_package args) (arg_features args) ws)]
        | None \<Rightarrow> last (fst (main has_cargo sys args)) = format_test_report [])"
proof -
  have run: "\<And>command. run_command sys command ws default_timeout =
      (- 1, [], msg_timed_out_after @ show_int default_timeout @ msg_seconds)"
    using timeout by (simp add: run_command_def)
  show ?thesis
  proof (cases "given (arg_test_name args)")
    case None
    then show ?thesis
      by (simp add: main_all [OF ws None] run parse_empty_output)
  next
    case (Some name)
    have "status (snd (run_single_test sys name (arg_package args) (arg_features args) ws))
            = FAILED"
      by (simp add: status_run_single_test run)
    then show ?thesis
      using Some by (simp add: main_single [OF ws Some])
  qed
qed

theorem timeout_reported_as_failed_witness:
  "snd (main cargo_here always_timeout one_test) = 1
   \<and> status (snd (run_single_test always_timeout ''t'' None None [])) = FAILED
   \<and> last (fst (main cargo_here always_timeout one_test)) =
       format_test_report [snd (run_single_test always_timeout ''t'' None None [])]
   \<and> snd (main cargo_here always_timeout no_arguments) = 1
   \<and> last (fst (main cargo_here always_timeout no_arguments)) = format_test_report []"
proof -
  have ws1: "find_workspace cargo_here (arg_workspace one_test) = Some []"
    by (simp add: find_workspace_here one_test_def)
  have ws2: "find_workspace cargo_here (arg_workspace no_arguments) = Some []"
    by (simp add: find_workspace_here no_arguments_def)
  have timeout: "\<forall>command. always_timeout command [] default_timeout = TimeoutExpired"
    by (simp add: always_timeout_def)
  have g1: "given (arg_test_name one_test) = Some ''t''"
    by (simp add: given_def one_test_def)
  have g2: "given (arg_test_name no_arguments) = None"
    by (simp add: given_def no_arguments_def)
  show ?thesis
    using timeout_reported_as_failed [of cargo_here one_test "[]" always_timeout, OF ws1 timeout]
      timeout_reported_as_failed [of cargo_here no_arguments "[]" always_timeout, OF ws2 timeout]
      g1 g2
    by (simp add: one_test_def no_arguments_def)
qed

subsection \<open>The exit status\<close>

text \<open>
  C3 as stated says that the wrapper exits with a status other than 0 also when the harness
  exits with 0 and some result that was read from its output is \<open>FAILED\<close>. On the code a
  harness that exits with 0 and prints a failed result line leaves the wrapper's status 0.
\<close>

theorem exit_zero_despite_failed_result:
  "run_command quiet_failure (all_tests_command None None) [] default_timeout
     = (0, ''test a ...FAILED'', [])
   \<and> map status (parse_test_output ''test a ...FAILED'') = [FAILED]
   \<and> snd (main cargo_here quiet_failure no_arguments) = 0"
proof -
  have ws: "find_workspace cargo_here (arg_workspace no_arguments) = Some []"
    by (simp add: find_workspace_here no_arguments_def)
  have g: "given (arg_test_name no_arguments) = None"
    by (simp add: given_def no_arguments_def)
  have r: "\<And>c. run_command quiet_failure c [] default_timeout = (0, ''test a ...FAILED'', [])"
    by (simp add: run_command_def quiet_failure_def)
  have p: "map status (parse_test_output ''test a ...FAILED'') = [FAILED]"
    by code_simp
  show ?thesis
    using p by (simp add: main_all [OF ws g] r)
qed

text \<open>
  C3, amended: once the workspace is found, the exit status of the wrapper is other than 0
  exactly when the exit code that \<open>run_command\<close> returns for the harness invocation is other
  than 0, with a test name and without one; the results read from the output of the harness
  do not enter it.
\<close>

theorem exit_status_follows_exit_code:
  assumes ws: "find_workspace has_cargo (arg_workspace args) = Some ws"
  shows "(given (arg_test_name args) = Some name \<longrightarrow>
            (snd (main has_cargo sys args) \<noteq> 0 \<longleftrightarrow>
             fst (run_command sys
                    (single_test_command name (arg_package args) (arg_features args))
                    ws default_timeout) \<noteq> 0))
       \<and> (given (arg_test_name args) = None \<longrightarrow>
            (snd (main has_cargo sys args) \<noteq> 0 \<longleftrightarrow>
             fst (run_command sys (all_tests_command (arg_package args) (arg_features args))
                    ws default_timeout) \<noteq> 0))"
proof (intro conjI impI)
  assume g: "given (arg_test_name args) = Some name"
  show "snd (main has_cargo sys args) \<noteq> 0 \<longleftrightarrow>
        fst (run_command sys (single_test_command name (arg_package args) (arg_features args))
               ws default_timeout) \<noteq> 0"
    by (simp add: main_single [OF ws g] status_run_single_test)
next
  assume g: "given (arg_test_name args) = None"
  show "snd (main has_cargo sys args) \<noteq> 0 \<longleftrightarrow>
        fst (run_command sys (all_tests_command (arg_package args) (arg_features args))
               ws default_timeout) \<noteq> 0"
    by (simp add: main_all [OF ws g])
qed

theorem exit_status_follows_exit_code_witness:
  "(snd (main cargo_here always_timeout one_test) \<noteq> 0 \<longleftrightarrow>
      fst (run_command always_timeout (single_test_command ''t'' None None) [] default_timeout)
        \<noteq> 0)
   \<and> (snd (main cargo_here quiet_failure no_arguments) \<noteq> 0 \<longleftrightarrow>
      fst (run_command quiet_failure (all_tests_command None None) [] default_timeout) \<noteq> 0)"
proof -
  have ws1: "find_workspace cargo_here (arg_workspace one_test) = Some []"
    by (simp add: find_workspace_here one_test_def)
  have ws2: "find_workspace cargo_here (arg_workspace no_arguments) = Some []"
    by (simp add: find_workspace_here no_arguments_def)
  have g1: "given (arg_test_name one_test) = Some ''t''"
    by (simp add: given_def one_test_def)
  have g2: "given (arg_test_name no_arguments) = None"
    by (simp add: given_def no_arguments_def)
  show ?thesis
    using exit_status_follows_exit_code [OF ws1, of "''t''" always_timeout]
      exit_status_follows_exit_code [OF ws2, of "''t''" quiet_failure] g1 g2
    by (simp add: one_test_def no_arguments_def)
qed

subsection \<open>The command runner\<close>

lemma show_int_300: "show_int 300 = ''300''"
  by code_simp

text \<open>
  C10: \<open>run_command\<close> returns a triple of exit code and two outputs whatever the process
  does and lets no exception pass: a process that runs out of time gives \<open>-1\<close>, no output
  and the timeout message, any other exception gives \<open>-1\<close>, no output and the text of the
  exception, and a process that completes gives its own exit code and outputs.
\<close>

theorem run_command_total:
  "(\<exists>exit_code out err. run_command sys command cwd timeout = (exit_code, out, err))
   \<and> (sys command cwd timeout = TimeoutExpired \<longrightarrow>
        run_command sys command cwd timeout =
          (- 1, [], ''Command timed out after '' @ show_int timeout @ '' seconds''))
   \<and> (\<forall>e. sys command cwd timeout = Raised e \<longrightarrow>
        run_command sys command cwd timeout = (- 1, [], e))
   \<and> (\<forall>returncode out err. sys command cwd timeout = Completed returncode out err \<longrightarrow>
        run_command sys command cwd timeout = (returncode, out, err))"
  by (cases "sys command cwd timeout")
     (simp_all add: run_command_def msg_timed_out_after_def msg_seconds_def)

theorem run_command_total_witness:
  "run_command always_timeout [''cargo'', ''test''] [] 300 =
     (- 1, [], ''Command timed out after 300 seconds'')
   \<and> run_command never_starts [''cargo'', ''test''] [] 300 =
     (- 1, [], ''[Errno 2] No such file or directory'')
   \<and> run_command quiet_failure [''cargo'', ''test''] [] 300 = (0, ''test a ...FAILED'', [])"
proof -
  have a: "always_timeout [''cargo'', ''test''] [] 300 = TimeoutExpired"
    by (simp add: always_timeout_def)
  have b: "never_starts [''cargo'', ''test''] [] 300
             = Raised ''[Errno 2] No such file or directory''"
    by (simp add: never_starts_def)
  have c: "quiet_failure [''cargo'', ''test''] [] 300 = Completed 0 ''test a ...FAILED'' []"
    by (simp add: quiet_failure_def)
  show ?thesis
    using run_command_total [of always_timeout "[''cargo'', ''test'']" "[]" 300]
      run_command_total [of never_starts "[''cargo'', ''test'']" "[]" 300]
      run_command_total [of quiet_failure "[''cargo'', ''test'']" "[]" 300]
      a b c
    by (simp add: show_int_300)
qed

subsection \<open>The failure classifier\<close>

lemma first_match_none:
  "(\<forall>entry \<in> set sigs. \<not> occurs_in (fst entry) stderr) \<Longrightarrow> first_match sigs stderr = None"
  by (induction sigs) auto

lemma first_match_earliest:
  "(\<forall>entry \<in> set before. \<not> occurs_in (fst entry) stderr) \<Longrightarrow> occurs_in pattern stderr \<Longrightarrow>
     first_match (before @ (pattern, info) # after) stderr = Some info"
  by (induction before) auto

lemma code_eq_iff: "code c = code d \<longleftrightarrow> c = d"
  by (simp add: code_def)

lemma code_lower_char: "code (lower_char c) = (if is_capital c then code c + 32 else code c)"
  by (simp add: lower_char_def is_capital_def code_def Let_def)

lemma lower_char_eq_iff: "lower_char c = lower_char d \<longleftrightarrow> same_but_for_case c d"
proof -
  have "lower_char c = lower_char d \<longleftrightarrow> code (lower_char c) = code (lower_char d)"
    by (simp add: code_eq_iff)
  also have "\<dots> \<longleftrightarrow> same_but_for_case c d"
    unfolding code_lower_char same_but_for_case_def code_eq_iff [of c d, symmetric]
    by (auto simp: is_capital_def Let_def)
  finally show ?thesis .
qed

lemma map_eq_map_iff: "map f xs = map f ys \<longleftrightarrow> list_all2 (\<lambda>x y. f x = f y) xs ys"
proof (induction xs arbitrary: ys)
  case Nil
  then show ?case by auto
next
  case (Cons x xs)
  then show ?case by (cases ys) auto
qed

lemma map_eq_appendD:
  "map f xs = ys @ zs \<Longrightarrow> \<exists>us vs. xs = us @ vs \<and> map f us = ys \<and> map f vs = zs"
  by (auto simp: map_eq_append_conv)

lemma lower_eq_iff: "lower p = lower w \<longleftrightarrow> list_all2 same_but_for_case p w"
  by (simp add: lower_def map_eq_map_iff lower_char_eq_iff)

lemma occurs_in_iff:
  "occurs_in pattern stderr \<longleftrightarrow>
     (\<exists>u w v. stderr = u @ w @ v \<and> list_all2 same_but_for_case pattern w)"
proof
  assume "occurs_in pattern stderr"
  then obtain a b where "lower stderr = a @ lower pattern @ b"
    by (auto simp: occurs_in_def contains_iff)
  then have "map lower_char stderr = a @ map lower_char pattern @ b"
    by (simp add: lower_def)
  then obtain u rest where whole: "stderr = u @ rest"
      and rest: "map lower_char rest = map lower_char pattern @ b"
    using map_eq_appendD [of lower_char stderr a "map lower_char pattern @ b"] by blast
  from rest obtain w v where "rest = w @ v" and w: "map lower_char w = map lower_char pattern"
    using map_eq_appendD [of lower_char rest "map lower_char pattern" b] by blast
  with whole have "stderr = u @ w @ v" by simp
  moreover from w have "lower pattern = lower w" by (simp add: lower_def)
  then have "list_all2 same_but_for_case pattern w" by (simp add: lower_eq_iff)
  ultimately show "\<exists>u w v. stderr = u @ w @ v \<and> list_all2 same_but_for_case pattern w"
    by blast
next
  assume "\<exists>u w v. stderr = u @ w @ v \<and> list_all2 same_but_for_case pattern w"
  then obtain u w v where whole: "stderr = u @ w @ v"
      and "list_all2 same_but_for_case pattern w"
    by blast
  then have "lower pattern = lower w" by (simp add: lower_eq_iff)
  with whole have "lower stderr = lower u @ lower pattern @ lower v"
    by (simp add: lower_def)
  then show "occurs_in pattern stderr"
    unfolding occurs_in_def contains_iff by blast
qed

text \<open>
  C7: \<open>analyze_failure\<close> returns one diagnosis for every text and never raises. A signature
  occurs in a text when some part of the text is the signature but for the case of its
  letters. When a signature occurs and none declared before it does, its diagnosis is
  returned, whatever occurs among the signatures declared after it; when no signature
  occurs, the diagnosis is the default one: the type "unknown error", the general
  suggestion, not fixable.
\<close>

theorem analyze_failure_first_match:
  "(\<forall>before pattern info after.
       patterns = before @ (pattern, info) # after
       \<and> occurs_in pattern stderr
       \<and> (\<forall>entry \<in> set before. \<not> occurs_in (fst entry) stderr) \<longrightarrow>
       analyze_failure stderr name =
         \<lparr> an_error_type = info_type info, an_suggestion = info_suggestion info,
           an_fixable = info_fixable info \<rparr>)
   \<and> ((\<forall>entry \<in> set patterns. \<not> occurs_in (fst entry) stderr) \<longrightarrow>
       analyze_failure stderr name =
         \<lparr> an_error_type = type_unknown, an_suggestion = suggest_unknown, an_fixable = False \<rparr>)
   \<and> (\<forall>pattern. occurs_in pattern stderr \<longleftrightarrow>
         (\<exists>u w v. stderr = u @ w @ v \<and> list_all2 same_but_for_case pattern w))"
proof (intro conjI allI impI)
  fix before pattern info after
  assume h: "patterns = before @ (pattern, info) # after \<and> occurs_in pattern stderr
     \<and> (\<forall>entry \<in> set before. \<not> occurs_in (fst entry) stderr)"
  then have "first_match patterns stderr = Some info"
    using first_match_earliest [of before stderr pattern info after] by simp
  then show "analyze_failure stderr name =
      \<lparr> an_error_type = info_type info, an_suggestion = info_suggestion info,
        an_fixable = info_fixable info \<rparr>"
    by (simp add: analyze_failure_def)
next
  assume "\<forall>entry \<in> set patterns. \<not> occurs_in (fst entry) stderr"
  then have "first_match patterns stderr = None"
    by (rule first_match_none)
  then show "analyze_failure stderr name =
      \<lparr> an_error_type = type_unknown, an_suggestion = suggest_unknown, an_fixable = False \<rparr>"
    by (simp add: analyze_failure_def)
next
  fix pattern
  show "occurs_in pattern stderr \<longleftrightarrow>
          (\<exists>u w v. stderr = u @ w @ v \<and> list_all2 same_but_for_case pattern w)"
    by (rule occurs_in_iff)
qed

lemma occurs_two_signatures:
  "\<not> occurs_in ''assertion failed'' two_signatures"
  "occurs_in ''panicked at'' two_signatures"
  "occurs_in ''attempt to add with overflow'' two_signatures"
  by code_simp+

lemma occurs_shouted_panic:
  "\<not> occurs_in ''assertion failed'' shouted_panic"
  "occurs_in ''panicked at'' shouted_panic"
  "\<not> contains ''panicked at'' shouted_panic"
  by code_simp+

lemma occurs_nowhere:
  "\<forall>entry \<in> set patterns. \<not> occurs_in (fst entry) ''exit status: 101''"
  by code_simp

theorem analyze_failure_first_match_witness:
  "analyze_failure two_signatures ''t'' =
     \<lparr> an_error_type = type_panic, an_suggestion = suggest_panic, an_fixable = False \<rparr>
   \<and> analyze_failure ''exit status: 101'' ''t'' =
     \<lparr> an_error_type = type_unknown, an_suggestion = suggest_unknown, an_fixable = False \<rparr>
   \<and> \<not> contains ''panicked at'' shouted_panic
   \<and> analyze_failure shouted_panic ''t'' =
     \<lparr> an_error_type = type_panic, an_suggestion = suggest_panic, an_fixable = False \<rparr>
   \<and> (\<exists>u w v. shouted_panic = u @ w @ v \<and> list_all2 same_but_for_case ''panicked at'' w)"
proof -
  define first_entry where "first_entry =
      (''assertion failed'',
        \<lparr> info_type = type_assertion, info_suggestion = suggest_assertion,
          info_fixable = False \<rparr>)"
  define panic_info where "panic_info =
      \<lparr> info_type = type_panic, info_suggestion = suggest_panic, info_fixable = False \<rparr>"
  have split: "patterns = [first_entry] @ (''panicked at'', panic_info) # tl (tl patterns)"
    by (simp add: patterns_def first_entry_def panic_info_def)
  have before: "\<forall>entry \<in> set [first_entry]. \<not> occurs_in (fst entry) two_signatures"
    using occurs_two_signatures(1) by (simp add: first_entry_def)
  have before': "\<forall>entry \<in> set [first_entry]. \<not> occurs_in (fst entry) shouted_panic"
    using occurs_shouted_panic(1) by (simp add: first_entry_def)
  note first = analyze_failure_first_match [of two_signatures "''t''"]
  note none = analyze_failure_first_match [of "''exit status: 101''" "''t''"]
  note shouted = analyze_failure_first_match [of shouted_panic "''t''"]
  from first have
    "patterns = [first_entry] @ (''panicked at'', panic_info) # tl (tl patterns)
       \<and> occurs_in ''panicked at'' two_signatures
       \<and> (\<forall>entry \<in> set [first_entry]. \<not> occurs_in (fst entry) two_signatures) \<longrightarrow>
     analyze_failure two_signatures ''t'' =
       \<lparr> an_error_type = info_type panic_info, an_suggestion = info_suggestion panic_info,
         an_fixable = info_fixable panic_info \<rparr>"
    by blast
  with split before occurs_two_signatures(2)
  have a: "analyze_failure two_signatures ''t'' =
       \<lparr> an_error_type = type_panic, an_suggestion = suggest_panic, an_fixable = False \<rparr>"
    by (simp add: panic_info_def)
  from none occurs_nowhere
  have b: "analyze_failure ''exit status: 101'' ''t'' =
       \<lparr> an_error_type = type_unknown, an_suggestion = suggest_unknown, an_fixable = False \<rparr>"
    by blast
  from shouted have
    "patterns = [first_entry] @ (''panicked at'', panic_info) # tl (tl patterns)
       \<and> occurs_in ''panicked at'' shouted_panic
       \<and> (\<forall>entry \<in> set [first_entry]. \<not> occurs_in (fst entry) shouted_panic) \<longrightarrow>
     analyze_failure shouted_panic ''t'' =
       \<lparr> an_error_type = info_type panic_info, an_suggestion = info_suggestion panic_info,
         an_fixable = info_fixable panic_info \<rparr>"
    by blast
  with split before' occurs_shouted_panic(2)
  have c: "analyze_failure shouted_panic ''t'' =
       \<lparr> an_error_type = type_panic, an_suggestion = suggest_panic, an_fixable = False \<rparr>"
    by (simp add: panic_info_def)
  from shouted occurs_shouted_panic(2)
  have d: "\<exists>u w v. shouted_panic = u @ w @ v \<and> list_all2 same_but_for_case ''panicked at'' w"
    by blast
  from a b c d occurs_shouted_panic(3) show ?thesis by blast
qed

text \<open>
  C8 as stated says that every text that holds \<open>attempt to add with overflow\<close> is
  diagnosed as an arithmetic overflow that can be fixed. The signature \<open>panicked at\<close> is
  declared before it and wins when both occur, as in the message of a Rust overflow panic:
  the diagnosis is then a panic that cannot be fixed.
\<close>

theorem overflow_text_diagnosed_as_panic:
  "contains ''attempt to add with overflow'' two_signatures
   \<and> analyze_failure two_signatures ''t'' =
       \<lparr> an_error_type = type_panic, an_suggestion = suggest_panic, an_fixable = False \<rparr>"
proof -
  have "first_match patterns two_signatures
          = Some \<lparr> info_type = type_panic, info_suggestion = suggest_panic,
                   info_fixable = False \<rparr>"
    using occurs_two_signatures by (simp add: patterns_def)
  moreover have "contains ''attempt to add with overflow'' two_signatures"
    by code_simp
  ultimately show ?thesis
    by (simp add: analyze_failure_def)
qed

text \<open>
  C8, amended: every text that holds \<open>attempt to add with overflow\<close> and in which neither
  of the two signatures declared before it, \<open>assertion failed\<close> and \<open>panicked at\<close>, occurs
  is diagnosed as an arithmetic overflow that can be fixed.
\<close>

theorem overflow_diagnosis:
  assumes "contains ''attempt to add with overflow'' stderr"
      and "\<not> occurs_in ''assertion failed'' stderr"
      and "\<not> occurs_in ''panicked at'' stderr"
  shows "an_error_type (analyze_failure stderr name) = type_overflow
     \<and> an_fixable (analyze_failure stderr name) = True"
proof -
  have "lower ''attempt to add with overflow'' = ''attempt to add with overflow''"
    by code_simp
  then have "occurs_in ''attempt to add with overflow'' stderr"
    using contains_lower [OF assms(1)] by (simp add: occurs_in_def)
  then have "first_match patterns stderr
          = Some \<lparr> info_type = type_overflow, info_suggestion = suggest_overflow,
                   info_fixable = True \<rparr>"
    using assms(2,3) by (simp add: patterns_def)
  then show ?thesis
    by (simp add: analyze_failure_def)
qed

theorem overflow_diagnosis_witness:
  "an_error_type (analyze_failure ''attempt to add with overflow'' ''t'') = type_overflow
   \<and> an_fixable (analyze_failure ''attempt to add with overflow'' ''t'') = True"
proof -
  have a: "contains ''attempt to add with overflow'' ''attempt to add with overflow''"
    by code_simp
  have b: "\<not> occurs_in ''assertion failed'' ''attempt to add with overflow''"
    by code_simp
  have c: "\<not> occurs_in ''panicked at'' ''attempt to add with overflow''"
    by code_simp
  show ?thesis
    using overflow_diagnosis [OF a b c] by simp
qed

section \<open>The auditor\<close>

subsection \<open>What one line gives\<close>

lemma concat_map_if: "concat (map (\<lambda>x. if P x then [f x] else []) xs) = map f (filter P xs)"
  by (induction xs) auto

lemma scan_line_eligible:
  assumes "\<not> starts_with ''//'' (strip line)"
      and "\<not> contains ''#[test]'' line" and "\<not> contains ''#test'' line"
  shows "scan_line catalog path line_num line =
     map (make_issue path line_num (strip line))
         (filter (\<lambda>config. re_search (cfg_pattern config) line) catalog)"
  using assms by (simp add: scan_line_def Let_def concat_map_if)

lemma scan_line_comment:
  "starts_with ''//'' (strip line) \<Longrightarrow> scan_line catalog path line_num line = []"
  by (simp add: scan_line_def)

lemma scan_line_number:
  "issue \<in> set (scan_line catalog path line_num line) \<Longrightarrow> line_number issue = line_num"
  by (auto simp: scan_line_def Let_def make_issue_def split: if_splits)

lemma scan_from_numbers:
  "issue \<in> set (concat (map (\<lambda>(k, l). scan_line catalog path k l) (List.enumerate m ls)))
     \<Longrightarrow> m \<le> line_number issue"
proof (induction ls arbitrary: m)
  case Nil
  then show ?case by simp
next
  case (Cons l ls)
  then consider "issue \<in> set (scan_line catalog path m l)"
    | "issue \<in> set (concat (map (\<lambda>(k, l). scan_line catalog path k l)
                                 (List.enumerate (Suc m) ls)))"
    by auto
  then show ?case
  proof cases
    case 1
    then show ?thesis by (simp add: scan_line_number)
  next
    case 2
    then have "Suc m \<le> line_number issue" by (rule Cons.IH)
    then show ?thesis by simp
  qed
qed

lemma filter_all: "(\<And>x. x \<in> set xs \<Longrightarrow> P x) \<Longrightarrow> filter P xs = xs"
  by (induction xs) auto

lemma filter_none: "(\<And>x. x \<in> set xs \<Longrightarrow> \<not> P x) \<Longrightarrow> filter P xs = []"
  by (induction xs) auto

lemma scan_from_line:
  "n < length ls \<Longrightarrow>
     filter (\<lambda>issue. line_number issue = m + n)
       (concat (map (\<lambda>(k, l). scan_line catalog path k l) (List.enumerate m ls)))
     = scan_line catalog path (m + n) (ls ! n)"
proof (induction ls arbitrary: m n)
  case Nil
  then show ?case by simp
next
  case (Cons l ls)
  let ?rest = "concat (map (\<lambda>(k, l). scan_line catalog path k l) (List.enumerate (Suc m) ls))"
  show ?case
  proof (cases n)
    case 0
    have here: "filter (\<lambda>issue. line_number issue = m) (scan_line catalog path m l)
                  = scan_line catalog path m l"
      by (rule filter_all) (simp add: scan_line_number)
    have later: "filter (\<lambda>issue. line_number issue = m) ?rest = []"
    proof (rule filter_none)
      fix issue assume "issue \<in> set ?rest"
      then have "Suc m \<le> line_number issue" by (rule scan_from_numbers)
      then show "line_number issue \<noteq> m" by simp
    qed
    show ?thesis using 0 here later by simp
  next
    case (Suc n')
    have here: "filter (\<lambda>issue. line_number issue = m + n) (scan_line catalog path m l) = []"
    proof (rule filter_none)
      fix issue assume "issue \<in> set (scan_line catalog path m l)"
      then have "line_number issue = m" by (rule scan_line_number)
      then show "line_number issue \<noteq> m + n" using Suc by simp
    qed
    have "n' < length ls" using Cons.prems Suc by simp
    then have later: "filter (\<lambda>issue. line_number issue = Suc m + n') ?rest
                        = scan_line catalog path (Suc m + n') (ls ! n')"
      by (rule Cons.IH)
    show ?thesis using Suc here later by simp
  qed
qed

lemma scan_lines_line:
  assumes "n < length lines"
  shows "filter (\<lambda>issue. line_number issue = Suc n) (scan_lines path lines)
           = scan_line CHECK_PATTERNS path (Suc n) (lines ! n)"
  using scan_from_line [OF assms, of 1 CHECK_PATTERNS path] by (simp add: scan_lines_def)

lemma rule_names_distinct: "distinct (map rule_name CHECK_PATTERNS)"
  by (simp add: CHECK_PATTERNS_def)

text \<open>
  C5: the issues that \<open>check_rust_file\<close> reports for a line that is neither a comment nor
  marked as test code are one issue for each rule of the catalogue whose pattern is found in
  the line, in the order of the catalogue: every rule is tried. So a line that K rules
  match gives K issues, and the severity and the category of each are those of its rule.
\<close>

theorem every_matching_rule_reported:
  assumes "n < length lines"
      and "\<not> starts_with ''//'' (strip (lines ! n))"
      and "\<not> contains ''#[test]'' (lines ! n)" and "\<not> contains ''#test'' (lines ! n)"
  shows "filter (\<lambda>issue. line_number issue = Suc n) (scan_lines path lines)
           = map (make_issue path (Suc n) (strip (lines ! n)))
                 (filter (\<lambda>config. re_search (cfg_pattern config) (lines ! n)) CHECK_PATTERNS)
     \<and> length (filter (\<lambda>issue. line_number issue = Suc n) (scan_lines path lines))
           = length (filter (\<lambda>config. re_search (cfg_pattern config) (lines ! n)) CHECK_PATTERNS)
     \<and> map (\<lambda>issue. (severity issue, category issue))
            (filter (\<lambda>issue. line_number issue = Suc n) (scan_lines path lines))
           = map (\<lambda>config. (cfg_severity config, cfg_category config))
                 (filter (\<lambda>config. re_search (cfg_pattern config) (lines ! n)) CHECK_PATTERNS)"
proof -
  have eq: "filter (\<lambda>issue. line_number issue = Suc n) (scan_lines path lines)
           = map (make_issue path (Suc n) (strip (lines ! n)))
                 (filter (\<lambda>config. re_search (cfg_pattern config) (lines ! n)) CHECK_PATTERNS)"
    using scan_lines_line [OF assms(1)] scan_line_eligible [OF assms(2,3,4)] by simp
  show ?thesis
    unfolding eq by (simp add: make_issue_def comp_def)
qed

lemma parse_line_sample_matches:
  "map (\<lambda>config. re_search (cfg_pattern config) parse_line_sample) CHECK_PATTERNS
     = [True, False, False, False, False, False, False, False, True, False, False]"
  by code_simp

lemma parse_line_sample_eligible:
  "\<not> starts_with ''//'' (strip parse_line_sample)"
  "\<not> contains ''#[test]'' parse_line_sample"
  "\<not> contains ''#test'' parse_line_sample"
  by code_simp+

theorem every_matching_rule_reported_witness:
  "map (\<lambda>issue. (severity issue, category issue))
       (filter (\<lambda>issue. line_number issue = 2)
               (scan_lines ''src/a.rs'' [comment_sample, parse_line_sample]))
     = [(HIGH, category_unwrap), (MEDIUM, category_parse_unwrap)]
   \<and> length (filter (\<lambda>issue. line_number issue = 2)
                    (scan_lines ''src/a.rs'' [comment_sample, parse_line_sample])) = 2"
proof -
  let ?lines = "[comment_sample, parse_line_sample]"
  let ?found = "filter (\<lambda>issue. line_number issue = Suc (Suc 0)) (scan_lines ''src/a.rs'' ?lines)"
  let ?rules = "filter (\<lambda>config. re_search (cfg_pattern config) parse_line_sample)
                  CHECK_PATTERNS"
  have matching:
    "map (\<lambda>config. (cfg_severity config, cfg_category config)) ?rules
       = [(HIGH, category_unwrap), (MEDIUM, category_parse_unwrap)]"
    using parse_line_sample_matches by (simp add: CHECK_PATTERNS_def)
  have "length (map (\<lambda>config. (cfg_severity config, cfg_category config)) ?rules) = 2"
    unfolding matching by simp
  then have count: "length ?rules = 2" by simp
  have n: "Suc 0 < length ?lines" by simp
  have e1: "\<not> starts_with ''//'' (strip (?lines ! Suc 0))"
    and e2: "\<not> contains ''#[test]'' (?lines ! Suc 0)"
    and e3: "\<not> contains ''#test'' (?lines ! Suc 0)"
    using parse_line_sample_eligible by simp_all
  have l: "?lines ! Suc 0 = parse_line_sample" by simp
  note reported = every_matching_rule_reported [OF n e1 e2 e3, of "''src/a.rs''", unfolded l]
  have a: "length ?found = 2"
    using reported [THEN conjunct2, THEN conjunct1] count by (rule trans)
  have b: "map (\<lambda>issue. (severity issue, category issue)) ?found
       = [(HIGH, category_unwrap), (MEDIUM, category_parse_unwrap)]"
    using reported [THEN conjunct2, THEN conjunct2] matching by (rule trans)
  from a b show ?thesis by (simp add: numeral_2_eq_2)
qed

subsection \<open>Comment lines\<close>

text \<open>
  C6: a line whose text, white space removed at both ends, begins with \<open>//\<close> gives no
  issue, whatever the patterns would find in it.
\<close>

theorem comment_line_gives_no_issue:
  assumes "n < length lines" and "starts_with ''//'' (strip (lines ! n))"
  shows "filter (\<lambda>issue. line_number issue = Suc n) (scan_lines path lines) = []
     \<and> scan_line CHECK_PATTERNS path (Suc n) (lines ! n) = []"
  using scan_lines_line [OF assms(1)] scan_line_comment [OF assms(2)] by simp

lemma comment_sample_is_comment: "starts_with ''//'' (strip comment_sample)"
  by code_simp

lemma comment_sample_matches: "re_search pattern_unwrap comment_sample"
  by code_simp

theorem comment_line_gives_no_issue_witness:
  "re_search pattern_unwrap comment_sample
   \<and> filter (\<lambda>issue. line_number issue = 1)
        (scan_lines ''src/a.rs'' [comment_sample, parse_line_sample]) = []
   \<and> scan_line CHECK_PATTERNS ''src/a.rs'' 1 comment_sample = []"
  using comment_line_gives_no_issue [of 0 "[comment_sample, parse_line_sample]" "''src/a.rs''"]
    comment_sample_is_comment comment_sample_matches
  by simp

subsection \<open>The exit status of the auditor\<close>

lemma scanned_issues_main:
  "concat (map fst (map check_rust_file (find_rust_files found))) = scanned_issues found"
  by (simp add: scanned_issues_def comp_def)

lemma filter_empty_iff: "filter P xs \<noteq> [] \<longleftrightarrow> (\<exists>x \<in> set xs. P x)"
  by (induction xs) auto

lemma audit_main_exit:
  "exit_status (audit_main check_path True found) =
     (if \<exists>issue \<in> set (scanned_issues found). severity issue = HIGH then 1 else 0)"
proof (cases "find_rust_files found = []")
  case True
  then have "scanned_issues found = []" by (simp add: scanned_issues_def)
  then show ?thesis using True by (simp add: audit_main_def)
next
  case False
  then show ?thesis
    unfolding audit_main_def Let_def scanned_issues_main filter_empty_iff by simp
qed

text \<open>
  C4: when the path to check exists, the auditor exits with status 1 exactly when one of
  the issues found in the scanned files has high severity, and with status 0 otherwise:
  when no file is left to scan, when nothing is found, and when all that is found has medium
  or low severity.
\<close>

theorem auditor_exit_status:
  assumes "path_exists"
  shows "(exit_status (audit_main check_path path_exists found) = 1 \<longleftrightarrow>
            (\<exists>issue \<in> set (scanned_issues found). severity issue = HIGH))
     \<and> (exit_status (audit_main check_path path_exists found) = 0 \<longleftrightarrow>
            (\<forall>issue \<in> set (scanned_issues found). severity issue \<noteq> HIGH))
     \<and> (find_rust_files found = [] \<longrightarrow>
            exit_status (audit_main check_path path_exists found) = 0)"
proof -
  have e: "exit_status (audit_main check_path path_exists found) =
     (if \<exists>issue \<in> set (scanned_issues found). severity issue = HIGH then 1 else 0)"
    using assms audit_main_exit by simp
  have none: "find_rust_files found = [] \<Longrightarrow> scanned_issues found = []"
    by (simp add: scanned_issues_def)
  show ?thesis
  proof (cases "\<exists>issue \<in> set (scanned_issues found). severity issue = HIGH")
    case True
    then have "scanned_issues found \<noteq> []" by auto
    then have "find_rust_files found \<noteq> []" using none by blast
    then show ?thesis using True e by simp
  next
    case False
    then show ?thesis using e by simp
  qed
qed

lemma sample_scans:
  "map severity (scanned_issues [sample_file, built_file]) = [HIGH, MEDIUM]"
  "map severity (scanned_issues [medium_file]) = [MEDIUM]"
  "find_rust_files [built_file] = []"
  by code_simp+

theorem auditor_exit_status_witness:
  "exit_status (audit_main ''src'' True [sample_file, built_file]) = 1
   \<and> exit_status (audit_main ''src'' True [medium_file]) = 0
   \<and> exit_status (audit_main ''src'' True [built_file]) = 0"
proof -
  have "HIGH \<in> set (map severity (scanned_issues [sample_file, built_file]))"
    unfolding sample_scans by simp
  then obtain x where "x \<in> set (scanned_issues [sample_file, built_file])"
      and "severity x = HIGH"
    by auto
  then have high: "\<exists>issue \<in> set (scanned_issues [sample_file, built_file]). severity issue = HIGH"
    by blast
  have "HIGH \<notin> set (map severity (scanned_issues [medium_file]))"
    unfolding sample_scans by simp
  then have medium: "\<forall>issue \<in> set (scanned_issues [medium_file]). severity issue \<noteq> HIGH"
    by (auto simp: image_iff)
  show ?thesis
    using auditor_exit_status [of True "''src''" "[sample_file, built_file]"]
      auditor_exit_status [of True "''src''" "[medium_file]"]
      auditor_exit_status [of True "''src''" "[built_file]"]
      high medium sample_scans(3)
    by blast
qed

section \<open>The reports\<close>

subsection \<open>The dictionary of files\<close>

text \<open>
  The dictionary that groups the issues of one severity by file has each path once, so
  sorting its items compares paths only, never the lists of issues, and gives the same
  sequence whatever the order of the items was.
\<close>

lemma add_to_file_keys:
  "map fst (add_to_file issue d) =
     (if file_path issue \<in> set (map fst d) then map fst d else map fst d @ [file_path issue])"
proof (induction d)
  case Nil
  then show ?case by simp
next
  case (Cons entry d)
  obtain k v where entry: "entry = (k, v)" by (cases entry)
  show ?case
  proof (cases "k = file_path issue")
    case True
    then show ?thesis by (simp add: entry)
  next
    case False
    then show ?thesis using Cons.IH by (simp add: entry)
  qed
qed

lemma add_to_file_distinct:
  "distinct (map fst d) \<Longrightarrow> distinct (map fst (add_to_file issue d))"
  by (simp add: add_to_file_keys)

lemma foldl_add_to_file_distinct:
  "distinct (map fst d) \<Longrightarrow> distinct (map fst (foldl (\<lambda>d issue. add_to_file issue d) d issues))"
  by (induction issues arbitrary: d) (simp_all add: add_to_file_distinct)

lemma group_by_file_distinct: "distinct (map fst (group_by_file issues))"
  by (simp add: group_by_file_def foldl_add_to_file_distinct)

lemma only_entry_of_key:
  "distinct (map fst d) \<Longrightarrow> entry \<in> set d \<Longrightarrow> filter (\<lambda>x. fst entry = fst x) d = [entry]"
proof (induction d)
  case Nil
  then show ?case by simp
next
  case (Cons e d)
  show ?case
  proof (cases "entry = e")
    case True
    have "filter (\<lambda>x. fst e = fst x) d = []"
      using Cons.prems(1) by (auto simp: filter_empty_conv)
    then show ?thesis using True by simp
  next
    case False
    then have "entry \<in> set d" using Cons.prems(2) by simp
    moreover have "fst entry \<noteq> fst e"
      using Cons.prems(1) \<open>entry \<in> set d\<close> by (auto simp: image_iff)
    ultimately show ?thesis using Cons by simp
  qed
qed

lemma distinct_keys_mset:
  "mset d' = mset d \<Longrightarrow> distinct (map fst d) \<Longrightarrow> distinct (map fst d')"
proof -
  assume same: "mset d' = mset d" and keys: "distinct (map fst d)"
  from same have "mset (map fst d') = mset (map fst d)" by simp
  then show ?thesis using keys by (metis mset_eq_imp_distinct_iff)
qed

lemma sorted_items_order_free:
  assumes keys: "distinct (map fst d)" and same: "mset d' = mset d"
  shows "sort_key fst d' = sort_key fst d"
proof (rule properties_for_sort_key)
  show "mset (sort_key fst d) = mset d'" using same by simp
next
  show "sorted (map fst (sort_key fst d))" by simp
next
  fix entry assume "entry \<in> set (sort_key fst d)"
  then have in_d: "entry \<in> set d" by simp
  then have in_d': "entry \<in> set d'" using same by (metis mset_eq_setD)
  have keys': "distinct (map fst d')" using same keys by (rule distinct_keys_mset)
  have keys_sorted: "distinct (map fst (sort_key fst d))"
    using keys by (rule distinct_keys_mset [rotated]) simp
  have "filter (\<lambda>x. fst entry = fst x) (sort_key fst d) = [entry]"
    using keys_sorted \<open>entry \<in> set (sort_key fst d)\<close> by (rule only_entry_of_key)
  moreover have "filter (\<lambda>x. fst entry = fst x) d' = [entry]"
    using keys' in_d' by (rule only_entry_of_key)
  ultimately show "filter (\<lambda>x. fst entry = fst x) (sort_key fst d)
                     = filter (\<lambda>x. fst entry = fst x) d'"
    by simp
qed

lemma severity_section_by_any_order:
  assumes "iteration_order items_of"
  shows "severity_section_by items_of issues sev = severity_section issues sev"
proof -
  let ?d = "group_by_file (filter (\<lambda>issue. severity issue = sev) issues)"
  have "mset (items_of ?d) = mset ?d"
    using assms unfolding iteration_order_def by blast
  then have "sort_key fst (items_of ?d) = sort_key fst ?d"
    using group_by_file_distinct by (rule sorted_items_order_free [rotated])
  then show ?thesis
    unfolding severity_section_by_def severity_section_def Let_def by (simp only:)
qed

lemma format_report_by_any_order:
  assumes "iteration_order items_of"
  shows "format_report_by items_of issues = format_report issues"
proof -
  have "severity_section_by items_of issues = severity_section issues"
    using severity_section_by_any_order [OF assms] by (rule ext)
  then show ?thesis
    unfolding format_report_by_def format_report_def by (simp only:)
qed

lemma iteration_order_insertion: "iteration_order (\<lambda>d. d)"
  by (simp add: iteration_order_def)

lemma iteration_order_rev: "iteration_order rev"
  by (simp add: iteration_order_def)

subsection \<open>What the test report reads\<close>

lemma format_test_report_reads:
  assumes total: "length results1 = length results2"
      and failed: "filter (\<lambda>r. status r = FAILED) results1 = filter (\<lambda>r. status r = FAILED) results2"
      and names: "map test_name (take 10 (filter (\<lambda>r. status r = PASSED) results1))
                    = map test_name (take 10 (filter (\<lambda>r. status r = PASSED) results2))"
      and passed: "length (filter (\<lambda>r. status r = PASSED) results1)
                    = length (filter (\<lambda>r. status r = PASSED) results2)"
      and ignored: "length (filter (\<lambda>r. status r = IGNORED) results1)
                    = length (filter (\<lambda>r. status r = IGNORED) results2)"
  shows "format_test_report results1 = format_test_report results2"
proof -
  let ?P1 = "filter (\<lambda>r. status r = PASSED) results1"
  let ?P2 = "filter (\<lambda>r. status r = PASSED) results2"
  have "map ((@) ''- '') (map test_name (take 10 ?P1))
          = map ((@) ''- '') (map test_name (take 10 ?P2))"
    using names by simp
  then have lines: "map (\<lambda>r. ''- '' @ test_name r) (take 10 ?P1)
          = map (\<lambda>r. ''- '' @ test_name r) (take 10 ?P2)"
    by (simp add: comp_def)
  have none: "?P1 = [] \<longleftrightarrow> ?P2 = []"
    using passed by (metis length_0_conv)
  show ?thesis
    unfolding format_test_report_def Let_def
    by (simp only: total failed lines passed ignored none)
qed

text \<open>
  C9: the report builders are deterministic. Two runs of \<open>format_report\<close> on the same
  findings give the same text, in whatever order the dictionary of each run yields its
  items, and the run of the program, which yields them in the order of insertion, is one of
  them. The text of \<open>format_test_report\<close> is fixed by what it reads of the results: their
  number, the failed ones, the names of the first ten passed ones and the numbers of the
  passed and of the ignored ones; so two runs on the same results give the same text.
\<close>

theorem reports_same_in_every_run:
  "(iteration_order items1 \<and> iteration_order items2 \<and> issues1 = issues2 \<longrightarrow>
      format_report_by items1 issues1 = format_report_by items2 issues2)
   \<and> format_report_by (\<lambda>d. d) issues1 = format_report issues1
   \<and> (length results1 = length results2
      \<and> filter (\<lambda>r. status r = FAILED) results1 = filter (\<lambda>r. status r = FAILED) results2
      \<and> map test_name (take 10 (filter (\<lambda>r. status r = PASSED) results1))
          = map test_name (take 10 (filter (\<lambda>r. status r = PASSED) results2))
      \<and> length (filter (\<lambda>r. status r = PASSED) results1)
          = length (filter (\<lambda>r. status r = PASSED) results2)
      \<and> length (filter (\<lambda>r. status r = IGNORED) results1)
          = length (filter (\<lambda>r. status r = IGNORED) results2) \<longrightarrow>
      format_test_report results1 = format_test_report results2)
   \<and> (results1 = results2 \<longrightarrow> format_test_report results1 = format_test_report results2)"
proof (intro conjI impI)
  assume "iteration_order items1 \<and> iteration_order items2 \<and> issues1 = issues2"
  then show "format_report_by items1 issues1 = format_report_by items2 issues2"
    by (simp add: format_report_by_any_order)
next
  show "format_report_by (\<lambda>d. d) issues1 = format_report issues1"
    using iteration_order_insertion by (rule format_report_by_any_order)
next
  assume "length results1 = length results2
      \<and> filter (\<lambda>r. status r = FAILED) results1 = filter (\<lambda>r. status r = FAILED) results2
      \<and> map test_name (take 10 (filter (\<lambda>r. status r = PASSED) results1))
          = map test_name (take 10 (filter (\<lambda>r. status r = PASSED) results2))
      \<and> length (filter (\<lambda>r. status r = PASSED) results1)
          = length (filter (\<lambda>r. status r = PASSED) results2)
      \<and> length (filter (\<lambda>r. status r = IGNORED) results1)
          = length (filter (\<lambda>r. status r = IGNORED) results2)"
  then show "format_test_report results1 = format_test_report results2"
    using format_test_report_reads [of results1 results2] by blast
next
  assume "results1 = results2"
  then show "format_test_report results1 = format_test_report results2" by simp
qed

lemma two_files_scanned:
  "map (\<lambda>issue. (file_path issue, severity issue)) (scanned_issues [medium_file, sample_file])
     = [(''src/b.rs'', MEDIUM), (''src/a.rs'', HIGH), (''src/a.rs'', MEDIUM)]"
  by code_simp

theorem reports_same_in_every_run_witness:
  "format_report_by rev (scanned_issues [medium_file, sample_file])
     = format_report_by (\<lambda>d. d) (scanned_issues [medium_file, sample_file])
   \<and> format_report_by (\<lambda>d. d) (scanned_issues [medium_file, sample_file])
     = format_report (scanned_issues [medium_file, sample_file])
   \<and> format_test_report ignored_a = format_test_report ignored_b
   \<and> format_test_report ignored_a = format_test_report ignored_a"
proof -
  note run = reports_same_in_every_run
      [of rev "\<lambda>d. d" "scanned_issues [medium_file, sample_file]"
          "scanned_issues [medium_file, sample_file]" ignored_a ignored_b]
  note same = reports_same_in_every_run
      [of rev "\<lambda>d. d" "scanned_issues [medium_file, sample_file]"
          "scanned_issues [medium_file, sample_file]" ignored_a ignored_a]
  have a: "format_report_by rev (scanned_issues [medium_file, sample_file])
     = format_report_by (\<lambda>d. d) (scanned_issues [medium_file, sample_file])"
    using run iteration_order_rev iteration_order_insertion by blast
  have b: "format_report_by (\<lambda>d. d) (scanned_issues [medium_file, sample_file])
     = format_report (scanned_issues [medium_file, sample_file])"
    using run by blast
  have reads: "length ignored_a = length ignored_b
      \<and> filter (\<lambda>r. status r = FAILED) ignored_a = filter (\<lambda>r. status r = FAILED) ignored_b
      \<and> map test_name (take 10 (filter (\<lambda>r. status r = PASSED) ignored_a))
          = map test_name (take 10 (filter (\<lambda>r. status r = PASSED) ignored_b))
      \<and> length (filter (\<lambda>r. status r = PASSED) ignored_a)
          = length (filter (\<lambda>r. status r = PASSED) ignored_b)
      \<and> length (filter (\<lambda>r. status r = IGNORED) ignored_a)
          = length (filter (\<lambda>r. status r = IGNORED) ignored_b)"
    by (simp add: ignored_a_def ignored_b_def)
  have c: "format_test_report ignored_a = format_test_report ignored_b"
    using run reads by blast
  have d: "format_test_report ignored_a = format_test_report ignored_a"
    using same by blast
  from a b c d show ?thesis by blast
qed

end
